theory Spec2Isabelle
  imports Complex_Main "HOL-Library.AList" "HOL-Library.Sublist"
begin

section \<open>JavaScript numbers\<close>

text \<open>
  The values of a JavaScript \<open>number\<close> as the configuration carries them: not-a-number,
  the two infinities, and the finite numbers, each standing for the rational number it
  denotes. The comparisons \<open><\<close>, \<open><=\<close> and \<open>===\<close> are false as soon as one side is
  not-a-number.
\<close>

datatype jsnum = NaN | NegInf | Fin rat | PosInf

fun jsLess :: "jsnum \<Rightarrow> jsnum \<Rightarrow> bool" where
  "jsLess NaN b = False"
| "jsLess a NaN = False"
| "jsLess PosInf b = False"
| "jsLess a NegInf = False"
| "jsLess NegInf b = True"
| "jsLess (Fin x) (Fin y) = (x < y)"
| "jsLess (Fin x) PosInf = True"

fun jsLessEq :: "jsnum \<Rightarrow> jsnum \<Rightarrow> bool" where
  "jsLessEq NaN b = False"
| "jsLessEq a NaN = False"
| "jsLessEq a b = (a = b \<or> jsLess a b)"

definition jsStrictEq :: "jsnum \<Rightarrow> jsnum \<Rightarrow> bool" where
  "jsStrictEq a b = (a \<noteq> NaN \<and> a = b)"

definition isNaN :: "jsnum \<Rightarrow> bool" where
  "isNaN x = (x = NaN)"

text \<open>A whole number (a counter, an array length) as a JavaScript number.\<close>

definition num :: "int \<Rightarrow> jsnum" where
  "num i = Fin (of_int i)"

section \<open>Data model (the interfaces of the types module)\<close>

text \<open>
  The TypeScript \<open>number\<close> fields that the engine uses as counters, block numbers,
  millisecond clocks and account sequence numbers are whole numbers, modelled as \<open>int\<close>;
  \<open>bigint\<close> is \<open>int\<close>. The four numeric fields of the configuration are whatever
  \<open>parseFloat\<close> returned: \<open>jsnum\<close>. A value that may be \<open>null\<close> or \<open>undefined\<close> is
  an \<open>option\<close>. Console output is not modelled. The date formatting inside the log
  lines of \<open>handleNewBlock\<close> and \<open>processBlock\<close> is not modelled either: the
  timestamps of the blocks delivered are taken to be well-formed, so that formatting them
  does not throw.
\<close>

record BlockData =
  number :: string
  hash :: string
  timestamp :: string
  transactions :: "string list"

record ConfirmationMetrics =
  transactionHash :: string
  sentBlockNumber :: int
  confirmedBlockNumber :: int
  blocksToConfirm :: int
  confirmationTimeMs :: int
  gasUsed :: int
  effectiveGasPrice :: int
  sentBlockTimestamp :: string
  confirmedBlockTimestamp :: string
  sentTimestamp :: int

record BlockReactionConfig =
  websocketUrl :: string
  httpRpcUrl :: string
  privateKey :: string
  recipientAddress :: string
  gasLimit :: jsnum
  gasPriceGwei :: jsnum
  initialBlocksToSkip :: jsnum
  transactionCount :: jsnum

record CachedGasData =
  gasPrice :: int
  maxFeePerGas :: "int option"
  maxPriorityFeePerGas :: "int option"
  lastUpdated :: int

text \<open>The nonce cell \<open>{ nonce: number; lastUpdated: number }\<close> of the services.\<close>

record CachedNonce =
  nonce :: int
  nonceLastUpdated :: int

text \<open>The value type of the \<open>pendingTransactions\<close> map.\<close>

record PendingInfo =
  sentBlock :: int
  startTime :: int
  infoSentBlockTimestamp :: string
  infoSentTimestamp :: int

section \<open>The chain client (ethers provider and wallet)\<close>

text \<open>
  The chain client is external. What it answers is an input of the model: every
  operation takes, beside the engine state, the answers the client gives to the calls
  the operation makes, and the readings of \<open>Date.now()\<close>. An answer \<open>None\<close> is a
  call that throws (a rejected promise).
\<close>

record FeeData =
  feeGasPrice :: "int option"
  feeMaxFeePerGas :: "int option"
  feeMaxPriorityFeePerGas :: "int option"

record TransactionRequest =
  txTo :: string
  txValue :: int
  txGasLimit :: jsnum
  txGasPrice :: int
  txNonce :: int

record TransactionReceipt =
  receiptBlockNumber :: int
  receiptGasUsed :: int
  receiptGasPrice :: "int option"

record Block =
  blockNumberOf :: int
  blockHash :: "string option"
  blockTimestamp :: int
  blockTransactions :: "string list"

text \<open>
  What is thrown: the error of a chain-client call, the error of \<open>ethers.parseUnits\<close>
  on a string it does not accept, the \<open>RangeError\<close> of \<open>toISOString\<close>.
\<close>

datatype rpc_error = RpcError | UnitsError | RangeError

text \<open>
  The calls made to the chain client are recorded in a log kept beside the engine
  state: a query when it is issued, a submission when it is answered, with the request
  and the hash returned (\<open>None\<close> when the client rejected it).
\<close>

datatype rpc =
    GetFeeData
  | GetNonce
  | SendTransaction TransactionRequest "string option"
  | GetTransactionReceipt string
  | GetBlock int
  | GetBlockNumber

section \<open>Engine state (the private fields of BlockchainService and BlockchainServiceHTTP)\<close>

text \<open>
  The two services declare the same fields, but for \<open>isConnected\<close> (subscription
  service) and \<open>isPolling\<close>, \<open>lastProcessedBlock\<close> (polling service). The methods
  \<open>sendTransaction\<close>, \<open>getCachedGasData\<close>, \<open>getCachedNonce\<close>,
  \<open>processConfirmedTransaction\<close> and the two interval callbacks have the same text in
  both files and are modelled once. \<open>pendingTransactions\<close> is a JavaScript \<open>Map\<close>,
  which keeps insertion order: an association list. \<open>exited\<close> records a call of
  \<open>process.exit\<close>, \<open>exitScheduled\<close> the one-second timer that calls it.
\<close>

record engine =
  blockCount :: int
  pendingTransactions :: "(string \<times> PendingInfo) list"
  confirmationMetrics :: "ConfirmationMetrics list"
  isConnected :: bool
  isPolling :: bool
  sentTransactionCount :: int
  lastProcessedBlock :: int
  cachedGasData :: "CachedGasData option"
  cachedNonce :: "CachedNonce option"
  rpcLog :: "rpc list"
  exitScheduled :: bool
  exited :: bool

definition initialEngine :: engine where
  "initialEngine =
     \<lparr>blockCount = 0, pendingTransactions = [], confirmationMetrics = [],
      isConnected = False, isPolling = False, sentTransactionCount = 0,
      lastProcessedBlock = 0, cachedGasData = None, cachedNonce = None,
      rpcLog = [], exitScheduled = False, exited = False\<rparr>"

definition GAS_CACHE_TTL :: int where
  "GAS_CACHE_TTL = 30000"

definition NONCE_CACHE_TTL :: int where
  "NONCE_CACHE_TTL = 60000"

section \<open>Parameter cache\<close>

text \<open>
  \<open>ethers.parseUnits(`${this.config.gasPriceGwei}`, 'gwei')\<close> is a library function
  applied to the decimal rendering of the configured number; it is taken as the
  parameter \<open>parseUnits\<close>, with \<open>None\<close> for a rendering it throws on.

  \<open>x || undefined\<close> on a \<open>bigint | null\<close>: \<open>null\<close> and \<open>0n\<close> are falsy. In
  \<open>x || d\<close> the right operand is evaluated only when the left one is falsy.
\<close>

definition orUndefined :: "int option \<Rightarrow> int option" where
  "orUndefined x = (case x of None \<Rightarrow> None | Some v \<Rightarrow> if v = 0 then None else Some v)"

definition orElse :: "int option \<Rightarrow> int \<Rightarrow> int" where
  "orElse x d = (case x of None \<Rightarrow> d | Some v \<Rightarrow> if v = 0 then d else v)"

definition orElseThrowing :: "int option \<Rightarrow> int option \<Rightarrow> int option" where
  "orElseThrowing x d = (case x of None \<Rightarrow> d | Some v \<Rightarrow> if v = 0 then d else Some v)"

text \<open>
  The part of \<open>getCachedGasData\<close> after \<open>await this.provider.getFeeData()\<close> has
  answered: the gas price (or the converted default, whose conversion may throw), the
  store, the return.
\<close>

definition storeGasData ::
  "(jsnum \<Rightarrow> int option) \<Rightarrow> BlockReactionConfig \<Rightarrow> int \<Rightarrow> FeeData \<Rightarrow> engine
     \<Rightarrow> (rpc_error + int \<times> bool) \<times> engine" where
  "storeGasData parseUnits cfg now feeData s =
     (case orElseThrowing (feeGasPrice feeData) (parseUnits (gasPriceGwei cfg)) of
        None \<Rightarrow> (Inl UnitsError, s)
      | Some gp \<Rightarrow>
          (Inr (gp, False),
           s\<lparr>cachedGasData := Some
                \<lparr>gasPrice = gp,
                 maxFeePerGas = orUndefined (feeMaxFeePerGas feeData),
                 maxPriorityFeePerGas = orUndefined (feeMaxPriorityFeePerGas feeData),
                 lastUpdated = now\<rparr>\<rparr>))"

text \<open>The part of \<open>getCachedGasData\<close> after the early return: query, then store.\<close>

definition fetchGasData ::
  "(jsnum \<Rightarrow> int option) \<Rightarrow> BlockReactionConfig \<Rightarrow> int \<Rightarrow> FeeData option \<Rightarrow> engine
     \<Rightarrow> (rpc_error + int \<times> bool) \<times> engine" where
  "fetchGasData parseUnits cfg now feeResp s =
     (let s1 = s\<lparr>rpcLog := rpcLog s @ [GetFeeData]\<rparr> in
      case feeResp of
        None \<Rightarrow> (Inl RpcError, s1)
      | Some feeData \<Rightarrow> storeGasData parseUnits cfg now feeData s1)"

definition getCachedGasData ::
  "(jsnum \<Rightarrow> int option) \<Rightarrow> BlockReactionConfig \<Rightarrow> int \<Rightarrow> FeeData option \<Rightarrow> engine
     \<Rightarrow> (rpc_error + int \<times> bool) \<times> engine" where
  "getCachedGasData parseUnits cfg now feeResp s =
     (case cachedGasData s of
        None \<Rightarrow> fetchGasData parseUnits cfg now feeResp s
      | Some c \<Rightarrow>
          if now - lastUpdated c < GAS_CACHE_TTL then (Inr (gasPrice c, True), s)
          else fetchGasData parseUnits cfg now feeResp s)"

text \<open>The store of \<open>getCachedNonce\<close>, and the part after its early return.\<close>

definition storeNonce :: "int \<Rightarrow> int \<Rightarrow> engine \<Rightarrow> engine" where
  "storeNonce now n s = s\<lparr>cachedNonce := Some \<lparr>nonce = n, nonceLastUpdated = now\<rparr>\<rparr>"

definition fetchNonce ::
  "int \<Rightarrow> int option \<Rightarrow> engine \<Rightarrow> (rpc_error + int \<times> bool) \<times> engine" where
  "fetchNonce now nonceResp s =
     (let s1 = s\<lparr>rpcLog := rpcLog s @ [GetNonce]\<rparr> in
      case nonceResp of
        None \<Rightarrow> (Inl RpcError, s1)
      | Some n \<Rightarrow> (Inr (n, False), storeNonce now n s1))"

definition getCachedNonce ::
  "int \<Rightarrow> int option \<Rightarrow> engine \<Rightarrow> (rpc_error + int \<times> bool) \<times> engine" where
  "getCachedNonce now nonceResp s =
     (case cachedNonce s of
        None \<Rightarrow> fetchNonce now nonceResp s
      | Some c \<Rightarrow>
          if now - nonceLastUpdated c < NONCE_CACHE_TTL then (Inr (nonce c, True), s)
          else fetchNonce now nonceResp s)"

section \<open>Dispatch controller\<close>

text \<open>
  The answers and clock readings one call of \<open>sendTransaction\<close> may consume, in the
  order of the calls: \<open>Date.now()\<close> and \<open>getFeeData()\<close> inside \<open>getCachedGasData\<close>,
  \<open>Date.now()\<close> and \<open>getNonce()\<close> inside \<open>getCachedNonce\<close>, the \<open>sendTimestamp\<close>,
  the hash returned by \<open>wallet.sendTransaction\<close>, and the \<open>Date.now()\<close> of
  \<open>startTime\<close>. The first four are also what one refresh consumes.
\<close>

record param_env =
  gasNow :: int
  feeResp :: "FeeData option"
  nonceNow :: int
  nonceResp :: "int option"

record dispatch_env = param_env +
  sendNow :: int
  sendResp :: "string option"
  startNow :: int

text \<open>
  The end of \<open>sendTransaction\<close>, once \<open>await this.wallet.sendTransaction(tx)\<close> has
  returned the hash \<open>h\<close>: the cached nonce is incremented and the transaction tracked.
\<close>

definition trackSubmission ::
  "'a dispatch_env_scheme \<Rightarrow> int \<Rightarrow> BlockData \<Rightarrow> string \<Rightarrow> engine \<Rightarrow> engine" where
  "trackSubmission env blockNumber blockData h s =
     (let s4 = (case cachedNonce s of
                  None \<Rightarrow> s
                | Some c \<Rightarrow> s\<lparr>cachedNonce := Some (c\<lparr>nonce := nonce c + 1\<rparr>)\<rparr>)
      in s4\<lparr>pendingTransactions :=
               AList.update h
                 \<lparr>sentBlock = blockNumber, startTime = startNow env,
                  infoSentBlockTimestamp = timestamp blockData,
                  infoSentTimestamp = sendNow env\<rparr>
                 (pendingTransactions s4)\<rparr>)"

text \<open>
  \<open>sendTransaction\<close>, run with nothing else running during its awaits: the whole body
  is one \<open>try\<close> block whose \<open>catch\<close> decrements \<open>sentTransactionCount\<close>.
  \<open>ethers.parseEther('0.00000000000000001')\<close> is 10 wei.
\<close>

definition sendTransaction ::
  "(jsnum \<Rightarrow> int option) \<Rightarrow> BlockReactionConfig \<Rightarrow> 'a dispatch_env_scheme \<Rightarrow> int \<Rightarrow> BlockData
     \<Rightarrow> engine \<Rightarrow> engine" where
  "sendTransaction parseUnits cfg env blockNumber blockData s =
     (case getCachedGasData parseUnits cfg (gasNow env) (feeResp env) s of
        (Inl e, s1) \<Rightarrow> s1\<lparr>sentTransactionCount := sentTransactionCount s1 - 1\<rparr>
      | (Inr (gasPrice', gasCached), s1) \<Rightarrow>
          (case getCachedNonce (nonceNow env) (nonceResp env) s1 of
             (Inl e, s2) \<Rightarrow> s2\<lparr>sentTransactionCount := sentTransactionCount s2 - 1\<rparr>
           | (Inr (nonce', nonceCached), s2) \<Rightarrow>
               (let tx = \<lparr>txTo = recipientAddress cfg, txValue = 10,
                          txGasLimit = gasLimit cfg, txGasPrice = gasPrice',
                          txNonce = nonce'\<rparr>;
                    s3 = s2\<lparr>sentTransactionCount := sentTransactionCount s2 + 1,
                            rpcLog := rpcLog s2 @ [SendTransaction tx (sendResp env)]\<rparr>
                in case sendResp env of
                     None \<Rightarrow> s3\<lparr>sentTransactionCount := sentTransactionCount s3 - 1\<rparr>
                   | Some h \<Rightarrow> trackSubmission env blockNumber blockData h s3)))"

text \<open>\<open>stop\<close> of the subscription service and of the polling service.\<close>

definition stop :: "BlockReactionConfig \<Rightarrow> engine \<Rightarrow> engine" where
  "stop cfg s =
     (let s1 = s\<lparr>isConnected := False\<rparr> in
      if jsStrictEq (num (int (length (confirmationMetrics s1)))) (transactionCount cfg)
      then s1\<lparr>exited := True\<rparr> else s1)"

definition stopHTTP :: "BlockReactionConfig \<Rightarrow> engine \<Rightarrow> engine" where
  "stopHTTP cfg s =
     (let s1 = s\<lparr>isPolling := False\<rparr> in
      if jsStrictEq (num (int (length (confirmationMetrics s1)))) (transactionCount cfg)
      then s1\<lparr>exited := True\<rparr> else s1)"

text \<open>
  \<open>handleNewBlock\<close> (subscription service), run with nothing else running during its
  await. \<open>parseInt(blockData.number, 16)\<close> is a JavaScript built-in, taken as the
  parameter \<open>parseInt16\<close>.
\<close>

definition handleNewBlock ::
  "(string \<Rightarrow> int) \<Rightarrow> (jsnum \<Rightarrow> int option) \<Rightarrow> BlockReactionConfig \<Rightarrow> 'a dispatch_env_scheme
     \<Rightarrow> BlockData \<Rightarrow> engine \<Rightarrow> engine" where
  "handleNewBlock parseInt16 parseUnits cfg env blockData s =
     (let s1 = s\<lparr>blockCount := blockCount s + 1\<rparr>;
          blockNumber = parseInt16 (number blockData)
      in if jsLessEq (num (blockCount s1)) (initialBlocksToSkip cfg) then s1
         else if jsLess (num (sentTransactionCount s1)) (transactionCount cfg)
              then sendTransaction parseUnits cfg env blockNumber blockData s1
              else stop cfg s1)"

section \<open>Confirmation monitor\<close>

text \<open>\<open>Number.prototype.toString(radix)\<close> on a whole number, radix 10 or 16.\<close>

definition digitChar :: "nat \<Rightarrow> char" where
  "digitChar d = (''0123456789abcdef'' ! d)"

function showNat :: "nat \<Rightarrow> nat \<Rightarrow> string" where
  "showNat radix n =
     (if radix < 2 \<or> n < radix then [digitChar n]
      else showNat radix (n div radix) @ [digitChar (n mod radix)])"
  by pat_completeness auto
termination
  by (relation "measure (\<lambda>(radix, n). n)") auto

declare showNat.simps [simp del]

definition toStringRadix :: "nat \<Rightarrow> int \<Rightarrow> string" where
  "toStringRadix radix i =
     (if i < 0 then CHR ''-'' # showNat radix (nat (- i)) else showNat radix (nat i))"

text \<open>
  What one monitor tick may consume, per transaction hash: the answer of
  \<open>getTransactionReceipt\<close> (\<open>None\<close> throws, \<open>Some None\<close> is \<open>null\<close>), the
  \<open>Date.now()\<close> of \<open>confirmationTimeMs\<close>, the answer of \<open>getBlock\<close>, and whether
  \<open>printFinalSummary\<close> throws (its \<open>toISOString\<close> calls throw a \<open>RangeError\<close> on a
  timestamp outside the range of \<open>Date\<close>).
\<close>

record monitor_env =
  receiptResp :: "string \<Rightarrow> TransactionReceipt option option"
  confirmNow :: "string \<Rightarrow> int"
  blockResp :: "int \<Rightarrow> Block option option"
  summaryThrows :: "string \<Rightarrow> bool"

text \<open>
  The part of \<open>processConfirmedTransaction\<close> after \<open>await this.provider.getBlock(...)\<close>:
  the entry is built and pushed; when the list has reached \<open>transactionCount\<close> entries
  the summary is printed and the exit timer set. A summary that throws leaves the entry
  pushed and the timer unset.
\<close>

definition recordConfirmation ::
  "BlockReactionConfig \<Rightarrow> monitor_env \<Rightarrow> string \<Rightarrow> TransactionReceipt \<Rightarrow> PendingInfo \<Rightarrow> engine
     \<Rightarrow> (rpc_error + unit) \<times> engine" where
  "recordConfirmation cfg env h receipt info s =
     (let blocksToConfirm' = receiptBlockNumber receipt - sentBlock info;
          confirmationTimeMs' = confirmNow env h - startTime info
      in case blockResp env (receiptBlockNumber receipt) of
           None \<Rightarrow> (Inl RpcError, s)
         | Some confirmedBlock \<Rightarrow>
             (let metrics =
                    \<lparr>transactionHash = h,
                     sentBlockNumber = sentBlock info,
                     confirmedBlockNumber = receiptBlockNumber receipt,
                     blocksToConfirm = blocksToConfirm',
                     confirmationTimeMs = confirmationTimeMs',
                     gasUsed = receiptGasUsed receipt,
                     effectiveGasPrice = orElse (receiptGasPrice receipt) 0,
                     sentBlockTimestamp = infoSentBlockTimestamp info,
                     confirmedBlockTimestamp =
                       (case confirmedBlock of
                          None \<Rightarrow> []
                        | Some b \<Rightarrow> toStringRadix 10 (blockTimestamp b)),
                     sentTimestamp = infoSentTimestamp info\<rparr>;
                  s2 = s\<lparr>confirmationMetrics := confirmationMetrics s @ [metrics]\<rparr>
              in if jsStrictEq (num (int (length (confirmationMetrics s2)))) (transactionCount cfg)
                 then (if summaryThrows env h then (Inl RangeError, s2)
                       else (Inr (), s2\<lparr>exitScheduled := True\<rparr>))
                 else (Inr (), s2)))"

text \<open>\<open>processConfirmedTransaction\<close>, run with nothing else running during its await.\<close>

definition processConfirmedTransaction ::
  "BlockReactionConfig \<Rightarrow> monitor_env \<Rightarrow> string \<Rightarrow> TransactionReceipt \<Rightarrow> PendingInfo \<Rightarrow> engine
     \<Rightarrow> (rpc_error + unit) \<times> engine" where
  "processConfirmedTransaction cfg env h receipt info s =
     recordConfirmation cfg env h receipt info
       (s\<lparr>rpcLog := rpcLog s @ [GetBlock (receiptBlockNumber receipt)]\<rparr>)"

section \<open>Refresh scheduler\<close>

text \<open>
  The interval callback of \<open>startGasDataRefresh\<close> (\<open>startDataRefresh\<close> in the polling
  service), run with nothing else running during its awaits: both getters inside one
  \<open>try\<close>, the error logged and dropped.
\<close>

definition refreshTick ::
  "(jsnum \<Rightarrow> int option) \<Rightarrow> BlockReactionConfig \<Rightarrow> 'a param_env_scheme \<Rightarrow> engine \<Rightarrow> engine" where
  "refreshTick parseUnits cfg env s =
     (case getCachedGasData parseUnits cfg (gasNow env) (feeResp env) s of
        (Inl e, s1) \<Rightarrow> s1
      | (Inr g, s1) \<Rightarrow> snd (getCachedNonce (nonceNow env) (nonceResp env) s1))"

section \<open>Block feed, pull variant (BlockchainServiceHTTP)\<close>

definition BLOCK_CONFIRMATION_DELAY :: int where
  "BLOCK_CONFIRMATION_DELAY = 0"

text \<open>
  What one call of \<open>processBlock\<close> may consume: the answer of \<open>getBlock(blockNumber)\<close>
  (\<open>None\<close> throws, \<open>Some None\<close> is the \<open>null\<close> block) and what the dispatch consumes.
  One poll consumes the answer of \<open>getBlockNumber()\<close> and, for each block number of the
  gap, what \<open>processBlock\<close> consumes there.
\<close>

record block_env =
  getBlockResp :: "Block option option"
  dispatchEnv :: dispatch_env

record poll_env =
  heightResp :: "int option"
  perBlock :: "int \<Rightarrow> block_env"

text \<open>
  \<open>processBlock\<close>: the body is one \<open>try\<close> block; its \<open>catch\<close> logs and returns, so the
  call never throws.
\<close>

definition processBlock ::
  "(jsnum \<Rightarrow> int option) \<Rightarrow> BlockReactionConfig \<Rightarrow> block_env \<Rightarrow> int \<Rightarrow> engine \<Rightarrow> engine" where
  "processBlock parseUnits cfg env blockNumber s =
     (let s0 = s\<lparr>rpcLog := rpcLog s @ [GetBlock blockNumber]\<rparr> in
      case getBlockResp env of
        None \<Rightarrow> s0
      | Some None \<Rightarrow> s0
      | Some (Some block) \<Rightarrow>
          (let s1 = s0\<lparr>blockCount := blockCount s0 + 1\<rparr> in
           if jsLessEq (num (blockCount s1)) (initialBlocksToSkip cfg) then s1
           else
             (let blockData =
                    \<lparr>number = toStringRadix 16 (blockNumberOf block),
                     hash = (case blockHash block of None \<Rightarrow> [] | Some h \<Rightarrow> h),
                     timestamp = toStringRadix 16 (blockTimestamp block),
                     transactions = blockTransactions block\<rparr>
              in if jsLess (num (sentTransactionCount s1)) (transactionCount cfg)
                 then sendTransaction parseUnits cfg (dispatchEnv env) blockNumber blockData s1
                 else stopHTTP cfg s1)))"

text \<open>
  The \<open>for\<close> loop of \<open>pollBlocks\<close>, from \<open>blockNumber\<close> up to
  \<open>currentBlock - BLOCK_CONFIRMATION_DELAY\<close>. When \<open>stop\<close> inside \<open>processBlock\<close>
  has called \<open>process.exit\<close>, nothing more runs.
\<close>

function pollLoop ::
  "(jsnum \<Rightarrow> int option) \<Rightarrow> BlockReactionConfig \<Rightarrow> poll_env \<Rightarrow> int \<Rightarrow> int \<Rightarrow> engine \<Rightarrow> engine" where
  "pollLoop parseUnits cfg env blockNumber currentBlock s =
     (if blockNumber \<le> currentBlock - BLOCK_CONFIRMATION_DELAY
      then (let s1 = processBlock parseUnits cfg (perBlock env blockNumber) blockNumber s in
            if exited s1 then s1
            else pollLoop parseUnits cfg env (blockNumber + 1) currentBlock
                   (s1\<lparr>lastProcessedBlock := blockNumber\<rparr>))
      else s)"
  by pat_completeness auto
termination
  by (relation "measure (\<lambda>(parseUnits, cfg, env, blockNumber, currentBlock, s).
                  nat (currentBlock - BLOCK_CONFIRMATION_DELAY + 1 - blockNumber))") auto

declare pollLoop.simps [simp del]

text \<open>One run of the \<open>pollBlocks\<close> closure (the next run is scheduled by a timer).\<close>

definition pollBlocks ::
  "(jsnum \<Rightarrow> int option) \<Rightarrow> BlockReactionConfig \<Rightarrow> poll_env \<Rightarrow> engine \<Rightarrow> engine" where
  "pollBlocks parseUnits cfg env s =
     (if \<not> isPolling s then s
      else
        (let s1 = s\<lparr>rpcLog := rpcLog s @ [GetBlockNumber]\<rparr> in
         case heightResp env of
           None \<Rightarrow> s1
         | Some currentBlock \<Rightarrow>
             if currentBlock > lastProcessedBlock s1 + BLOCK_CONFIRMATION_DELAY
             then pollLoop parseUnits cfg env (lastProcessedBlock s1 + 1) currentBlock s1
             else s1))"

section \<open>Lifecycle\<close>

text \<open>
  \<open>start\<close> of the subscription service: the two pre-fetches are awaited before the
  socket is opened and the two interval timers are set, so nothing overlaps them.
\<close>

definition start ::
  "(jsnum \<Rightarrow> int option) \<Rightarrow> BlockReactionConfig \<Rightarrow> 'a param_env_scheme \<Rightarrow> engine
     \<Rightarrow> (rpc_error + unit) \<times> engine" where
  "start parseUnits cfg env s =
     (case getCachedGasData parseUnits cfg (gasNow env) (feeResp env) s of
        (Inl e, s1) \<Rightarrow> (Inl e, s1)
      | (Inr g, s1) \<Rightarrow>
          (case getCachedNonce (nonceNow env) (nonceResp env) s1 of
             (Inl e, s2) \<Rightarrow> (Inl e, s2)
           | (Inr n, s2) \<Rightarrow> (Inr (), s2)))"

section \<open>Block notifications handled one after the other\<close>

text \<open>
  A run of block notifications in which each \<open>handleNewBlock\<close> has finished before the
  next notification arrives. Nothing runs after \<open>process.exit\<close>.
\<close>

datatype ws_event =
    WsStart param_env
  | WsOpen
  | WsClose
  | WsNewHead BlockData dispatch_env
  | WsMonitorTick monitor_env
  | WsRefreshTick param_env
  | WsStop
  | WsExitTimer

definition ws_heads ::
  "(string \<Rightarrow> int) \<Rightarrow> (jsnum \<Rightarrow> int option) \<Rightarrow> BlockReactionConfig
     \<Rightarrow> (BlockData \<times> dispatch_env) list \<Rightarrow> engine \<Rightarrow> engine" where
  "ws_heads parseInt16 parseUnits cfg heads s =
     foldl (\<lambda>s (blockData, env).
              if exited s then s else handleNewBlock parseInt16 parseUnits cfg env blockData s)
       s heads"

section \<open>The event loop of the subscription service\<close>

text \<open>
  The message handler of the socket calls \<open>handleNewBlock\<close> without awaiting it, and
  the two interval callbacks are \<open>async\<close> functions whose promise nobody awaits. A
  callback that reaches an \<open>await\<close> is suspended there, and other callbacks may
  begin, or resume, before it continues. A value of type \<open>suspended\<close> is a suspended
  callback: the \<open>await\<close> at which it waits, with the local variables it holds there
  and the answers and clock readings it has yet to consume. Where the awaited call is
  one of the engine's own \<open>async\<close> methods that has already settled, the value holds
  its result. An \<open>await\<close> after which the callback does nothing more is left out (the
  last one of \<open>handleNewBlock\<close> and of the refresh callback).
\<close>

datatype suspended =
    DispatchAwaitFee dispatch_env int BlockData
  | DispatchAwaitGas dispatch_env int BlockData "rpc_error + int \<times> bool"
  | DispatchAwaitCount dispatch_env int BlockData int
  | DispatchAwaitNonce dispatch_env int BlockData int "rpc_error + int \<times> bool"
  | DispatchAwaitSend dispatch_env int BlockData TransactionRequest
  | RefreshAwaitFee param_env
  | RefreshAwaitGas param_env "rpc_error + int \<times> bool"
  | RefreshAwaitCount param_env
  | MonitorAwaitReceipt monitor_env "string list" string PendingInfo
  | MonitorAwaitBlock monitor_env "string list" string PendingInfo TransactionReceipt
  | MonitorAwaitConfirmed monitor_env "string list" string "rpc_error + unit"

text \<open>The early returns of the two getters: the cached value, when the cell is valid.\<close>

definition validGasData :: "int \<Rightarrow> engine \<Rightarrow> int option" where
  "validGasData now s =
     (case cachedGasData s of
        None \<Rightarrow> None
      | Some c \<Rightarrow> if now - lastUpdated c < GAS_CACHE_TTL then Some (gasPrice c) else None)"

definition validNonce :: "int \<Rightarrow> engine \<Rightarrow> int option" where
  "validNonce now s =
     (case cachedNonce s of
        None \<Rightarrow> None
      | Some c \<Rightarrow> if now - nonceLastUpdated c < NONCE_CACHE_TTL then Some (nonce c) else None)"

text \<open>
  The two getters resumed with the answer of \<open>getFeeData()\<close> and of \<open>getNonce()\<close>:
  a getter whose call threw rejects, the other stores and returns.
\<close>

definition settleGasData ::
  "(jsnum \<Rightarrow> int option) \<Rightarrow> BlockReactionConfig \<Rightarrow> int \<Rightarrow> FeeData option \<Rightarrow> engine
     \<Rightarrow> (rpc_error + int \<times> bool) \<times> engine" where
  "settleGasData parseUnits cfg now answer s =
     (case answer of
        None \<Rightarrow> (Inl RpcError, s)
      | Some feeData \<Rightarrow> storeGasData parseUnits cfg now feeData s)"

definition settleNonce ::
  "int \<Rightarrow> int option \<Rightarrow> engine \<Rightarrow> (rpc_error + int \<times> bool) \<times> engine" where
  "settleNonce now answer s =
     (case answer of
        None \<Rightarrow> (Inl RpcError, s)
      | Some n \<Rightarrow> (Inr (n, False), storeNonce now n s))"

text \<open>
  \<open>sendTransaction\<close> from its beginning to \<open>await this.getCachedGasData()\<close>: the
  getter returns from its cache, or waits for \<open>getFeeData()\<close>.
\<close>

definition dispatchBegin ::
  "dispatch_env \<Rightarrow> int \<Rightarrow> BlockData \<Rightarrow> engine \<Rightarrow> engine \<times> suspended option" where
  "dispatchBegin env blockNumber blockData s =
     (case validGasData (gasNow env) s of
        Some gasPrice' \<Rightarrow>
          (s, Some (DispatchAwaitGas env blockNumber blockData (Inr (gasPrice', True))))
      | None \<Rightarrow>
          (s\<lparr>rpcLog := rpcLog s @ [GetFeeData]\<rparr>,
           Some (DispatchAwaitFee env blockNumber blockData)))"

text \<open>The getter inside it resumed with the answer of \<open>getFeeData()\<close>.\<close>

definition dispatchResumeFee ::
  "(jsnum \<Rightarrow> int option) \<Rightarrow> BlockReactionConfig \<Rightarrow> dispatch_env \<Rightarrow> int \<Rightarrow> BlockData \<Rightarrow> engine
     \<Rightarrow> engine \<times> suspended option" where
  "dispatchResumeFee parseUnits cfg env blockNumber blockData s =
     (case settleGasData parseUnits cfg (gasNow env) (feeResp env) s of
        (result, s1) \<Rightarrow> (s1, Some (DispatchAwaitGas env blockNumber blockData result)))"

text \<open>
  \<open>sendTransaction\<close> resumed after \<open>await this.getCachedGasData()\<close>: a rejection
  ends in the \<open>catch\<close>; else \<open>getCachedNonce\<close> is called, which returns from its
  cache or waits for \<open>getNonce()\<close>.
\<close>

definition dispatchResumeGas ::
  "dispatch_env \<Rightarrow> int \<Rightarrow> BlockData \<Rightarrow> rpc_error + int \<times> bool \<Rightarrow> engine
     \<Rightarrow> engine \<times> suspended option" where
  "dispatchResumeGas env blockNumber blockData result s =
     (case result of
        Inl e \<Rightarrow> (s\<lparr>sentTransactionCount := sentTransactionCount s - 1\<rparr>, None)
      | Inr (gasPrice', gasCached) \<Rightarrow>
          (case validNonce (nonceNow env) s of
             Some nonce' \<Rightarrow>
               (s, Some (DispatchAwaitNonce env blockNumber blockData gasPrice' (Inr (nonce', True))))
           | None \<Rightarrow>
               (s\<lparr>rpcLog := rpcLog s @ [GetNonce]\<rparr>,
                Some (DispatchAwaitCount env blockNumber blockData gasPrice'))))"

definition dispatchResumeCount ::
  "dispatch_env \<Rightarrow> int \<Rightarrow> BlockData \<Rightarrow> int \<Rightarrow> engine \<Rightarrow> engine \<times> suspended option" where
  "dispatchResumeCount env blockNumber blockData gasPrice' s =
     (case settleNonce (nonceNow env) (nonceResp env) s of
        (result, s1) \<Rightarrow> (s1, Some (DispatchAwaitNonce env blockNumber blockData gasPrice' result)))"

text \<open>
  \<open>sendTransaction\<close> resumed after \<open>await this.getCachedNonce()\<close>: a rejection ends
  in the \<open>catch\<close>; else the request is built, the counter incremented,
  \<open>sendTimestamp\<close> read and the transaction submitted.
\<close>

definition dispatchResumeNonce ::
  "BlockReactionConfig \<Rightarrow> dispatch_env \<Rightarrow> int \<Rightarrow> BlockData \<Rightarrow> int \<Rightarrow> rpc_error + int \<times> bool
     \<Rightarrow> engine \<Rightarrow> engine \<times> suspended option" where
  "dispatchResumeNonce cfg env blockNumber blockData gasPrice' result s =
     (case result of
        Inl e \<Rightarrow> (s\<lparr>sentTransactionCount := sentTransactionCount s - 1\<rparr>, None)
      | Inr (nonce', nonceCached) \<Rightarrow>
          (let tx = \<lparr>txTo = recipientAddress cfg, txValue = 10,
                     txGasLimit = gasLimit cfg, txGasPrice = gasPrice',
                     txNonce = nonce'\<rparr>
           in (s\<lparr>sentTransactionCount := sentTransactionCount s + 1\<rparr>,
               Some (DispatchAwaitSend env blockNumber blockData tx))))"

text \<open>\<open>sendTransaction\<close> resumed with the answer of \<open>wallet.sendTransaction(tx)\<close>.\<close>

definition dispatchResumeSend ::
  "dispatch_env \<Rightarrow> int \<Rightarrow> BlockData \<Rightarrow> TransactionRequest \<Rightarrow> engine
     \<Rightarrow> engine \<times> suspended option" where
  "dispatchResumeSend env blockNumber blockData tx s =
     (let s3 = s\<lparr>rpcLog := rpcLog s @ [SendTransaction tx (sendResp env)]\<rparr>
      in case sendResp env of
           None \<Rightarrow> (s3\<lparr>sentTransactionCount := sentTransactionCount s3 - 1\<rparr>, None)
         | Some h \<Rightarrow> (trackSubmission env blockNumber blockData h s3, None))"

text \<open>\<open>handleNewBlock\<close> up to the first \<open>await\<close> it reaches.\<close>

definition headBegin ::
  "(string \<Rightarrow> int) \<Rightarrow> BlockReactionConfig \<Rightarrow> dispatch_env \<Rightarrow> BlockData \<Rightarrow> engine
     \<Rightarrow> engine \<times> suspended option" where
  "headBegin parseInt16 cfg env blockData s =
     (let s1 = s\<lparr>blockCount := blockCount s + 1\<rparr>;
          blockNumber = parseInt16 (number blockData)
      in if jsLessEq (num (blockCount s1)) (initialBlocksToSkip cfg) then (s1, None)
         else if jsLess (num (sentTransactionCount s1)) (transactionCount cfg)
              then dispatchBegin env blockNumber blockData s1
              else (stop cfg s1, None))"

text \<open>
  The refresh callback: from its beginning; its getter resumed with the answer of
  \<open>getFeeData()\<close>; resumed after \<open>await this.getCachedGasData()\<close>; its second
  getter resumed with the answer of \<open>getNonce()\<close>.
\<close>

definition refreshBegin :: "param_env \<Rightarrow> engine \<Rightarrow> engine \<times> suspended option" where
  "refreshBegin env s =
     (case validGasData (gasNow env) s of
        Some gasPrice' \<Rightarrow> (s, Some (RefreshAwaitGas env (Inr (gasPrice', True))))
      | None \<Rightarrow> (s\<lparr>rpcLog := rpcLog s @ [GetFeeData]\<rparr>, Some (RefreshAwaitFee env)))"

definition refreshResumeFee ::
  "(jsnum \<Rightarrow> int option) \<Rightarrow> BlockReactionConfig \<Rightarrow> param_env \<Rightarrow> engine
     \<Rightarrow> engine \<times> suspended option" where
  "refreshResumeFee parseUnits cfg env s =
     (case settleGasData parseUnits cfg (gasNow env) (feeResp env) s of
        (result, s1) \<Rightarrow> (s1, Some (RefreshAwaitGas env result)))"

definition refreshResumeGas ::
  "param_env \<Rightarrow> rpc_error + int \<times> bool \<Rightarrow> engine \<Rightarrow> engine \<times> suspended option" where
  "refreshResumeGas env result s =
     (case result of
        Inl e \<Rightarrow> (s, None)
      | Inr g \<Rightarrow>
          (case validNonce (nonceNow env) s of
             Some nonce' \<Rightarrow> (s, None)
           | None \<Rightarrow> (s\<lparr>rpcLog := rpcLog s @ [GetNonce]\<rparr>, Some (RefreshAwaitCount env))))"

definition refreshResumeCount :: "param_env \<Rightarrow> engine \<Rightarrow> engine \<times> suspended option" where
  "refreshResumeCount env s = (snd (settleNonce (nonceNow env) (nonceResp env) s), None)"

text \<open>
  The monitor callback. Its \<open>for\<close> loop walks the live entries of the map: the next
  entry is the first one, in insertion order, that this walk has not visited (the
  hashes visited are kept with the suspended callback); an entry deleted before the walk
  reaches it is not visited, an entry inserted during the walk is. The walk moves on
  after a \<open>null\<close> receipt and after anything thrown inside the loop body, in which
  case the entry is not deleted.
\<close>

definition monitorNext ::
  "monitor_env \<Rightarrow> string list \<Rightarrow> engine \<Rightarrow> engine \<times> suspended option" where
  "monitorNext env visited s =
     (case List.find (\<lambda>(h, info). h \<notin> set visited) (pendingTransactions s) of
        None \<Rightarrow> (s, None)
      | Some (h, info) \<Rightarrow>
          (s\<lparr>rpcLog := rpcLog s @ [GetTransactionReceipt h]\<rparr>,
           Some (MonitorAwaitReceipt env (visited @ [h]) h info)))"

definition monitorBegin :: "monitor_env \<Rightarrow> engine \<Rightarrow> engine \<times> suspended option" where
  "monitorBegin env s =
     (if pendingTransactions s = [] then (s, None) else monitorNext env [] s)"

text \<open>
  Resumed with the answer of \<open>getTransactionReceipt(hash)\<close>: with a receipt,
  \<open>processConfirmedTransaction\<close> is called and waits for \<open>getBlock\<close>.
\<close>

definition monitorResumeReceipt ::
  "monitor_env \<Rightarrow> string list \<Rightarrow> string \<Rightarrow> PendingInfo \<Rightarrow> engine
     \<Rightarrow> engine \<times> suspended option" where
  "monitorResumeReceipt env visited h info s =
     (case receiptResp env h of
        None \<Rightarrow> monitorNext env visited s
      | Some None \<Rightarrow> monitorNext env visited s
      | Some (Some receipt) \<Rightarrow>
          (s\<lparr>rpcLog := rpcLog s @ [GetBlock (receiptBlockNumber receipt)]\<rparr>,
           Some (MonitorAwaitBlock env visited h info receipt)))"

text \<open>\<open>processConfirmedTransaction\<close> resumed with the answer of \<open>getBlock\<close>.\<close>

definition monitorResumeBlock ::
  "BlockReactionConfig \<Rightarrow> monitor_env \<Rightarrow> string list \<Rightarrow> string \<Rightarrow> PendingInfo
     \<Rightarrow> TransactionReceipt \<Rightarrow> engine \<Rightarrow> engine \<times> suspended option" where
  "monitorResumeBlock cfg env visited h info receipt s =
     (case recordConfirmation cfg env h receipt info s of
        (result, s2) \<Rightarrow> (s2, Some (MonitorAwaitConfirmed env visited h result)))"

text \<open>
  The loop body resumed after \<open>await this.processConfirmedTransaction(...)\<close>: the
  entry is deleted, unless the call rejected.
\<close>

definition monitorResumeConfirmed ::
  "monitor_env \<Rightarrow> string list \<Rightarrow> string \<Rightarrow> rpc_error + unit \<Rightarrow> engine
     \<Rightarrow> engine \<times> suspended option" where
  "monitorResumeConfirmed env visited h result s =
     (case result of
        Inl e \<Rightarrow> monitorNext env visited s
      | Inr u \<Rightarrow>
          monitorNext env visited
            (s\<lparr>pendingTransactions := AList.delete h (pendingTransactions s)\<rparr>))"

text \<open>A suspended callback resumed: it runs to the next \<open>await\<close> it reaches, or to its end.\<close>

definition resumeCallback ::
  "(jsnum \<Rightarrow> int option) \<Rightarrow> BlockReactionConfig \<Rightarrow> suspended \<Rightarrow> engine
     \<Rightarrow> engine \<times> suspended option" where
  "resumeCallback parseUnits cfg t s =
     (case t of
        DispatchAwaitFee env blockNumber blockData \<Rightarrow>
          dispatchResumeFee parseUnits cfg env blockNumber blockData s
      | DispatchAwaitGas env blockNumber blockData result \<Rightarrow>
          dispatchResumeGas env blockNumber blockData result s
      | DispatchAwaitCount env blockNumber blockData gasPrice' \<Rightarrow>
          dispatchResumeCount env blockNumber blockData gasPrice' s
      | DispatchAwaitNonce env blockNumber blockData gasPrice' result \<Rightarrow>
          dispatchResumeNonce cfg env blockNumber blockData gasPrice' result s
      | DispatchAwaitSend env blockNumber blockData tx \<Rightarrow>
          dispatchResumeSend env blockNumber blockData tx s
      | RefreshAwaitFee env \<Rightarrow> refreshResumeFee parseUnits cfg env s
      | RefreshAwaitGas env result \<Rightarrow> refreshResumeGas env result s
      | RefreshAwaitCount env \<Rightarrow> refreshResumeCount env s
      | MonitorAwaitReceipt env visited h info \<Rightarrow> monitorResumeReceipt env visited h info s
      | MonitorAwaitBlock env visited h info receipt \<Rightarrow>
          monitorResumeBlock cfg env visited h info receipt s
      | MonitorAwaitConfirmed env visited h result \<Rightarrow>
          monitorResumeConfirmed env visited h result s)"

text \<open>
  An event of the subscription service: its callback runs up to the first \<open>await\<close> it
  reaches.
\<close>

definition beginEvent ::
  "(string \<Rightarrow> int) \<Rightarrow> (jsnum \<Rightarrow> int option) \<Rightarrow> BlockReactionConfig \<Rightarrow> ws_event \<Rightarrow> engine
     \<Rightarrow> engine \<times> suspended option" where
  "beginEvent parseInt16 parseUnits cfg ev s =
     (case ev of
        WsStart env \<Rightarrow> (snd (start parseUnits cfg env s), None)
      | WsOpen \<Rightarrow> (s\<lparr>isConnected := True\<rparr>, None)
      | WsClose \<Rightarrow> (s\<lparr>isConnected := False\<rparr>, None)
      | WsNewHead blockData env \<Rightarrow> headBegin parseInt16 cfg env blockData s
      | WsMonitorTick env \<Rightarrow> monitorBegin env s
      | WsRefreshTick env \<Rightarrow> refreshBegin env s
      | WsStop \<Rightarrow> (stop cfg s, None)
      | WsExitTimer \<Rightarrow> ((if exitScheduled s then s\<lparr>exited := True\<rparr> else s), None))"

text \<open>
  A hash that was not in the map and is inserted makes a new entry at the end of the
  map; the walks under way have not visited that entry.
\<close>

fun unvisit :: "string list \<Rightarrow> suspended \<Rightarrow> suspended" where
  "unvisit new (MonitorAwaitReceipt env visited h info) =
     MonitorAwaitReceipt env (filter (\<lambda>k. k \<notin> set new) visited) h info"
| "unvisit new (MonitorAwaitBlock env visited h info receipt) =
     MonitorAwaitBlock env (filter (\<lambda>k. k \<notin> set new) visited) h info receipt"
| "unvisit new (MonitorAwaitConfirmed env visited h result) =
     MonitorAwaitConfirmed env (filter (\<lambda>k. k \<notin> set new) visited) h result"
| "unvisit new t = t"

definition insertedHashes :: "engine \<Rightarrow> engine \<Rightarrow> string list" where
  "insertedHashes s s' =
     filter (\<lambda>k. k \<notin> fst ` set (pendingTransactions s)) (map fst (pendingTransactions s'))"

text \<open>
  One turn of the event loop: an event arrives and its callback begins, or the
  \<open>i\<close>-th suspended callback resumes (the chain client has answered it, or the method
  it awaits has settled). The state is the engine and the list of suspended callbacks,
  and a run is any sequence of turns. Nothing runs after \<open>process.exit\<close>.
\<close>

datatype ws_turn = Begin ws_event | Resume nat

definition ws_step ::
  "(string \<Rightarrow> int) \<Rightarrow> (jsnum \<Rightarrow> int option) \<Rightarrow> BlockReactionConfig
     \<Rightarrow> engine \<times> suspended list \<Rightarrow> ws_turn \<Rightarrow> engine \<times> suspended list" where
  "ws_step parseInt16 parseUnits cfg w turn =
     (case w of (s, waiting) \<Rightarrow>
        if exited s then w
        else case turn of
          Begin ev \<Rightarrow>
            (case beginEvent parseInt16 parseUnits cfg ev s of
               (s', t) \<Rightarrow> (s', waiting @ (case t of None \<Rightarrow> [] | Some t' \<Rightarrow> [t'])))
        | Resume i \<Rightarrow>
            if i < length waiting
            then (case resumeCallback parseUnits cfg (waiting ! i) s of
                    (s', t) \<Rightarrow>
                      (s', map (unvisit (insertedHashes s s'))
                             (take i waiting @ drop (Suc i) waiting)
                           @ (case t of None \<Rightarrow> [] | Some t' \<Rightarrow> [t'])))
            else w)"

definition ws_run ::
  "(string \<Rightarrow> int) \<Rightarrow> (jsnum \<Rightarrow> int option) \<Rightarrow> BlockReactionConfig \<Rightarrow> ws_turn list
     \<Rightarrow> engine \<times> suspended list \<Rightarrow> engine \<times> suspended list" where
  "ws_run parseInt16 parseUnits cfg turns w = foldl (ws_step parseInt16 parseUnits cfg) w turns"

section \<open>Configuration loader\<close>

text \<open>
  \<open>parseFloat\<close> is a JavaScript built-in, taken as a parameter. \<open>process.env\<close> is a
  partial map.
\<close>

datatype config_error =
    MissingRequired string
  | BadWebsocketUrl
  | BadHttpRpcUrl
  | BadPrivateKey
  | BadRecipientAddress
  | BadGasLimit
  | BadGasPriceGwei jsnum
  | BadInitialBlocksToSkip
  | BadTransactionCount

definition getRequiredEnvVar :: "(string \<Rightarrow> string option) \<Rightarrow> string \<Rightarrow> config_error + string" where
  "getRequiredEnvVar env key =
     (case env key of
        None \<Rightarrow> Inl (MissingRequired key)
      | Some v \<Rightarrow> if v = [] then Inl (MissingRequired key) else Inr v)"

definition getEnvVarAsNumber ::
  "(string \<Rightarrow> jsnum) \<Rightarrow> (string \<Rightarrow> string option) \<Rightarrow> string \<Rightarrow> jsnum \<Rightarrow> jsnum" where
  "getEnvVarAsNumber parseFloat env key defaultValue =
     (case env key of
        None \<Rightarrow> defaultValue
      | Some v \<Rightarrow>
          if v = [] then defaultValue
          else (let num = parseFloat v in
                if isNaN num then defaultValue else num))"

definition validateConfig :: "BlockReactionConfig \<Rightarrow> config_error + unit" where
  "validateConfig config =
     (if \<not> prefix ''wss://'' (websocketUrl config) \<and> \<not> prefix ''ws://'' (websocketUrl config)
      then Inl BadWebsocketUrl
      else if \<not> prefix ''http://'' (httpRpcUrl config) \<and> \<not> prefix ''https://'' (httpRpcUrl config)
      then Inl BadHttpRpcUrl
      else if \<not> prefix ''0x'' (privateKey config) \<or> length (privateKey config) \<noteq> 66
      then Inl BadPrivateKey
      else if \<not> prefix ''0x'' (recipientAddress config) \<or> length (recipientAddress config) \<noteq> 42
      then Inl BadRecipientAddress
      else if jsLessEq (gasLimit config) (Fin 0)
      then Inl BadGasLimit
      else if jsLessEq (gasPriceGwei config) (Fin 0)
      then Inl (BadGasPriceGwei (gasPriceGwei config))
      else if jsLess (initialBlocksToSkip config) (Fin 0)
      then Inl BadInitialBlocksToSkip
      else if jsLessEq (transactionCount config) (Fin 0) \<or> jsLess (Fin 10) (transactionCount config)
      then Inl BadTransactionCount
      else Inr ())"

definition load ::
  "(string \<Rightarrow> jsnum) \<Rightarrow> (string \<Rightarrow> string option) \<Rightarrow> config_error + BlockReactionConfig" where
  "load parseFloat env =
     (case getRequiredEnvVar env ''WEBSOCKET_URL'' of
        Inl e \<Rightarrow> Inl e
      | Inr ws \<Rightarrow>
     (case getRequiredEnvVar env ''HTTP_RPC_URL'' of
        Inl e \<Rightarrow> Inl e
      | Inr http \<Rightarrow>
     (case getRequiredEnvVar env ''PRIVATE_KEY'' of
        Inl e \<Rightarrow> Inl e
      | Inr pk \<Rightarrow>
     (case getRequiredEnvVar env ''RECIPIENT_ADDRESS'' of
        Inl e \<Rightarrow> Inl e
      | Inr rcpt \<Rightarrow>
          (let config =
                 \<lparr>websocketUrl = ws, httpRpcUrl = http, privateKey = pk,
                  recipientAddress = rcpt,
                  gasLimit = getEnvVarAsNumber parseFloat env ''GAS_LIMIT'' (Fin 21000),
                  gasPriceGwei = getEnvVarAsNumber parseFloat env ''GAS_PRICE_GWEI'' (Fin 20),
                  initialBlocksToSkip =
                    getEnvVarAsNumber parseFloat env ''INITIAL_BLOCKS_TO_SKIP'' (Fin 10),
                  transactionCount =
                    getEnvVarAsNumber parseFloat env ''TRANSACTION_COUNT'' (Fin 5)\<rparr>
           in case validateConfig config of
                Inl e \<Rightarrow> Inl e
              | Inr u \<Rightarrow> Inr config)))))"

section \<open>Observations on runs\<close>

text \<open>A sequence of calls of one operation, each on the state the previous one left.\<close>

fun runCalls :: "('c \<Rightarrow> 's \<Rightarrow> 'r \<times> 's) \<Rightarrow> 'c list \<Rightarrow> 's \<Rightarrow> 'r list \<times> 's" where
  "runCalls f [] s = ([], s)"
| "runCalls f (c # cs) s =
     (case f c s of (r, s1) \<Rightarrow> (case runCalls f cs s1 of (rs, s2) \<Rightarrow> (r # rs, s2)))"

text \<open>The hashes of the submissions the chain client accepted, read off the call log.\<close>

fun acceptedHash :: "rpc \<Rightarrow> string list" where
  "acceptedHash (SendTransaction tx (Some h)) = [h]"
| "acceptedHash call = []"

definition sentHashes :: "engine \<Rightarrow> string list" where
  "sentHashes s = concat (map acceptedHash (rpcLog s))"

text \<open>
  The sequence number that a turn of the event loop receives from the chain client, if
  it receives one: the answer of \<open>getNonce()\<close> to the callback that resumes, or to the
  pre-fetch of \<open>start\<close> when it reaches \<open>getCachedNonce\<close> and finds the cell empty or
  expired.
\<close>

fun suspendedNonceReport :: "suspended \<Rightarrow> int option" where
  "suspendedNonceReport (DispatchAwaitCount env blockNumber blockData gasPrice') = nonceResp env"
| "suspendedNonceReport (RefreshAwaitCount env) = nonceResp env"
| "suspendedNonceReport t = None"

fun nonceReport ::
  "(jsnum \<Rightarrow> int option) \<Rightarrow> BlockReactionConfig \<Rightarrow> engine \<times> suspended list \<Rightarrow> ws_turn
     \<Rightarrow> int option" where
  "nonceReport parseUnits cfg w (Resume i) =
     (if i < length (snd w) then suspendedNonceReport (snd w ! i) else None)"
| "nonceReport parseUnits cfg w (Begin (WsStart env)) =
     (if isl (fst (getCachedGasData parseUnits cfg (gasNow env) (feeResp env) (fst w))) then None
      else if validNonce (nonceNow env) (fst w) = None then nonceResp env
      else None)"
| "nonceReport parseUnits cfg w (Begin ev) = None"

text \<open>
  A run in which every sequence number received equals \<open>base\<close> plus the number of
  submissions accepted before the turn that receives it.
\<close>

fun reportsAgree ::
  "(string \<Rightarrow> int) \<Rightarrow> (jsnum \<Rightarrow> int option) \<Rightarrow> BlockReactionConfig \<Rightarrow> int \<Rightarrow> ws_turn list
     \<Rightarrow> engine \<times> suspended list \<Rightarrow> bool" where
  "reportsAgree parseInt16 parseUnits cfg base [] w = True"
| "reportsAgree parseInt16 parseUnits cfg base (turn # turns) w =
     ((if exited (fst w) then True
       else case nonceReport parseUnits cfg w turn of
              None \<Rightarrow> True
            | Some r \<Rightarrow> r = base + int (length (sentHashes (fst w))))
      \<and> reportsAgree parseInt16 parseUnits cfg base turns
          (ws_step parseInt16 parseUnits cfg w turn))"

section \<open>Invariants used in the proofs\<close>


section \<open>Concrete inputs\<close>

definition exampleConfig :: BlockReactionConfig where
  "exampleConfig =
     \<lparr>websocketUrl = ''ws://node'', httpRpcUrl = ''http://node'',
      privateKey = ''0xkey'', recipientAddress = ''0xrecipient'',
      gasLimit = Fin 21000, gasPriceGwei = Fin 20, initialBlocksToSkip = Fin 1,
      transactionCount = Fin 2\<rparr>"

text \<open>
  \<open>ethers.parseUnits\<close> on the rendering \<open>20\<close> of the number 20 (20 gwei in wei); it
  throws on the rendering \<open>1e-7\<close> of the number 0.0000001, which is not a decimal
  string. No other rendering is used below.
\<close>

definition exampleParseUnits :: "jsnum \<Rightarrow> int option" where
  "exampleParseUnits g = (if g = Fin 20 then Some 20000000000 else None)"

text \<open>An engine whose two cells were refreshed at time 0: fee rate 7, sequence 5.\<close>

definition warmEngine :: engine where
  "warmEngine =
     initialEngine
       \<lparr>cachedGasData := Some \<lparr>gasPrice = 7, maxFeePerGas = None,
                                   maxPriorityFeePerGas = None, lastUpdated = 0\<rparr>,
        cachedNonce := Some \<lparr>nonce = 5, nonceLastUpdated = 0\<rparr>\<rparr>"

definition exampleFeeData :: FeeData where
  "exampleFeeData =
     \<lparr>feeGasPrice = Some 9, feeMaxFeePerGas = None, feeMaxPriorityFeePerGas = None\<rparr>"

definition nullFeeData :: FeeData where
  "nullFeeData =
     \<lparr>feeGasPrice = None, feeMaxFeePerGas = None, feeMaxPriorityFeePerGas = None\<rparr>"

definition exampleBlock :: BlockData where
  "exampleBlock =
     \<lparr>number = ''0x65'', hash = ''0xb101'', timestamp = ''0x5f5e100'', transactions = []\<rparr>"

text \<open>
  A dispatch at time 1000 for which the fee-rate query throws, and one at time 40000,
  when a fee-rate cell refreshed at time 0 has expired.
\<close>

definition feeFailEnv :: dispatch_env where
  "feeFailEnv =
     \<lparr>gasNow = 1000, feeResp = None, nonceNow = 1000, nonceResp = Some 5,
      sendNow = 1000, sendResp = Some ''0xaa'', startNow = 1000\<rparr>"

definition feeFailEnv40 :: dispatch_env where
  "feeFailEnv40 =
     \<lparr>gasNow = 40000, feeResp = None, nonceNow = 40000, nonceResp = Some 5,
      sendNow = 40000, sendResp = Some ''0xaa'', startNow = 40000\<rparr>"

text \<open>A refresh at time 20000, the chain client ready to answer fee rate 9 and sequence 8.\<close>

definition refreshEnv20 :: param_env where
  "refreshEnv20 =
     \<lparr>gasNow = 20000, feeResp = Some exampleFeeData, nonceNow = 20000, nonceResp = Some 8\<rparr>"

text \<open>A dispatch at time 1000 that the chain client accepts with hash \<open>0xaa\<close>.\<close>

definition okEnv :: dispatch_env where
  "okEnv =
     \<lparr>gasNow = 1000, feeResp = Some exampleFeeData, nonceNow = 1000, nonceResp = Some 5,
      sendNow = 1001, sendResp = Some ''0xaa'', startNow = 1002\<rparr>"

text \<open>A dispatch at time 2000 that finds both cells valid.\<close>

definition laterEnv :: dispatch_env where
  "laterEnv =
     \<lparr>gasNow = 2000, feeResp = None, nonceNow = 2000, nonceResp = None,
      sendNow = 2001, sendResp = Some ''0xbb'', startNow = 2002\<rparr>"

definition exampleParseInt16 :: "string \<Rightarrow> int" where
  "exampleParseInt16 str =
     (if str = ''0x64'' then 100 else if str = ''0x65'' then 101
      else if str = ''0x66'' then 102 else 103)"

definition block100 :: BlockData where
  "block100 = \<lparr>number = ''0x64'', hash = ''0xb100'', timestamp = ''0x5f5e0ff'', transactions = []\<rparr>"

definition block102 :: BlockData where
  "block102 = \<lparr>number = ''0x66'', hash = ''0xb102'', timestamp = ''0x5f5e101'', transactions = []\<rparr>"


definition exampleBlock11 :: Block where
  "exampleBlock11 =
     \<lparr>blockNumberOf = 11, blockHash = Some ''0xb11'', blockTimestamp = 100, blockTransactions = []\<rparr>"

text \<open>
  A polling engine with baseline 10, a poll that finds height 11 while the fetch of
  block 11 throws, and a later poll at the same height for which the block is there.
\<close>

definition pollingAt10 :: engine where
  "pollingAt10 = initialEngine\<lparr>isPolling := True, lastProcessedBlock := 10\<rparr>"

definition failingPoll11 :: poll_env where
  "failingPoll11 =
     \<lparr>heightResp = Some 11,
      perBlock = (\<lambda>n. \<lparr>getBlockResp = None, dispatchEnv = okEnv\<rparr>)\<rparr>"

definition goodPoll11 :: poll_env where
  "goodPoll11 =
     \<lparr>heightResp = Some 11,
      perBlock = (\<lambda>n. \<lparr>getBlockResp = Some (Some exampleBlock11), dispatchEnv = okEnv\<rparr>)\<rparr>"

text \<open>
  An environment with the four required variables and the given values of the four
  numeric ones, and a \<open>parseFloat\<close> that knows five strings.
\<close>

definition exampleParseFloat :: "string \<Rightarrow> jsnum" where
  "exampleParseFloat str =
     (if str = ''0'' then Fin 0 else if str = ''-1'' then Fin (- 1)
      else if str = ''11'' then Fin 11 else if str = ''2.5'' then Fin (5 / 2)
      else if str = ''1e-7'' then Fin (1 / 10000000) else NaN)"

definition numericEnv :: "string \<Rightarrow> string \<Rightarrow> string \<Rightarrow> string \<Rightarrow> string \<Rightarrow> string option" where
  "numericEnv gl gp sk tc key =
     (if key = ''WEBSOCKET_URL'' then Some ''wss://node''
      else if key = ''HTTP_RPC_URL'' then Some ''https://node''
      else if key = ''PRIVATE_KEY'' then Some (''0x'' @ replicate 64 CHR ''1'')
      else if key = ''RECIPIENT_ADDRESS'' then Some (''0x'' @ replicate 40 CHR ''2'')
      else if key = ''GAS_LIMIT'' then Some gl
      else if key = ''GAS_PRICE_GWEI'' then Some gp
      else if key = ''INITIAL_BLOCKS_TO_SKIP'' then Some sk
      else if key = ''TRANSACTION_COUNT'' then Some tc
      else None)"

text \<open>
  The configuration that the loader returns when \<open>GAS_PRICE_GWEI\<close> is \<open>1e-7\<close> and the
  three other numeric variables are empty.
\<close>

definition tinyDefaultConfig :: BlockReactionConfig where
  "tinyDefaultConfig =
     \<lparr>websocketUrl = ''wss://node'', httpRpcUrl = ''https://node'',
      privateKey = ''0x'' @ replicate 64 CHR ''1'',
      recipientAddress = ''0x'' @ replicate 40 CHR ''2'',
      gasLimit = Fin 21000, gasPriceGwei = Fin (1 / 10000000), initialBlocksToSkip = Fin 10,
      transactionCount = Fin 5\<rparr>"

text \<open>A fee-data answer that reports a gas price of zero.\<close>

definition zeroFeeData :: FeeData where
  "zeroFeeData =
     \<lparr>feeGasPrice = Some 0, feeMaxFeePerGas = None, feeMaxPriorityFeePerGas = None\<rparr>"

text \<open>A dispatch at time 0 whose fee-data query answers without a gas price.\<close>

definition nullPriceEnv :: dispatch_env where
  "nullPriceEnv =
     \<lparr>gasNow = 0, feeResp = Some nullFeeData, nonceNow = 0, nonceResp = Some 5,
      sendNow = 1, sendResp = Some ''0xaa'', startNow = 2\<rparr>"

text \<open>
  Budget 1, no block skipped. Two block notifications arrive at times 70000 and 70250,
  when both cells, refreshed at time 0, have expired. The chain client answers the
  three calls of the first callback (fee data, sequence 5, the hash \<open>0xaa\<close>) at
  times 70300, 70500 and 70800, and the first callback runs to its end; then the chain
  client answers the fee-data query of the second callback, at time 70900, and its
  submission with the hash \<open>0xbb\<close>.
\<close>

definition budgetOneConfig :: BlockReactionConfig where
  "budgetOneConfig = exampleConfig\<lparr>initialBlocksToSkip := Fin 0, transactionCount := Fin 1\<rparr>"

definition overlapEnvA :: dispatch_env where
  "overlapEnvA =
     \<lparr>gasNow = 70000, feeResp = Some exampleFeeData, nonceNow = 70300, nonceResp = Some 5,
      sendNow = 70500, sendResp = Some ''0xaa'', startNow = 70800\<rparr>"

definition overlapEnvB :: dispatch_env where
  "overlapEnvB =
     \<lparr>gasNow = 70250, feeResp = Some exampleFeeData, nonceNow = 70900, nonceResp = None,
      sendNow = 70900, sendResp = Some ''0xbb'', startNow = 71200\<rparr>"

definition overlappingHeads :: "ws_turn list" where
  "overlappingHeads =
     [Begin (WsNewHead block100 overlapEnvA), Begin (WsNewHead exampleBlock overlapEnvB),
      Resume 0, Resume 1, Resume 1, Resume 1, Resume 1,
      Resume 0, Resume 0, Resume 0, Resume 0]"

text \<open>
  The configuration that the loader returns when \<open>TRANSACTION_COUNT\<close> is \<open>2.5\<close>
  and \<open>INITIAL_BLOCKS_TO_SKIP\<close> is \<open>0\<close>, and a third dispatch, at time 3000.
\<close>

definition fractionalConfig :: BlockReactionConfig where
  "fractionalConfig =
     \<lparr>websocketUrl = ''wss://node'', httpRpcUrl = ''https://node'',
      privateKey = ''0x'' @ replicate 64 CHR ''1'',
      recipientAddress = ''0x'' @ replicate 40 CHR ''2'',
      gasLimit = Fin 21000, gasPriceGwei = Fin 20, initialBlocksToSkip = Fin 0,
      transactionCount = Fin (5 / 2)\<rparr>"

definition thirdEnv :: dispatch_env where
  "thirdEnv =
     \<lparr>gasNow = 3000, feeResp = None, nonceNow = 3000, nonceResp = None,
      sendNow = 3001, sendResp = Some ''0xcc'', startNow = 3002\<rparr>"







text \<open>
  A refresh at time 60000, when the sequence cell refreshed at time 0 has expired. The
  chain client answers sequence 5, as it did before the submission of time 1000 was
  accepted; or it answers sequence 6.
\<close>

definition refreshEnv60 :: param_env where
  "refreshEnv60 =
     \<lparr>gasNow = 60000, feeResp = Some exampleFeeData, nonceNow = 60000, nonceResp = Some 5\<rparr>"

definition refreshEnv60six :: param_env where
  "refreshEnv60six =
     \<lparr>gasNow = 60000, feeResp = Some exampleFeeData, nonceNow = 60000, nonceResp = Some 6\<rparr>"

text \<open>A dispatch at time 61000 that the chain client accepts with hash \<open>0xbb\<close>.\<close>

definition laterEnv61 :: dispatch_env where
  "laterEnv61 =
     \<lparr>gasNow = 61000, feeResp = None, nonceNow = 61000, nonceResp = None,
      sendNow = 61001, sendResp = Some ''0xbb'', startNow = 61002\<rparr>"

text \<open>
  One skipped block, one dispatch accepted at time 1000, then the refresh tick of time
  60000 with its fee-data query and its sequence query answered in turn, each callback
  running to its end before the next begins.
\<close>

definition staleRun :: "ws_turn list" where
  "staleRun =
     [Begin (WsNewHead block100 okEnv), Begin (WsNewHead exampleBlock okEnv),
      Resume 0, Resume 0, Resume 0,
      Begin (WsRefreshTick refreshEnv60), Resume 0, Resume 0, Resume 0]"

text \<open>The same with the answer 6, followed by a second accepted dispatch.\<close>

definition agreeingRun :: "ws_turn list" where
  "agreeingRun =
     [Begin (WsNewHead block100 okEnv), Begin (WsNewHead exampleBlock okEnv),
      Resume 0, Resume 0, Resume 0,
      Begin (WsRefreshTick refreshEnv60six), Resume 0, Resume 0, Resume 0,
      Begin (WsNewHead block102 laterEnv61), Resume 0, Resume 0, Resume 0]"

section \<open>Comparisons of whole numbers\<close>

lemma jsLessEq_num [simp]: "jsLessEq (num a) (num b) = (a \<le> b)"
  by (auto simp: num_def)

lemma jsLess_num [simp]: "jsLess (num a) (num b) = (a < b)"
  by (simp add: num_def)

lemma jsStrictEq_num [simp]: "jsStrictEq (num a) (num b) = (a = b)"
  by (simp add: jsStrictEq_def num_def)

section \<open>What each operation leaves unchanged\<close>

lemma sentHashes_append [simp]:
  "sentHashes (s\<lparr>rpcLog := rpcLog s' @ l\<rparr>) = sentHashes s' @ concat (map acceptedHash l)"
  by (simp add: sentHashes_def)

lemma sentHashes_other_fields [simp]:
  "sentHashes (s\<lparr>blockCount := a\<rparr>) = sentHashes s"
  "sentHashes (s\<lparr>pendingTransactions := b\<rparr>) = sentHashes s"
  "sentHashes (s\<lparr>confirmationMetrics := c\<rparr>) = sentHashes s"
  "sentHashes (s\<lparr>isConnected := d\<rparr>) = sentHashes s"
  "sentHashes (s\<lparr>isPolling := e\<rparr>) = sentHashes s"
  "sentHashes (s\<lparr>sentTransactionCount := f\<rparr>) = sentHashes s"
  "sentHashes (s\<lparr>lastProcessedBlock := g\<rparr>) = sentHashes s"
  "sentHashes (s\<lparr>cachedGasData := h\<rparr>) = sentHashes s"
  "sentHashes (s\<lparr>cachedNonce := i\<rparr>) = sentHashes s"
  "sentHashes (s\<lparr>exitScheduled := j\<rparr>) = sentHashes s"
  "sentHashes (s\<lparr>exited := k\<rparr>) = sentHashes s"
  by (simp_all add: sentHashes_def)

lemma getCachedGasData_frame [simp]:
  "blockCount (snd (getCachedGasData pu cfg now r s)) = blockCount s"
  "pendingTransactions (snd (getCachedGasData pu cfg now r s)) = pendingTransactions s"
  "confirmationMetrics (snd (getCachedGasData pu cfg now r s)) = confirmationMetrics s"
  "isConnected (snd (getCachedGasData pu cfg now r s)) = isConnected s"
  "isPolling (snd (getCachedGasData pu cfg now r s)) = isPolling s"
  "sentTransactionCount (snd (getCachedGasData pu cfg now r s)) = sentTransactionCount s"
  "lastProcessedBlock (snd (getCachedGasData pu cfg now r s)) = lastProcessedBlock s"
  "cachedNonce (snd (getCachedGasData pu cfg now r s)) = cachedNonce s"
  "exitScheduled (snd (getCachedGasData pu cfg now r s)) = exitScheduled s"
  "exited (snd (getCachedGasData pu cfg now r s)) = exited s"
  "sentHashes (snd (getCachedGasData pu cfg now r s)) = sentHashes s"
  by (simp_all add: getCachedGasData_def fetchGasData_def storeGasData_def Let_def split: option.splits)

lemma getCachedNonce_frame [simp]:
  "blockCount (snd (getCachedNonce now r s)) = blockCount s"
  "pendingTransactions (snd (getCachedNonce now r s)) = pendingTransactions s"
  "confirmationMetrics (snd (getCachedNonce now r s)) = confirmationMetrics s"
  "isConnected (snd (getCachedNonce now r s)) = isConnected s"
  "isPolling (snd (getCachedNonce now r s)) = isPolling s"
  "sentTransactionCount (snd (getCachedNonce now r s)) = sentTransactionCount s"
  "lastProcessedBlock (snd (getCachedNonce now r s)) = lastProcessedBlock s"
  "cachedGasData (snd (getCachedNonce now r s)) = cachedGasData s"
  "exitScheduled (snd (getCachedNonce now r s)) = exitScheduled s"
  "exited (snd (getCachedNonce now r s)) = exited s"
  "sentHashes (snd (getCachedNonce now r s)) = sentHashes s"
  by (simp_all add: getCachedNonce_def fetchNonce_def storeNonce_def Let_def split: option.splits)

text \<open>The four ways through \<open>sendTransaction\<close>, by what the getters and the client answer.\<close>

lemma sendTransaction_gas_failed:
  assumes "fst (getCachedGasData pu cfg (gasNow env) (feeResp env) s) = Inl e"
  shows "sendTransaction pu cfg env bn bd s =
           (snd (getCachedGasData pu cfg (gasNow env) (feeResp env) s))
             \<lparr>sentTransactionCount := sentTransactionCount s - 1\<rparr>"
  using assms by (simp add: sendTransaction_def trackSubmission_def case_prod_beta)

lemma sendTransaction_nonce_failed:
  assumes "fst (getCachedGasData pu cfg (gasNow env) (feeResp env) s) = Inr g"
    and "fst (getCachedNonce (nonceNow env) (nonceResp env)
               (snd (getCachedGasData pu cfg (gasNow env) (feeResp env) s))) = Inl e"
  shows "sendTransaction pu cfg env bn bd s =
           (snd (getCachedNonce (nonceNow env) (nonceResp env)
                  (snd (getCachedGasData pu cfg (gasNow env) (feeResp env) s))))
             \<lparr>sentTransactionCount := sentTransactionCount s - 1\<rparr>"
  using assms by (simp add: sendTransaction_def trackSubmission_def case_prod_beta)

lemma sendTransaction_send_failed:
  assumes "fst (getCachedGasData pu cfg (gasNow env) (feeResp env) s) = Inr g"
    and "fst (getCachedNonce (nonceNow env) (nonceResp env)
               (snd (getCachedGasData pu cfg (gasNow env) (feeResp env) s))) = Inr n"
    and "sendResp env = None"
  shows "sendTransaction pu cfg env bn bd s =
           (snd (getCachedNonce (nonceNow env) (nonceResp env)
                  (snd (getCachedGasData pu cfg (gasNow env) (feeResp env) s))))
             \<lparr>sentTransactionCount := sentTransactionCount s,
              rpcLog := rpcLog (snd (getCachedNonce (nonceNow env) (nonceResp env)
                          (snd (getCachedGasData pu cfg (gasNow env) (feeResp env) s))))
                        @ [SendTransaction
                             \<lparr>txTo = recipientAddress cfg, txValue = 10,
                              txGasLimit = gasLimit cfg, txGasPrice = fst g,
                              txNonce = fst n\<rparr> None]\<rparr>"
  using assms by (simp add: sendTransaction_def trackSubmission_def case_prod_beta Let_def)

lemma sendTransaction_accepted:
  assumes "fst (getCachedGasData pu cfg (gasNow env) (feeResp env) s) = Inr g"
    and "fst (getCachedNonce (nonceNow env) (nonceResp env)
               (snd (getCachedGasData pu cfg (gasNow env) (feeResp env) s))) = Inr n"
    and "sendResp env = Some h"
    and "sn = snd (getCachedNonce (nonceNow env) (nonceResp env)
                (snd (getCachedGasData pu cfg (gasNow env) (feeResp env) s)))"
  shows "sendTransaction pu cfg env bn bd s =
           sn\<lparr>sentTransactionCount := sentTransactionCount s + 1,
              rpcLog := rpcLog sn
                        @ [SendTransaction
                             \<lparr>txTo = recipientAddress cfg, txValue = 10,
                              txGasLimit = gasLimit cfg, txGasPrice = fst g,
                              txNonce = fst n\<rparr> (Some h)],
              cachedNonce := map_option (\<lambda>c. c\<lparr>nonce := nonce c + 1\<rparr>) (cachedNonce sn),
              pendingTransactions :=
                AList.update h
                  \<lparr>sentBlock = bn, startTime = startNow env,
                   infoSentBlockTimestamp = timestamp bd,
                   infoSentTimestamp = sendNow env\<rparr>
                  (pendingTransactions s)\<rparr>"
  using assms by (simp add: sendTransaction_def trackSubmission_def case_prod_beta Let_def split: option.splits)

lemma sendTransaction_cases [case_names gas_failed nonce_failed send_failed accepted]:
  obtains
    (gas_failed) e where
      "fst (getCachedGasData pu cfg (gasNow env) (feeResp env) s) = Inl e"
  | (nonce_failed) g e where
      "fst (getCachedGasData pu cfg (gasNow env) (feeResp env) s) = Inr g"
      "fst (getCachedNonce (nonceNow env) (nonceResp env)
             (snd (getCachedGasData pu cfg (gasNow env) (feeResp env) s))) = Inl e"
  | (send_failed) g n where
      "fst (getCachedGasData pu cfg (gasNow env) (feeResp env) s) = Inr g"
      "fst (getCachedNonce (nonceNow env) (nonceResp env)
             (snd (getCachedGasData pu cfg (gasNow env) (feeResp env) s))) = Inr n"
      "sendResp env = None"
  | (accepted) g n h where
      "fst (getCachedGasData pu cfg (gasNow env) (feeResp env) s) = Inr g"
      "fst (getCachedNonce (nonceNow env) (nonceResp env)
             (snd (getCachedGasData pu cfg (gasNow env) (feeResp env) s))) = Inr n"
      "sendResp env = Some h"
proof (cases "fst (getCachedGasData pu cfg (gasNow env) (feeResp env) s)")
  case (Inl e)
  then show ?thesis by (rule gas_failed)
next
  case g: (Inr g)
  show ?thesis
  proof (cases "fst (getCachedNonce (nonceNow env) (nonceResp env)
                      (snd (getCachedGasData pu cfg (gasNow env) (feeResp env) s)))")
    case (Inl e)
    with g show ?thesis by (rule nonce_failed)
  next
    case n: (Inr n)
    show ?thesis
    proof (cases "sendResp env")
      case None
      with g n show ?thesis by (rule send_failed)
    next
      case (Some h)
      with g n show ?thesis by (rule accepted)
    qed
  qed
qed

lemma sendTransaction_frame [simp]:
  "blockCount (sendTransaction pu cfg env bn bd s) = blockCount s"
  "confirmationMetrics (sendTransaction pu cfg env bn bd s) = confirmationMetrics s"
  "isConnected (sendTransaction pu cfg env bn bd s) = isConnected s"
  "isPolling (sendTransaction pu cfg env bn bd s) = isPolling s"
  "lastProcessedBlock (sendTransaction pu cfg env bn bd s) = lastProcessedBlock s"
  "exitScheduled (sendTransaction pu cfg env bn bd s) = exitScheduled s"
  "exited (sendTransaction pu cfg env bn bd s) = exited s"
  by (cases rule: sendTransaction_cases [of pu cfg env s];
      simp add: sendTransaction_gas_failed sendTransaction_nonce_failed
        sendTransaction_send_failed sendTransaction_accepted)+

lemma sendTransaction_log_grows:
  "length (rpcLog s) < length (rpcLog (sendTransaction pu cfg env bn bd s))"
  by (simp add: sendTransaction_def trackSubmission_def getCachedGasData_def fetchGasData_def storeGasData_def getCachedNonce_def
      fetchNonce_def storeNonce_def Let_def split: option.splits)

lemma refreshTick_frame [simp]:
  "blockCount (refreshTick pu cfg env s) = blockCount s"
  "pendingTransactions (refreshTick pu cfg env s) = pendingTransactions s"
  "confirmationMetrics (refreshTick pu cfg env s) = confirmationMetrics s"
  "isConnected (refreshTick pu cfg env s) = isConnected s"
  "isPolling (refreshTick pu cfg env s) = isPolling s"
  "sentTransactionCount (refreshTick pu cfg env s) = sentTransactionCount s"
  "lastProcessedBlock (refreshTick pu cfg env s) = lastProcessedBlock s"
  "exitScheduled (refreshTick pu cfg env s) = exitScheduled s"
  "exited (refreshTick pu cfg env s) = exited s"
  "sentHashes (refreshTick pu cfg env s) = sentHashes s"
  by (simp_all add: refreshTick_def case_prod_beta split: sum.splits)

lemma start_frame [simp]:
  "blockCount (snd (start pu cfg env s)) = blockCount s"
  "pendingTransactions (snd (start pu cfg env s)) = pendingTransactions s"
  "confirmationMetrics (snd (start pu cfg env s)) = confirmationMetrics s"
  "isConnected (snd (start pu cfg env s)) = isConnected s"
  "isPolling (snd (start pu cfg env s)) = isPolling s"
  "sentTransactionCount (snd (start pu cfg env s)) = sentTransactionCount s"
  "lastProcessedBlock (snd (start pu cfg env s)) = lastProcessedBlock s"
  "exitScheduled (snd (start pu cfg env s)) = exitScheduled s"
  "exited (snd (start pu cfg env s)) = exited s"
  "sentHashes (snd (start pu cfg env s)) = sentHashes s"
  by (simp_all add: start_def case_prod_beta split: sum.splits)

lemma stop_frame [simp]:
  "blockCount (stop cfg s) = blockCount s"
  "pendingTransactions (stop cfg s) = pendingTransactions s"
  "confirmationMetrics (stop cfg s) = confirmationMetrics s"
  "sentTransactionCount (stop cfg s) = sentTransactionCount s"
  "lastProcessedBlock (stop cfg s) = lastProcessedBlock s"
  "cachedGasData (stop cfg s) = cachedGasData s"
  "cachedNonce (stop cfg s) = cachedNonce s"
  "rpcLog (stop cfg s) = rpcLog s"
  "sentHashes (stop cfg s) = sentHashes s"
  by (simp_all add: stop_def Let_def)

lemma stopHTTP_frame [simp]:
  "blockCount (stopHTTP cfg s) = blockCount s"
  "pendingTransactions (stopHTTP cfg s) = pendingTransactions s"
  "confirmationMetrics (stopHTTP cfg s) = confirmationMetrics s"
  "sentTransactionCount (stopHTTP cfg s) = sentTransactionCount s"
  "lastProcessedBlock (stopHTTP cfg s) = lastProcessedBlock s"
  "cachedGasData (stopHTTP cfg s) = cachedGasData s"
  "cachedNonce (stopHTTP cfg s) = cachedNonce s"
  "rpcLog (stopHTTP cfg s) = rpcLog s"
  "sentHashes (stopHTTP cfg s) = sentHashes s"
  by (simp_all add: stopHTTP_def Let_def)

section \<open>What each part of a callback leaves unchanged\<close>

lemma storeGasData_frame [simp]:
  "confirmationMetrics (snd (storeGasData pu cfg now fd s)) = confirmationMetrics s"
  "cachedNonce (snd (storeGasData pu cfg now fd s)) = cachedNonce s"
  "sentHashes (snd (storeGasData pu cfg now fd s)) = sentHashes s"
  "exited (snd (storeGasData pu cfg now fd s)) = exited s"
  by (simp_all add: storeGasData_def split: option.splits)

lemma settleGasData_frame [simp]:
  "confirmationMetrics (snd (settleGasData pu cfg now r s)) = confirmationMetrics s"
  "cachedNonce (snd (settleGasData pu cfg now r s)) = cachedNonce s"
  "sentHashes (snd (settleGasData pu cfg now r s)) = sentHashes s"
  "exited (snd (settleGasData pu cfg now r s)) = exited s"
  by (simp_all add: settleGasData_def split: option.splits)

lemma settleNonce_frame [simp]:
  "confirmationMetrics (snd (settleNonce now r s)) = confirmationMetrics s"
  "sentHashes (snd (settleNonce now r s)) = sentHashes s"
  "exited (snd (settleNonce now r s)) = exited s"
  by (simp_all add: settleNonce_def storeNonce_def split: option.splits)

lemma dispatchBegin_frame [simp]:
  "confirmationMetrics (fst (dispatchBegin env bn bd s)) = confirmationMetrics s"
  "cachedNonce (fst (dispatchBegin env bn bd s)) = cachedNonce s"
  "sentHashes (fst (dispatchBegin env bn bd s)) = sentHashes s"
  by (simp_all add: dispatchBegin_def split: option.splits)

lemma dispatchResumeFee_frame [simp]:
  "confirmationMetrics (fst (dispatchResumeFee pu cfg env bn bd s)) = confirmationMetrics s"
  "cachedNonce (fst (dispatchResumeFee pu cfg env bn bd s)) = cachedNonce s"
  "sentHashes (fst (dispatchResumeFee pu cfg env bn bd s)) = sentHashes s"
  by (simp_all add: dispatchResumeFee_def case_prod_beta)

lemma dispatchResumeGas_frame [simp]:
  "confirmationMetrics (fst (dispatchResumeGas env bn bd r s)) = confirmationMetrics s"
  "cachedNonce (fst (dispatchResumeGas env bn bd r s)) = cachedNonce s"
  "sentHashes (fst (dispatchResumeGas env bn bd r s)) = sentHashes s"
  by (simp_all add: dispatchResumeGas_def split: option.splits sum.splits prod.splits)

lemma dispatchResumeCount_frame [simp]:
  "confirmationMetrics (fst (dispatchResumeCount env bn bd gp s)) = confirmationMetrics s"
  "sentHashes (fst (dispatchResumeCount env bn bd gp s)) = sentHashes s"
  by (simp_all add: dispatchResumeCount_def case_prod_beta)

lemma dispatchResumeNonce_frame [simp]:
  "confirmationMetrics (fst (dispatchResumeNonce cfg env bn bd gp r s)) = confirmationMetrics s"
  "cachedNonce (fst (dispatchResumeNonce cfg env bn bd gp r s)) = cachedNonce s"
  "sentHashes (fst (dispatchResumeNonce cfg env bn bd gp r s)) = sentHashes s"
  by (simp_all add: dispatchResumeNonce_def Let_def split: sum.splits prod.splits)

lemma trackSubmission_frame [simp]:
  "confirmationMetrics (trackSubmission env bn bd h s) = confirmationMetrics s"
  "sentHashes (trackSubmission env bn bd h s) = sentHashes s"
  "cachedNonce (trackSubmission env bn bd h s) =
     map_option (\<lambda>c. c\<lparr>nonce := nonce c + 1\<rparr>) (cachedNonce s)"
  by (simp_all add: trackSubmission_def Let_def split: option.splits)

lemma dispatchResumeSend_frame [simp]:
  "confirmationMetrics (fst (dispatchResumeSend env bn bd tx s)) = confirmationMetrics s"
  by (simp_all add: dispatchResumeSend_def Let_def split: option.splits)

lemma headBegin_frame [simp]:
  "confirmationMetrics (fst (headBegin parseHex cfg env b s)) = confirmationMetrics s"
  "cachedNonce (fst (headBegin parseHex cfg env b s)) = cachedNonce s"
  "sentHashes (fst (headBegin parseHex cfg env b s)) = sentHashes s"
  by (simp_all add: headBegin_def Let_def)

lemma refreshBegin_frame [simp]:
  "confirmationMetrics (fst (refreshBegin env s)) = confirmationMetrics s"
  "cachedNonce (fst (refreshBegin env s)) = cachedNonce s"
  "sentHashes (fst (refreshBegin env s)) = sentHashes s"
  by (simp_all add: refreshBegin_def split: option.splits)

lemma refreshResumeFee_frame [simp]:
  "confirmationMetrics (fst (refreshResumeFee pu cfg env s)) = confirmationMetrics s"
  "cachedNonce (fst (refreshResumeFee pu cfg env s)) = cachedNonce s"
  "sentHashes (fst (refreshResumeFee pu cfg env s)) = sentHashes s"
  by (simp_all add: refreshResumeFee_def case_prod_beta)

lemma refreshResumeGas_frame [simp]:
  "confirmationMetrics (fst (refreshResumeGas env r s)) = confirmationMetrics s"
  "cachedNonce (fst (refreshResumeGas env r s)) = cachedNonce s"
  "sentHashes (fst (refreshResumeGas env r s)) = sentHashes s"
  by (simp_all add: refreshResumeGas_def split: option.splits sum.splits)

lemma refreshResumeCount_frame [simp]:
  "confirmationMetrics (fst (refreshResumeCount env s)) = confirmationMetrics s"
  "sentHashes (fst (refreshResumeCount env s)) = sentHashes s"
  by (simp_all add: refreshResumeCount_def)

lemma monitorNext_frame [simp]:
  "confirmationMetrics (fst (monitorNext env visited s)) = confirmationMetrics s"
  "cachedNonce (fst (monitorNext env visited s)) = cachedNonce s"
  "sentHashes (fst (monitorNext env visited s)) = sentHashes s"
  by (simp_all add: monitorNext_def split: option.splits prod.splits)

lemma monitorBegin_frame [simp]:
  "confirmationMetrics (fst (monitorBegin env s)) = confirmationMetrics s"
  "cachedNonce (fst (monitorBegin env s)) = cachedNonce s"
  "sentHashes (fst (monitorBegin env s)) = sentHashes s"
  by (simp_all add: monitorBegin_def)

lemma monitorResumeReceipt_frame [simp]:
  "confirmationMetrics (fst (monitorResumeReceipt env visited h info s)) = confirmationMetrics s"
  "cachedNonce (fst (monitorResumeReceipt env visited h info s)) = cachedNonce s"
  "sentHashes (fst (monitorResumeReceipt env visited h info s)) = sentHashes s"
  by (simp_all add: monitorResumeReceipt_def split: option.splits)

lemma recordConfirmation_frame [simp]:
  "cachedNonce (snd (recordConfirmation cfg env h r info s)) = cachedNonce s"
  "sentHashes (snd (recordConfirmation cfg env h r info s)) = sentHashes s"
  by (simp_all add: recordConfirmation_def Let_def split: option.splits)

lemma monitorResumeBlock_frame [simp]:
  "cachedNonce (fst (monitorResumeBlock cfg env visited h info r s)) = cachedNonce s"
  "sentHashes (fst (monitorResumeBlock cfg env visited h info r s)) = sentHashes s"
  by (simp_all add: monitorResumeBlock_def case_prod_beta)

lemma monitorResumeConfirmed_frame [simp]:
  "confirmationMetrics (fst (monitorResumeConfirmed env visited h r s)) = confirmationMetrics s"
  "cachedNonce (fst (monitorResumeConfirmed env visited h r s)) = cachedNonce s"
  "sentHashes (fst (monitorResumeConfirmed env visited h r s)) = sentHashes s"
  by (simp_all add: monitorResumeConfirmed_def split: sum.splits)



lemma ws_run_Cons:
  "ws_run parseHex pu cfg (turn # turns) w =
     ws_run parseHex pu cfg turns (ws_step parseHex pu cfg w turn)"
  by (simp add: ws_run_def)

section \<open>Callbacks that nothing overlaps\<close>

text \<open>
  A block notification handled from its beginning to its end, nothing else running in
  between, is \<open>handleNewBlock\<close> (a turn that finds nothing suspended does nothing).
\<close>

lemma handleNewBlock_as_turns:
  assumes "\<not> exited s"
  shows "ws_run parseHex pu cfg
           [Begin (WsNewHead b env), Resume 0, Resume 0, Resume 0, Resume 0, Resume 0] (s, []) =
           (handleNewBlock parseHex pu cfg env b s, [])"
  using assms
  by (auto simp: ws_run_def ws_step_def beginEvent_def headBegin_def handleNewBlock_def
      dispatchBegin_def dispatchResumeFee_def dispatchResumeGas_def dispatchResumeCount_def
      dispatchResumeNonce_def dispatchResumeSend_def resumeCallback_def sendTransaction_def
      getCachedGasData_def fetchGasData_def getCachedNonce_def fetchNonce_def storeNonce_def
      settleGasData_def settleNonce_def validGasData_def validNonce_def storeGasData_def
      Let_def stop_def
      split: option.splits sum.splits prod.splits if_splits)

text \<open>The same for a refresh tick and \<open>refreshTick\<close>.\<close>

lemma refreshTick_as_turns:
  assumes "\<not> exited s"
  shows "ws_run parseHex pu cfg [Begin (WsRefreshTick env), Resume 0, Resume 0, Resume 0] (s, []) =
           (refreshTick pu cfg env s, [])"
  using assms
  by (auto simp: ws_run_def ws_step_def beginEvent_def resumeCallback_def refreshBegin_def
      refreshResumeFee_def refreshResumeGas_def refreshResumeCount_def refreshTick_def
      getCachedGasData_def fetchGasData_def getCachedNonce_def fetchNonce_def storeNonce_def
      settleGasData_def settleNonce_def validGasData_def validNonce_def storeGasData_def
      insertedHashes_def Let_def
      split: option.splits sum.splits prod.splits if_splits)

section \<open>Evaluating a run of the event loop\<close>

lemmas event_loop_defs =
    ws_run_def ws_step_def beginEvent_def resumeCallback_def headBegin_def
    dispatchBegin_def dispatchResumeFee_def dispatchResumeGas_def dispatchResumeCount_def
    dispatchResumeNonce_def dispatchResumeSend_def trackSubmission_def refreshBegin_def
    refreshResumeFee_def refreshResumeGas_def refreshResumeCount_def monitorBegin_def
    monitorNext_def monitorResumeReceipt_def monitorResumeBlock_def
    monitorResumeConfirmed_def recordConfirmation_def start_def getCachedGasData_def
    fetchGasData_def getCachedNonce_def fetchNonce_def settleGasData_def settleNonce_def
    storeGasData_def storeNonce_def validGasData_def validNonce_def insertedHashes_def
    orElseThrowing_def orElse_def orUndefined_def jsStrictEq_def num_def
    GAS_CACHE_TTL_def NONCE_CACHE_TTL_def Let_def

section \<open>Parameter cache: freshness\<close>

lemma runCalls_append:
  "runCalls f (xs @ ys) s =
     (case runCalls f xs s of (rs, s1) \<Rightarrow>
        (case runCalls f ys s1 of (rs', s2) \<Rightarrow> (rs @ rs', s2)))"
  by (induction xs arbitrary: s) (auto split: prod.splits)

lemma runCalls_fixed:
  "(\<forall>c\<in>set cs. f c s = (r, s)) \<Longrightarrow> runCalls f cs s = (replicate (length cs) r, s)"
  by (induction cs) auto

lemma getCachedNonce_hit:
  "cachedNonce s = Some c \<Longrightarrow> now - nonceLastUpdated c < NONCE_CACHE_TTL \<Longrightarrow>
   getCachedNonce now r s = (Inr (nonce c, True), s)"
  by (simp add: getCachedNonce_def)

lemma getCachedNonce_expired:
  "cachedNonce s = Some c \<Longrightarrow> \<not> now - nonceLastUpdated c < NONCE_CACHE_TTL \<Longrightarrow>
   getCachedNonce now r s = fetchNonce now r s"
  by (simp add: getCachedNonce_def)

lemma getCachedNonce_empty:
  "cachedNonce s = None \<Longrightarrow> getCachedNonce now r s = fetchNonce now r s"
  by (simp add: getCachedNonce_def)

lemma getCachedGasData_hit:
  "cachedGasData s = Some c \<Longrightarrow> now - lastUpdated c < GAS_CACHE_TTL \<Longrightarrow>
   getCachedGasData pu cfg now r s = (Inr (gasPrice c, True), s)"
  by (simp add: getCachedGasData_def)

lemma getCachedGasData_expired:
  "cachedGasData s = Some c \<Longrightarrow> \<not> now - lastUpdated c < GAS_CACHE_TTL \<Longrightarrow>
   getCachedGasData pu cfg now r s = fetchGasData pu cfg now r s"
  by (simp add: getCachedGasData_def)

lemma getCachedGasData_empty:
  "cachedGasData s = None \<Longrightarrow> getCachedGasData pu cfg now r s = fetchGasData pu cfg now r s"
  by (simp add: getCachedGasData_def)

lemma fetchNonce_Some:
  "fetchNonce now (Some n) s =
     (Inr (n, False),
      s\<lparr>rpcLog := rpcLog s @ [GetNonce],
        cachedNonce := Some \<lparr>nonce = n, nonceLastUpdated = now\<rparr>\<rparr>)"
  by (simp add: fetchNonce_def storeNonce_def)

lemma fetchGasData_stored:
  "orElseThrowing (feeGasPrice fd) (pu (gasPriceGwei cfg)) = Some gp \<Longrightarrow>
   fetchGasData pu cfg now (Some fd) s =
     (Inr (gp, False),
      s\<lparr>rpcLog := rpcLog s @ [GetFeeData],
        cachedGasData := Some
          \<lparr>gasPrice = gp,
           maxFeePerGas = orUndefined (feeMaxFeePerGas fd),
           maxPriorityFeePerGas = orUndefined (feeMaxPriorityFeePerGas fd),
           lastUpdated = now\<rparr>\<rparr>)"
  by (simp add: fetchGasData_def storeGasData_def Let_def)

lemma fetchGasData_thrown:
  "orElseThrowing (feeGasPrice fd) (pu (gasPriceGwei cfg)) = None \<Longrightarrow>
   fetchGasData pu cfg now (Some fd) s = (Inl UnitsError, s\<lparr>rpcLog := rpcLog s @ [GetFeeData]\<rparr>)"
  by (simp add: fetchGasData_def storeGasData_def Let_def)

lemma nonce_calls_within_ttl:
  assumes "cachedNonce s = Some c"
    and "\<forall>call\<in>set calls. fst call - nonceLastUpdated c < NONCE_CACHE_TTL"
  shows "runCalls (\<lambda>call. getCachedNonce (fst call) (snd call)) calls s =
           (replicate (length calls) (Inr (nonce c, True)), s)"
  by (rule runCalls_fixed) (use assms in \<open>simp add: getCachedNonce_hit\<close>)

lemma gas_calls_within_ttl:
  assumes "cachedGasData s = Some g"
    and "\<forall>call\<in>set calls. fst call - lastUpdated g < GAS_CACHE_TTL"
  shows "runCalls (\<lambda>call. getCachedGasData pu cfg (fst call) (snd call)) calls s =
           (replicate (length calls) (Inr (gasPrice g, True)), s)"
  by (rule runCalls_fixed) (use assms in \<open>simp add: getCachedGasData_hit\<close>)

text \<open>
  What the two getters do. Any sequence of get calls made within the TTL of the last
  refresh leaves the state as it is, call log included (no chain-client query), and every
  call returns the stored value with \<open>cached = true\<close>. The first call after the TTL has
  elapsed, or a call on an empty cell, adds exactly one query to the log. For the
  sequence cell it then stores the answer with the time of the call and returns it with
  \<open>cached = false\<close>. For the fee-rate cell the value is the gas price the client
  reports, when it reports one that is not zero, and else the configured default
  converted by \<open>parseUnits\<close>: when there is such a value it is stored with the time of
  the call and returned with \<open>cached = false\<close>; when the conversion throws, the call
  throws after its one query and stores nothing.
\<close>

lemma cache_freshness_unless_conversion_throws:
  "(cachedNonce s = Some c \<longrightarrow>
    (\<forall>call\<in>set calls. fst call - nonceLastUpdated c < NONCE_CACHE_TTL) \<longrightarrow>
    \<not> now - nonceLastUpdated c < NONCE_CACHE_TTL \<longrightarrow>
      runCalls (\<lambda>call. getCachedNonce (fst call) (snd call)) (calls @ [(now, Some n)]) s =
        (replicate (length calls) (Inr (nonce c, True)) @ [Inr (n, False)],
         s\<lparr>rpcLog := rpcLog s @ [GetNonce],
           cachedNonce := Some \<lparr>nonce = n, nonceLastUpdated = now\<rparr>\<rparr>))
   \<and> (cachedNonce s = None \<longrightarrow>
        getCachedNonce now (Some n) s =
          (Inr (n, False),
           s\<lparr>rpcLog := rpcLog s @ [GetNonce],
             cachedNonce := Some \<lparr>nonce = n, nonceLastUpdated = now\<rparr>\<rparr>))
   \<and> (cachedGasData s = Some g \<longrightarrow>
        (\<forall>call\<in>set gcalls. fst call - lastUpdated g < GAS_CACHE_TTL) \<longrightarrow>
        \<not> now - lastUpdated g < GAS_CACHE_TTL \<longrightarrow>
          (orElseThrowing (feeGasPrice fd) (pu (gasPriceGwei cfg)) = Some gp \<longrightarrow>
             runCalls (\<lambda>call. getCachedGasData pu cfg (fst call) (snd call))
                 (gcalls @ [(now, Some fd)]) s =
               (replicate (length gcalls) (Inr (gasPrice g, True)) @ [Inr (gp, False)],
                s\<lparr>rpcLog := rpcLog s @ [GetFeeData],
                  cachedGasData := Some
                    \<lparr>gasPrice = gp,
                     maxFeePerGas = orUndefined (feeMaxFeePerGas fd),
                     maxPriorityFeePerGas = orUndefined (feeMaxPriorityFeePerGas fd),
                     lastUpdated = now\<rparr>\<rparr>))
          \<and> (orElseThrowing (feeGasPrice fd) (pu (gasPriceGwei cfg)) = None \<longrightarrow>
             runCalls (\<lambda>call. getCachedGasData pu cfg (fst call) (snd call))
                 (gcalls @ [(now, Some fd)]) s =
               (replicate (length gcalls) (Inr (gasPrice g, True)) @ [Inl UnitsError],
                s\<lparr>rpcLog := rpcLog s @ [GetFeeData]\<rparr>)))
   \<and> (cachedGasData s = None \<longrightarrow>
        (orElseThrowing (feeGasPrice fd) (pu (gasPriceGwei cfg)) = Some gp \<longrightarrow>
           getCachedGasData pu cfg now (Some fd) s =
             (Inr (gp, False),
              s\<lparr>rpcLog := rpcLog s @ [GetFeeData],
                cachedGasData := Some
                  \<lparr>gasPrice = gp,
                   maxFeePerGas = orUndefined (feeMaxFeePerGas fd),
                   maxPriorityFeePerGas = orUndefined (feeMaxPriorityFeePerGas fd),
                   lastUpdated = now\<rparr>\<rparr>))
        \<and> (orElseThrowing (feeGasPrice fd) (pu (gasPriceGwei cfg)) = None \<longrightarrow>
           getCachedGasData pu cfg now (Some fd) s =
             (Inl UnitsError, s\<lparr>rpcLog := rpcLog s @ [GetFeeData]\<rparr>)))
   \<and> (orElseThrowing (feeGasPrice fd) (pu (gasPriceGwei cfg)) =
        (case feeGasPrice fd of
           None \<Rightarrow> pu (gasPriceGwei cfg)
         | Some p \<Rightarrow> if p = 0 then pu (gasPriceGwei cfg) else Some p))"
proof (intro conjI impI)
  assume "cachedNonce s = Some c"
    and "\<forall>call\<in>set calls. fst call - nonceLastUpdated c < NONCE_CACHE_TTL"
    and "\<not> now - nonceLastUpdated c < NONCE_CACHE_TTL"
  then show "runCalls (\<lambda>call. getCachedNonce (fst call) (snd call)) (calls @ [(now, Some n)]) s =
        (replicate (length calls) (Inr (nonce c, True)) @ [Inr (n, False)],
         s\<lparr>rpcLog := rpcLog s @ [GetNonce],
           cachedNonce := Some \<lparr>nonce = n, nonceLastUpdated = now\<rparr>\<rparr>)"
    by (simp add: runCalls_append nonce_calls_within_ttl getCachedNonce_expired fetchNonce_Some)
next
  assume "cachedNonce s = None"
  then show "getCachedNonce now (Some n) s =
          (Inr (n, False),
           s\<lparr>rpcLog := rpcLog s @ [GetNonce],
             cachedNonce := Some \<lparr>nonce = n, nonceLastUpdated = now\<rparr>\<rparr>)"
    by (simp add: getCachedNonce_empty fetchNonce_Some)
next
  assume "cachedGasData s = Some g"
    and "\<forall>call\<in>set gcalls. fst call - lastUpdated g < GAS_CACHE_TTL"
    and "\<not> now - lastUpdated g < GAS_CACHE_TTL"
    and "orElseThrowing (feeGasPrice fd) (pu (gasPriceGwei cfg)) = Some gp"
  then show "runCalls (\<lambda>call. getCachedGasData pu cfg (fst call) (snd call))
                 (gcalls @ [(now, Some fd)]) s =
               (replicate (length gcalls) (Inr (gasPrice g, True)) @ [Inr (gp, False)],
                s\<lparr>rpcLog := rpcLog s @ [GetFeeData],
                  cachedGasData := Some
                    \<lparr>gasPrice = gp,
                     maxFeePerGas = orUndefined (feeMaxFeePerGas fd),
                     maxPriorityFeePerGas = orUndefined (feeMaxPriorityFeePerGas fd),
                     lastUpdated = now\<rparr>\<rparr>)"
    by (simp add: runCalls_append gas_calls_within_ttl getCachedGasData_expired
        fetchGasData_stored)
next
  assume "cachedGasData s = Some g"
    and "\<forall>call\<in>set gcalls. fst call - lastUpdated g < GAS_CACHE_TTL"
    and "\<not> now - lastUpdated g < GAS_CACHE_TTL"
    and "orElseThrowing (feeGasPrice fd) (pu (gasPriceGwei cfg)) = None"
  then show "runCalls (\<lambda>call. getCachedGasData pu cfg (fst call) (snd call))
                 (gcalls @ [(now, Some fd)]) s =
               (replicate (length gcalls) (Inr (gasPrice g, True)) @ [Inl UnitsError],
                s\<lparr>rpcLog := rpcLog s @ [GetFeeData]\<rparr>)"
    by (simp add: runCalls_append gas_calls_within_ttl getCachedGasData_expired
        fetchGasData_thrown)
next
  assume "cachedGasData s = None"
    and "orElseThrowing (feeGasPrice fd) (pu (gasPriceGwei cfg)) = Some gp"
  then show "getCachedGasData pu cfg now (Some fd) s =
             (Inr (gp, False),
              s\<lparr>rpcLog := rpcLog s @ [GetFeeData],
                cachedGasData := Some
                  \<lparr>gasPrice = gp,
                   maxFeePerGas = orUndefined (feeMaxFeePerGas fd),
                   maxPriorityFeePerGas = orUndefined (feeMaxPriorityFeePerGas fd),
                   lastUpdated = now\<rparr>\<rparr>)"
    by (simp add: getCachedGasData_empty fetchGasData_stored)
next
  assume "cachedGasData s = None"
    and "orElseThrowing (feeGasPrice fd) (pu (gasPriceGwei cfg)) = None"
  then show "getCachedGasData pu cfg now (Some fd) s =
             (Inl UnitsError, s\<lparr>rpcLog := rpcLog s @ [GetFeeData]\<rparr>)"
    by (simp add: getCachedGasData_empty fetchGasData_thrown)
next
  show "orElseThrowing (feeGasPrice fd) (pu (gasPriceGwei cfg)) =
        (case feeGasPrice fd of
           None \<Rightarrow> pu (gasPriceGwei cfg)
         | Some p \<Rightarrow> if p = 0 then pu (gasPriceGwei cfg) else Some p)"
    by (simp add: orElseThrowing_def)
qed

lemma cache_freshness_examples:
  "runCalls (\<lambda>call. getCachedNonce (fst call) (snd call))
       [(1000, None), (59999, Some 8), (60000, Some 6)] warmEngine =
     ([Inr (5, True), Inr (5, True), Inr (6, False)],
      warmEngine\<lparr>rpcLog := [GetNonce],
        cachedNonce := Some \<lparr>nonce = 6, nonceLastUpdated = 60000\<rparr>\<rparr>)
   \<and> getCachedNonce 3 (Some 6) initialEngine =
       (Inr (6, False),
        initialEngine\<lparr>rpcLog := [GetNonce],
          cachedNonce := Some \<lparr>nonce = 6, nonceLastUpdated = 3\<rparr>\<rparr>)
   \<and> runCalls (\<lambda>call. getCachedGasData exampleParseUnits exampleConfig (fst call) (snd call))
       [(1000, None), (29999, Some exampleFeeData), (30000, Some exampleFeeData)] warmEngine =
     ([Inr (7, True), Inr (7, True), Inr (9, False)],
      warmEngine\<lparr>rpcLog := [GetFeeData],
        cachedGasData := Some \<lparr>gasPrice = 9, maxFeePerGas = None,
                                  maxPriorityFeePerGas = None, lastUpdated = 30000\<rparr>\<rparr>)
   \<and> getCachedGasData exampleParseUnits exampleConfig 3 (Some zeroFeeData) initialEngine =
       (Inr (20000000000, False),
        initialEngine\<lparr>rpcLog := [GetFeeData],
          cachedGasData := Some \<lparr>gasPrice = 20000000000, maxFeePerGas = None,
                                    maxPriorityFeePerGas = None, lastUpdated = 3\<rparr>\<rparr>)
   \<and> getCachedGasData exampleParseUnits tinyDefaultConfig 3 (Some zeroFeeData) initialEngine =
       (Inl UnitsError, initialEngine\<lparr>rpcLog := [GetFeeData]\<rparr>)"
  using cache_freshness_unless_conversion_throws [where s = warmEngine
      and c = "\<lparr>nonce = 5, nonceLastUpdated = 0\<rparr>"
      and calls = "[(1000, None), (59999, Some 8)]" and now = 60000 and n = 6]
    cache_freshness_unless_conversion_throws [where s = warmEngine
      and g = "\<lparr>gasPrice = 7, maxFeePerGas = None, maxPriorityFeePerGas = None, lastUpdated = 0\<rparr>"
      and gcalls = "[(1000, None), (29999, Some exampleFeeData)]" and now = 30000
      and cfg = exampleConfig and pu = exampleParseUnits and fd = exampleFeeData and gp = 9]
    cache_freshness_unless_conversion_throws [where s = initialEngine and now = 3 and n = 6
      and cfg = exampleConfig and pu = exampleParseUnits and fd = zeroFeeData
      and gp = 20000000000]
    cache_freshness_unless_conversion_throws [where s = initialEngine and now = 3
      and cfg = tinyDefaultConfig and pu = exampleParseUnits and fd = zeroFeeData]
  by (simp add: warmEngine_def initialEngine_def exampleFeeData_def zeroFeeData_def
      exampleConfig_def tinyDefaultConfig_def exampleParseUnits_def
      NONCE_CACHE_TTL_def GAS_CACHE_TTL_def orElseThrowing_def orUndefined_def)

text \<open>
  C6, at a failing input. The configuration is the one the loader returns for
  \<open>GAS_PRICE_GWEI=1e-7\<close>; the fee-rate cell refreshed at time 0 has expired at time
  30000; the fee-data query answers without a gas price, and \<open>parseUnits\<close> throws on
  the rendering \<open>1e-7\<close> of the default. The get call has made its one query, but it
  returns no value and stores nothing: the cell still holds the value and the
  timestamp of time 0, and the next call queries again.
\<close>

theorem expired_fee_cell_not_refreshed:
  "load exampleParseFloat (numericEnv [] ''1e-7'' [] []) = Inr tinyDefaultConfig
   \<and> cachedGasData warmEngine =
       Some \<lparr>gasPrice = 7, maxFeePerGas = None, maxPriorityFeePerGas = None, lastUpdated = 0\<rparr>
   \<and> \<not> 30000 - 0 < GAS_CACHE_TTL
   \<and> runCalls (\<lambda>call. getCachedGasData exampleParseUnits tinyDefaultConfig (fst call) (snd call))
         [(30000, Some nullFeeData), (30001, Some nullFeeData)] warmEngine =
       ([Inl UnitsError, Inl UnitsError], warmEngine\<lparr>rpcLog := [GetFeeData, GetFeeData]\<rparr>)"
  by (simp add: load_def getRequiredEnvVar_def getEnvVarAsNumber_def validateConfig_def
      numericEnv_def exampleParseFloat_def isNaN_def Let_def tinyDefaultConfig_def
      warmEngine_def initialEngine_def nullFeeData_def exampleParseUnits_def
      getCachedGasData_def fetchGasData_def storeGasData_def orElseThrowing_def
      GAS_CACHE_TTL_def)

section \<open>Dispatch: parameter-fetch failure; refresh ticks\<close>

text \<open>
  Whenever one of the two parameter getters throws inside \<open>sendTransaction\<close>, the
  counter ends one below its value before the call; the pending map and the sequence
  cell are as before.
\<close>

lemma getCachedNonce_failed_state:
  "isl (fst (getCachedNonce now r s)) \<Longrightarrow>
   cachedNonce (snd (getCachedNonce now r s)) = cachedNonce s"
  by (cases r; cases "cachedNonce s")
     (auto simp: getCachedNonce_def fetchNonce_def storeNonce_def Let_def split: if_splits)

lemma sendTransaction_fetch_failed:
  assumes "isl (fst (getCachedGasData pu cfg (gasNow env) (feeResp env) s))
           \<or> isl (fst (getCachedNonce (nonceNow env) (nonceResp env)
                         (snd (getCachedGasData pu cfg (gasNow env) (feeResp env) s))))"
  shows "sentTransactionCount (sendTransaction pu cfg env bn bd s) = sentTransactionCount s - 1
       \<and> pendingTransactions (sendTransaction pu cfg env bn bd s) = pendingTransactions s
       \<and> cachedNonce (sendTransaction pu cfg env bn bd s) = cachedNonce s"
proof (cases rule: sendTransaction_cases [of pu cfg env s])
  case (gas_failed e)
  then show ?thesis by (simp add: sendTransaction_gas_failed)
next
  case (nonce_failed g e)
  then show ?thesis
    using getCachedNonce_failed_state
      [of "nonceNow env" "nonceResp env" "snd (getCachedGasData pu cfg (gasNow env) (feeResp env) s)"]
    by (simp add: sendTransaction_nonce_failed)
next
  case (send_failed g n)
  then show ?thesis using assms by simp
next
  case (accepted g n h)
  then show ?thesis using assms by simp
qed

text \<open>
  C1, at a failing input. The engine has sent nothing, its fee-rate cell is empty and
  \<open>getFeeData()\<close> throws: the \<open>catch\<close> of \<open>sendTransaction\<close> decrements the counter
  that was never incremented, leaving it at -1. No pending entry is created and the
  sequence cell is not touched. The same happens at time 40000 on an engine whose
  fee-rate cell was refreshed at time 0 and has expired.
\<close>

theorem param_fetch_failure_counter:
  "sentTransactionCount initialEngine = 0
   \<and> sentTransactionCount
         (sendTransaction exampleParseUnits exampleConfig feeFailEnv 101 exampleBlock initialEngine) = - 1
   \<and> pendingTransactions
         (sendTransaction exampleParseUnits exampleConfig feeFailEnv 101 exampleBlock initialEngine) = []
   \<and> cachedNonce
         (sendTransaction exampleParseUnits exampleConfig feeFailEnv 101 exampleBlock initialEngine) = None
   \<and> sentTransactionCount warmEngine = 0
   \<and> sentTransactionCount
         (sendTransaction exampleParseUnits exampleConfig feeFailEnv40 101 exampleBlock warmEngine) = - 1
   \<and> pendingTransactions
         (sendTransaction exampleParseUnits exampleConfig feeFailEnv40 101 exampleBlock warmEngine) = []
   \<and> cachedNonce
         (sendTransaction exampleParseUnits exampleConfig feeFailEnv40 101 exampleBlock warmEngine) =
       Some \<lparr>nonce = 5, nonceLastUpdated = 0\<rparr>"
  by (simp add: sendTransaction_def getCachedGasData_def fetchGasData_def initialEngine_def
      warmEngine_def feeFailEnv_def feeFailEnv40_def GAS_CACHE_TTL_def)

text \<open>
  A refresh tick that finds both cells within their TTL changes nothing and asks the
  chain client nothing.
\<close>

lemma refreshTick_within_ttl:
  assumes "cachedGasData s = Some g" and "gasNow env - lastUpdated g < GAS_CACHE_TTL"
    and "cachedNonce s = Some c" and "nonceNow env - nonceLastUpdated c < NONCE_CACHE_TTL"
  shows "refreshTick pu cfg env s = s"
  using assms by (simp add: refreshTick_def getCachedGasData_def getCachedNonce_def)

text \<open>
  C4, at a failing input. Both cells were refreshed at time 0; the refresh tick at time
  20000 finds both within their TTL (30000 and 60000), queries nothing and leaves both
  cells, values and timestamps, as they were.
\<close>

theorem refresh_tick_within_ttl_noop:
  "refreshTick exampleParseUnits exampleConfig refreshEnv20 warmEngine = warmEngine"
  by (simp add: refreshTick_def getCachedGasData_def getCachedNonce_def warmEngine_def
      initialEngine_def refreshEnv20_def GAS_CACHE_TTL_def NONCE_CACHE_TTL_def)

section \<open>Fee-rate refresh when the client reports no gas price\<close>

text \<open>
  The fee-rate cell is empty or expired and \<open>getFeeData()\<close> succeeds with a \<open>null\<close>
  gas price. When \<open>parseUnits\<close> converts the configured default, the getter does not
  fail: it returns the default in wei with \<open>cached = false\<close> and stores it with the
  time of the call, and a dispatch that follows within the TTL, and obtains a sequence
  number, submits its transaction with that default as gas price. When \<open>parseUnits\<close>
  throws on the configured default, the getter throws after the query and stores
  nothing, and a dispatch that meets this answer is abandoned before it submits
  anything.
\<close>

lemma missing_gas_price_default_if_convertible:
  assumes "feeGasPrice fd = None"
    and "cachedGasData s = None
         \<or> (\<exists>c. cachedGasData s = Some c \<and> \<not> now - lastUpdated c < GAS_CACHE_TTL)"
  shows "(pu (gasPriceGwei cfg) = Some w \<longrightarrow>
            getCachedGasData pu cfg now (Some fd) s =
              (Inr (w, False),
               s\<lparr>rpcLog := rpcLog s @ [GetFeeData],
                 cachedGasData := Some
                   \<lparr>gasPrice = w,
                    maxFeePerGas = orUndefined (feeMaxFeePerGas fd),
                    maxPriorityFeePerGas = orUndefined (feeMaxPriorityFeePerGas fd),
                    lastUpdated = now\<rparr>\<rparr>)
            \<and> (gasNow env - now < GAS_CACHE_TTL \<longrightarrow>
               fst (getCachedNonce (nonceNow env) (nonceResp env)
                      (snd (getCachedGasData pu cfg now (Some fd) s))) = Inr n \<longrightarrow>
               rpcLog (sendTransaction pu cfg env bn bd (snd (getCachedGasData pu cfg now (Some fd) s))) =
                 rpcLog (snd (getCachedNonce (nonceNow env) (nonceResp env)
                                (snd (getCachedGasData pu cfg now (Some fd) s))))
                 @ [SendTransaction
                      \<lparr>txTo = recipientAddress cfg, txValue = 10, txGasLimit = gasLimit cfg,
                       txGasPrice = w, txNonce = fst n\<rparr>
                      (sendResp env)]))
       \<and> (pu (gasPriceGwei cfg) = None \<longrightarrow>
            getCachedGasData pu cfg now (Some fd) s =
              (Inl UnitsError, s\<lparr>rpcLog := rpcLog s @ [GetFeeData]\<rparr>)
            \<and> (gasNow env = now \<longrightarrow> feeResp env = Some fd \<longrightarrow>
               sendTransaction pu cfg env bn bd s =
                 s\<lparr>rpcLog := rpcLog s @ [GetFeeData],
                   sentTransactionCount := sentTransactionCount s - 1\<rparr>))"
proof (intro conjI impI)
  assume w: "pu (gasPriceGwei cfg) = Some w"
  let ?s' = "s\<lparr>rpcLog := rpcLog s @ [GetFeeData],
              cachedGasData := Some
                \<lparr>gasPrice = w,
                 maxFeePerGas = orUndefined (feeMaxFeePerGas fd),
                 maxPriorityFeePerGas = orUndefined (feeMaxPriorityFeePerGas fd),
                 lastUpdated = now\<rparr>\<rparr>"
  have fetch: "getCachedGasData pu cfg now (Some fd) s = fetchGasData pu cfg now (Some fd) s"
    using assms(2) by (auto simp: getCachedGasData_def)
  then show get: "getCachedGasData pu cfg now (Some fd) s = (Inr (w, False), ?s')"
    using assms(1) w by (simp add: fetchGasData_def storeGasData_def Let_def orElseThrowing_def)
  assume fresh: "gasNow env - now < GAS_CACHE_TTL"
    and n: "fst (getCachedNonce (nonceNow env) (nonceResp env)
                  (snd (getCachedGasData pu cfg now (Some fd) s))) = Inr n"
  have hit: "getCachedGasData pu cfg (gasNow env) (feeResp env) ?s' = (Inr (w, True), ?s')"
    using fresh by (simp add: getCachedGasData_def)
  show "rpcLog (sendTransaction pu cfg env bn bd (snd (getCachedGasData pu cfg now (Some fd) s))) =
          rpcLog (snd (getCachedNonce (nonceNow env) (nonceResp env)
                         (snd (getCachedGasData pu cfg now (Some fd) s))))
          @ [SendTransaction
               \<lparr>txTo = recipientAddress cfg, txValue = 10, txGasLimit = gasLimit cfg,
                txGasPrice = w, txNonce = fst n\<rparr>
               (sendResp env)]"
  proof (cases "sendResp env")
    case None
    then show ?thesis
      using n hit unfolding get
      by (simp add: sendTransaction_send_failed [where g = "(w, True)" and n = n])
  next
    case (Some h)
    then show ?thesis
      using n hit unfolding get
      by (simp add: sendTransaction_accepted [where g = "(w, True)" and n = n and h = h,
            OF _ _ _ refl])
  qed
next
  assume none: "pu (gasPriceGwei cfg) = None"
  have fetch: "getCachedGasData pu cfg now (Some fd) s = fetchGasData pu cfg now (Some fd) s"
    using assms(2) by (auto simp: getCachedGasData_def)
  then show get: "getCachedGasData pu cfg now (Some fd) s =
      (Inl UnitsError, s\<lparr>rpcLog := rpcLog s @ [GetFeeData]\<rparr>)"
    using assms(1) none by (simp add: fetchGasData_def storeGasData_def Let_def orElseThrowing_def)
  assume "gasNow env = now" and "feeResp env = Some fd"
  then show "sendTransaction pu cfg env bn bd s =
      s\<lparr>rpcLog := rpcLog s @ [GetFeeData], sentTransactionCount := sentTransactionCount s - 1\<rparr>"
    using get by (simp add: sendTransaction_def)
qed

lemma missing_gas_price_default_examples:
  "getCachedGasData exampleParseUnits exampleConfig 0 (Some nullFeeData) initialEngine =
     (Inr (20000000000, False),
      initialEngine\<lparr>rpcLog := [GetFeeData],
        cachedGasData := Some
          \<lparr>gasPrice = 20000000000, maxFeePerGas = None, maxPriorityFeePerGas = None,
           lastUpdated = 0\<rparr>\<rparr>)
   \<and> rpcLog (sendTransaction exampleParseUnits exampleConfig okEnv 101 exampleBlock
               (snd (getCachedGasData exampleParseUnits exampleConfig 0 (Some nullFeeData)
                       initialEngine))) =
       [GetFeeData, GetNonce,
        SendTransaction
          \<lparr>txTo = ''0xrecipient'', txValue = 10, txGasLimit = Fin 21000,
           txGasPrice = 20000000000, txNonce = 5\<rparr> (Some ''0xaa'')]
   \<and> sendTransaction exampleParseUnits tinyDefaultConfig nullPriceEnv 101 exampleBlock initialEngine =
       initialEngine\<lparr>rpcLog := [GetFeeData], sentTransactionCount := - 1\<rparr>"
proof -
  have h1: "feeGasPrice nullFeeData = None"
    by (simp add: nullFeeData_def)
  have h2: "cachedGasData initialEngine = None
         \<or> (\<exists>c. cachedGasData initialEngine = Some c \<and> \<not> 0 - lastUpdated c < GAS_CACHE_TTL)"
    by (simp add: initialEngine_def)
  show ?thesis
    using missing_gas_price_default_if_convertible [OF h1 h2, where cfg = exampleConfig
        and pu = exampleParseUnits and env = okEnv and w = 20000000000
        and n = "(5, False)" and bn = 101 and bd = exampleBlock]
      missing_gas_price_default_if_convertible [OF h1 h2, where cfg = tinyDefaultConfig
        and pu = exampleParseUnits and env = nullPriceEnv and bn = 101 and bd = exampleBlock]
    by (simp add: exampleConfig_def tinyDefaultConfig_def nullFeeData_def okEnv_def
        nullPriceEnv_def initialEngine_def exampleParseUnits_def
        GAS_CACHE_TTL_def orUndefined_def orElseThrowing_def getCachedNonce_def
        fetchNonce_def storeNonce_def getCachedGasData_def fetchGasData_def storeGasData_def
        sendTransaction_def trackSubmission_def)
qed

text \<open>
  C10, at a failing input. The loader returns a configuration for
  \<open>GAS_PRICE_GWEI=1e-7\<close>; with it, on an engine whose fee-rate cell is empty, the
  fee-data query succeeds without a gas price and \<open>parseUnits\<close> throws on the
  rendering \<open>1e-7\<close> of the default: the getter fails, the cell stays empty, and the
  dispatch that made the call is abandoned.
\<close>

theorem default_conversion_throws:
  "load exampleParseFloat (numericEnv [] ''1e-7'' [] []) = Inr tinyDefaultConfig
   \<and> exampleParseUnits (gasPriceGwei tinyDefaultConfig) = None
   \<and> getCachedGasData exampleParseUnits tinyDefaultConfig 0 (Some nullFeeData) initialEngine =
       (Inl UnitsError, initialEngine\<lparr>rpcLog := [GetFeeData]\<rparr>)
   \<and> cachedGasData (snd (getCachedGasData exampleParseUnits tinyDefaultConfig 0
                            (Some nullFeeData) initialEngine)) = None
   \<and> sendTransaction exampleParseUnits tinyDefaultConfig nullPriceEnv 101 exampleBlock initialEngine =
       initialEngine\<lparr>rpcLog := [GetFeeData], sentTransactionCount := - 1\<rparr>"
  by (simp add: load_def getRequiredEnvVar_def getEnvVarAsNumber_def validateConfig_def
      numericEnv_def exampleParseFloat_def isNaN_def Let_def tinyDefaultConfig_def
      initialEngine_def nullFeeData_def nullPriceEnv_def exampleParseUnits_def
      sendTransaction_def getCachedGasData_def fetchGasData_def storeGasData_def
      orElseThrowing_def)

section \<open>Budget\<close>

text \<open>
  A submission that the chain client rejects, after both parameters were obtained,
  leaves the counter at its value before the call.
\<close>

lemma failed_submission_restores_counter:
  assumes "fst (getCachedGasData pu cfg (gasNow env) (feeResp env) s) = Inr g"
    and "fst (getCachedNonce (nonceNow env) (nonceResp env)
               (snd (getCachedGasData pu cfg (gasNow env) (feeResp env) s))) = Inr n"
    and "sendResp env = None"
  shows "sentTransactionCount (sendTransaction pu cfg env bn bd s) = sentTransactionCount s"
  using assms by (simp add: sendTransaction_send_failed)

lemma dispatchResumeSend_rejected:
  "sendResp env = None \<Longrightarrow>
   sentTransactionCount (fst (dispatchResumeNonce cfg env bn bd gp (Inr n) s)) =
     sentTransactionCount s + 1
   \<and> sentTransactionCount
       (fst (dispatchResumeSend env bn bd tx (fst (dispatchResumeNonce cfg env bn bd gp (Inr n) s)))) =
     sentTransactionCount s"
  by (simp add: dispatchResumeNonce_def dispatchResumeSend_def Let_def case_prod_beta)

text \<open>
  C5, at two failing inputs. With budget 1, a second block notification arrives while
  the callback of the first is suspended at \<open>await getFeeData()\<close>, before it has
  incremented the counter: the second passes the budget check. The first callback then
  completes its dispatch; the second resumes, finds the sequence number in the cache,
  increments the counter to 2 and submits; the chain client accepts this second
  transaction too, and the counter stays at 2. Handled one after the other, the same two
  notifications send one transaction. With the budget 2.5, which the loader accepts,
  three notifications handled one after the other send three transactions.
\<close>

theorem overlapping_heads_exceed_budget:
  "transactionCount budgetOneConfig = Fin 1
   \<and> sentTransactionCount warmEngine = 0
   \<and> sentTransactionCount
       (fst (ws_run exampleParseInt16 exampleParseUnits budgetOneConfig (take 10 overlappingHeads)
               (warmEngine, []))) = 2
   \<and> sentTransactionCount
       (fst (ws_run exampleParseInt16 exampleParseUnits budgetOneConfig overlappingHeads
               (warmEngine, []))) = 2
   \<and> sentHashes
       (fst (ws_run exampleParseInt16 exampleParseUnits budgetOneConfig overlappingHeads
               (warmEngine, []))) = [''0xaa'', ''0xbb'']
   \<and> sentTransactionCount
       (ws_heads exampleParseInt16 exampleParseUnits budgetOneConfig
          [(block100, overlapEnvA), (exampleBlock, overlapEnvB)] warmEngine) = 1
   \<and> load exampleParseFloat (numericEnv [] [] ''0'' ''2.5'') = Inr fractionalConfig
   \<and> sentTransactionCount
       (ws_heads exampleParseInt16 exampleParseUnits fractionalConfig
          [(block100, okEnv), (exampleBlock, laterEnv), (block102, thirdEnv)] warmEngine) = 3
   \<and> sentHashes
       (ws_heads exampleParseInt16 exampleParseUnits fractionalConfig
          [(block100, okEnv), (exampleBlock, laterEnv), (block102, thirdEnv)] warmEngine) =
       [''0xaa'', ''0xbb'', ''0xcc'']"
proof -
  have a: "ws_run exampleParseInt16 exampleParseUnits budgetOneConfig overlappingHeads
             (warmEngine, []) =
           (warmEngine
              \<lparr>blockCount := 2, sentTransactionCount := 2,
               cachedGasData := Some \<lparr>gasPrice = 9, maxFeePerGas = None,
                                         maxPriorityFeePerGas = None, lastUpdated = 70250\<rparr>,
               cachedNonce := Some \<lparr>nonce = 7, nonceLastUpdated = 70300\<rparr>,
               pendingTransactions :=
                 [(''0xaa'', \<lparr>sentBlock = 100, startTime = 70800,
                              infoSentBlockTimestamp = ''0x5f5e0ff'', infoSentTimestamp = 70500\<rparr>),
                  (''0xbb'', \<lparr>sentBlock = 101, startTime = 71200,
                              infoSentBlockTimestamp = ''0x5f5e100'', infoSentTimestamp = 70900\<rparr>)],
               rpcLog :=
                 [GetFeeData, GetFeeData, GetNonce,
                  SendTransaction
                    \<lparr>txTo = ''0xrecipient'', txValue = 10, txGasLimit = Fin 21000,
                     txGasPrice = 9, txNonce = 5\<rparr> (Some ''0xaa''),
                  SendTransaction
                    \<lparr>txTo = ''0xrecipient'', txValue = 10, txGasLimit = Fin 21000,
                     txGasPrice = 9, txNonce = 6\<rparr> (Some ''0xbb'')]\<rparr>,
            [])"
    by (simp add: event_loop_defs overlappingHeads_def budgetOneConfig_def exampleConfig_def
        overlapEnvA_def overlapEnvB_def warmEngine_def initialEngine_def exampleFeeData_def
        block100_def exampleBlock_def exampleParseInt16_def)
  have a6: "sentTransactionCount
       (fst (ws_run exampleParseInt16 exampleParseUnits budgetOneConfig (take 10 overlappingHeads)
               (warmEngine, []))) = 2"
    by (simp add: event_loop_defs overlappingHeads_def budgetOneConfig_def exampleConfig_def
        overlapEnvA_def overlapEnvB_def warmEngine_def initialEngine_def exampleFeeData_def
        block100_def exampleBlock_def exampleParseInt16_def)
  have b: "sentTransactionCount
       (ws_heads exampleParseInt16 exampleParseUnits budgetOneConfig
          [(block100, overlapEnvA), (exampleBlock, overlapEnvB)] warmEngine) = 1"
    by (simp add: ws_heads_def handleNewBlock_def sendTransaction_def trackSubmission_def
        getCachedGasData_def fetchGasData_def storeGasData_def getCachedNonce_def
        fetchNonce_def storeNonce_def orElseThrowing_def orUndefined_def stop_def
        jsStrictEq_def budgetOneConfig_def exampleConfig_def overlapEnvA_def overlapEnvB_def
        warmEngine_def initialEngine_def exampleFeeData_def block100_def exampleBlock_def
        exampleParseInt16_def num_def GAS_CACHE_TTL_def NONCE_CACHE_TTL_def Let_def)
  have c: "load exampleParseFloat (numericEnv [] [] ''0'' ''2.5'') = Inr fractionalConfig"
    by (simp add: load_def getRequiredEnvVar_def getEnvVarAsNumber_def validateConfig_def
        numericEnv_def exampleParseFloat_def isNaN_def Let_def fractionalConfig_def)
  have d: "ws_heads exampleParseInt16 exampleParseUnits fractionalConfig
          [(block100, okEnv), (exampleBlock, laterEnv), (block102, thirdEnv)] warmEngine =
        warmEngine
          \<lparr>blockCount := 3, sentTransactionCount := 3,
           cachedNonce := Some \<lparr>nonce = 8, nonceLastUpdated = 0\<rparr>,
           pendingTransactions :=
             [(''0xaa'', \<lparr>sentBlock = 100, startTime = 1002,
                          infoSentBlockTimestamp = ''0x5f5e0ff'', infoSentTimestamp = 1001\<rparr>),
              (''0xbb'', \<lparr>sentBlock = 101, startTime = 2002,
                          infoSentBlockTimestamp = ''0x5f5e100'', infoSentTimestamp = 2001\<rparr>),
              (''0xcc'', \<lparr>sentBlock = 102, startTime = 3002,
                          infoSentBlockTimestamp = ''0x5f5e101'', infoSentTimestamp = 3001\<rparr>)],
           rpcLog :=
             [SendTransaction
                \<lparr>txTo = ''0x'' @ replicate 40 CHR ''2'', txValue = 10, txGasLimit = Fin 21000,
                 txGasPrice = 7, txNonce = 5\<rparr> (Some ''0xaa''),
              SendTransaction
                \<lparr>txTo = ''0x'' @ replicate 40 CHR ''2'', txValue = 10, txGasLimit = Fin 21000,
                 txGasPrice = 7, txNonce = 6\<rparr> (Some ''0xbb''),
              SendTransaction
                \<lparr>txTo = ''0x'' @ replicate 40 CHR ''2'', txValue = 10, txGasLimit = Fin 21000,
                 txGasPrice = 7, txNonce = 7\<rparr> (Some ''0xcc'')]\<rparr>"
    by (simp add: ws_heads_def handleNewBlock_def sendTransaction_def trackSubmission_def
        getCachedGasData_def getCachedNonce_def fractionalConfig_def okEnv_def laterEnv_def
        thirdEnv_def warmEngine_def initialEngine_def block100_def exampleBlock_def
        block102_def exampleParseInt16_def num_def GAS_CACHE_TTL_def NONCE_CACHE_TTL_def
        Let_def)
  show ?thesis
    by (simp add: a a6 b c d)
      (simp add: budgetOneConfig_def exampleConfig_def warmEngine_def initialEngine_def
        sentHashes_def)
qed

section \<open>Initial skip\<close>

lemma handleNewBlock_skipped:
  "jsLessEq (num (blockCount s + 1)) (initialBlocksToSkip cfg) \<Longrightarrow>
   handleNewBlock parseHex pu cfg env b s = s\<lparr>blockCount := blockCount s + 1\<rparr>"
  by (simp add: handleNewBlock_def Let_def)

lemma handleNewBlock_dispatches:
  "\<not> jsLessEq (num (blockCount s + 1)) (initialBlocksToSkip cfg) \<Longrightarrow>
   jsLess (num (sentTransactionCount s)) (transactionCount cfg) \<Longrightarrow>
   handleNewBlock parseHex pu cfg env b s =
     sendTransaction pu cfg env (parseHex (number b)) b (s\<lparr>blockCount := blockCount s + 1\<rparr>)"
  by (simp add: handleNewBlock_def Let_def)

lemma ws_heads_snoc:
  "ws_heads parseHex pu cfg (heads @ [(b, env)]) s =
     (if exited (ws_heads parseHex pu cfg heads s) then ws_heads parseHex pu cfg heads s
      else handleNewBlock parseHex pu cfg env b (ws_heads parseHex pu cfg heads s))"
  by (simp add: ws_heads_def)

lemma skipped_heads_run:
  "blockCount s + int (length heads) \<le> k \<Longrightarrow> initialBlocksToSkip cfg = num k \<Longrightarrow> \<not> exited s \<Longrightarrow>
   ws_heads parseHex pu cfg heads s = s\<lparr>blockCount := blockCount s + int (length heads)\<rparr>"
proof (induction heads arbitrary: s)
  case Nil
  then show ?case by (simp add: ws_heads_def)
next
  case (Cons p heads)
  obtain b env where p: "p = (b, env)" by (cases p)
  let ?s1 = "s\<lparr>blockCount := blockCount s + 1\<rparr>"
  have step: "handleNewBlock parseHex pu cfg env b s = ?s1"
    using Cons.prems by (simp add: handleNewBlock_skipped)
  have "ws_heads parseHex pu cfg heads ?s1 = ?s1\<lparr>blockCount := blockCount ?s1 + int (length heads)\<rparr>"
    using Cons.prems by (intro Cons.IH) simp_all
  then show ?case
    using step Cons.prems(3) by (simp add: ws_heads_def p add.assoc)
qed

text \<open>The same in the event loop, whatever callbacks are suspended.\<close>

lemma headBegin_skipped:
  "jsLessEq (num (blockCount s + 1)) (initialBlocksToSkip cfg) \<Longrightarrow>
   headBegin parseHex cfg env b s = (s\<lparr>blockCount := blockCount s + 1\<rparr>, None)"
  by (simp add: headBegin_def Let_def)

lemma headBegin_dispatches:
  "\<not> jsLessEq (num (blockCount s + 1)) (initialBlocksToSkip cfg) \<Longrightarrow>
   jsLess (num (sentTransactionCount s)) (transactionCount cfg) \<Longrightarrow>
   headBegin parseHex cfg env b s =
     dispatchBegin env (parseHex (number b)) b (s\<lparr>blockCount := blockCount s + 1\<rparr>)"
  by (simp add: headBegin_def Let_def)

lemma dispatchBegin_suspends:
  "\<exists>t. snd (dispatchBegin env bn b s) = Some t"
  by (simp add: dispatchBegin_def split: option.splits)

lemma skipped_heads_turns:
  "blockCount s + int (length heads) \<le> k \<Longrightarrow> initialBlocksToSkip cfg = num k \<Longrightarrow> \<not> exited s \<Longrightarrow>
   ws_run parseHex pu cfg (map (\<lambda>(b, env). Begin (WsNewHead b env)) heads) (s, waiting) =
     (s\<lparr>blockCount := blockCount s + int (length heads)\<rparr>, waiting)"
proof (induction heads arbitrary: s)
  case Nil
  then show ?case by (simp add: ws_run_def)
next
  case (Cons p heads)
  obtain b env where p: "p = (b, env)" by (cases p)
  let ?s1 = "s\<lparr>blockCount := blockCount s + 1\<rparr>"
  have step: "ws_step parseHex pu cfg (s, waiting) (Begin (WsNewHead b env)) = (?s1, waiting)"
    using Cons.prems by (simp add: ws_step_def beginEvent_def headBegin_skipped)
  have "ws_run parseHex pu cfg (map (\<lambda>(b, env). Begin (WsNewHead b env)) heads) (?s1, waiting) =
          (?s1\<lparr>blockCount := blockCount ?s1 + int (length heads)\<rparr>, waiting)"
    using Cons.prems by (intro Cons.IH) simp_all
  then show ?case
    using step by (simp add: ws_run_def p add.assoc)
qed

text \<open>
  C7. With \<open>initialBlocksToSkip = k\<close> and a positive budget, an engine that has seen no
  block and sent nothing is left by its first \<open>k\<close> block notifications exactly as it was
  but for \<open>blockCount = k\<close> (no call to the chain client, no pending entry, no counter
  change); the next notification runs \<open>sendTransaction\<close>, which makes at least one call
  to the chain client. In the event loop, whatever callbacks are suspended meanwhile,
  the first \<open>k\<close> notifications likewise change nothing but \<open>blockCount\<close> and suspend
  nothing, and the next one enters \<open>sendTransaction\<close> and leaves it suspended at its
  first \<open>await\<close>.
\<close>

theorem skip_correctness:
  assumes "initialBlocksToSkip cfg = num (int (length heads))"
    and "jsLess (num 0) (transactionCount cfg)"
    and "blockCount s = 0" and "sentTransactionCount s = 0" and "\<not> exited s"
  shows "ws_heads parseHex pu cfg heads s = s\<lparr>blockCount := int (length heads)\<rparr>
       \<and> ws_heads parseHex pu cfg (heads @ [(b, env)]) s =
           sendTransaction pu cfg env (parseHex (number b)) b
             (s\<lparr>blockCount := int (length heads) + 1\<rparr>)
       \<and> length (rpcLog s) < length (rpcLog (ws_heads parseHex pu cfg (heads @ [(b, env)]) s))
       \<and> ws_run parseHex pu cfg (map (\<lambda>(b, env). Begin (WsNewHead b env)) heads) (s, waiting) =
           (s\<lparr>blockCount := int (length heads)\<rparr>, waiting)
       \<and> (\<exists>t. ws_run parseHex pu cfg
                 (map (\<lambda>(b, env). Begin (WsNewHead b env)) (heads @ [(b, env)])) (s, waiting) =
               (fst (dispatchBegin env (parseHex (number b)) b
                       (s\<lparr>blockCount := int (length heads) + 1\<rparr>)),
                waiting @ [t])
             \<and> snd (dispatchBegin env (parseHex (number b)) b
                       (s\<lparr>blockCount := int (length heads) + 1\<rparr>)) = Some t)"
proof -
  let ?k = "int (length heads)"
  let ?sk = "s\<lparr>blockCount := ?k\<rparr>"
  have skipped: "ws_heads parseHex pu cfg heads s = ?sk"
    using skipped_heads_run [of s heads ?k cfg parseHex pu] assms by simp
  have "handleNewBlock parseHex pu cfg env b ?sk =
          sendTransaction pu cfg env (parseHex (number b)) b (?sk\<lparr>blockCount := blockCount ?sk + 1\<rparr>)"
    using assms by (intro handleNewBlock_dispatches) simp_all
  then have next_head:
    "ws_heads parseHex pu cfg (heads @ [(b, env)]) s =
       sendTransaction pu cfg env (parseHex (number b)) b (s\<lparr>blockCount := ?k + 1\<rparr>)"
    using skipped assms(5) by (simp add: ws_heads_snoc)
  have grows: "length (rpcLog s) <
          length (rpcLog (sendTransaction pu cfg env (parseHex (number b)) b
                            (s\<lparr>blockCount := ?k + 1\<rparr>)))"
    using sendTransaction_log_grows
      [of "s\<lparr>blockCount := ?k + 1\<rparr>" pu cfg env "parseHex (number b)" b]
    by simp
  have skipped_turns:
    "ws_run parseHex pu cfg (map (\<lambda>(b, env). Begin (WsNewHead b env)) heads) (s, waiting) = (?sk, waiting)"
    using skipped_heads_turns [of s heads ?k cfg parseHex pu waiting] assms by simp
  obtain t where t: "snd (dispatchBegin env (parseHex (number b)) b
                            (s\<lparr>blockCount := ?k + 1\<rparr>)) = Some t"
    using dispatchBegin_suspends by blast
  have "headBegin parseHex cfg env b ?sk =
          dispatchBegin env (parseHex (number b)) b (?sk\<lparr>blockCount := blockCount ?sk + 1\<rparr>)"
    using assms by (intro headBegin_dispatches) simp_all
  then have "ws_step parseHex pu cfg (?sk, waiting) (Begin (WsNewHead b env)) =
          (fst (dispatchBegin env (parseHex (number b)) b (s\<lparr>blockCount := ?k + 1\<rparr>)),
           waiting @ [t])"
    using assms(5) t by (simp add: ws_step_def beginEvent_def case_prod_beta)
  then have next_turn:
    "ws_run parseHex pu cfg (map (\<lambda>(b, env). Begin (WsNewHead b env)) (heads @ [(b, env)])) (s, waiting) =
       (fst (dispatchBegin env (parseHex (number b)) b (s\<lparr>blockCount := ?k + 1\<rparr>)),
        waiting @ [t])"
    using skipped_turns by (simp add: ws_run_def)
  show ?thesis
    using skipped next_head grows skipped_turns next_turn t by auto
qed

theorem skip_correctness_witness:
  "initialBlocksToSkip exampleConfig = num (int (length [(block100, okEnv)]))
   \<and> jsLess (num 0) (transactionCount exampleConfig)
   \<and> ws_heads exampleParseInt16 exampleParseUnits exampleConfig [(block100, okEnv)] warmEngine =
       warmEngine\<lparr>blockCount := 1\<rparr>
   \<and> rpcLog (ws_heads exampleParseInt16 exampleParseUnits exampleConfig
               [(block100, okEnv), (exampleBlock, okEnv)] warmEngine) =
       [SendTransaction
          \<lparr>txTo = ''0xrecipient'', txValue = 10, txGasLimit = Fin 21000, txGasPrice = 7,
           txNonce = 5\<rparr> (Some ''0xaa'')]
   \<and> map fst (pendingTransactions (ws_heads exampleParseInt16 exampleParseUnits exampleConfig
               [(block100, okEnv), (exampleBlock, okEnv)] warmEngine)) = [''0xaa'']
   \<and> ws_run exampleParseInt16 exampleParseUnits exampleConfig
       [Begin (WsNewHead block100 okEnv)] (warmEngine, []) = (warmEngine\<lparr>blockCount := 1\<rparr>, [])
   \<and> ws_run exampleParseInt16 exampleParseUnits exampleConfig
       [Begin (WsNewHead block100 okEnv), Begin (WsNewHead exampleBlock okEnv)] (warmEngine, []) =
       (warmEngine\<lparr>blockCount := 2\<rparr>,
        [DispatchAwaitGas okEnv 101 exampleBlock (Inr (7, True))])"
proof -
  have h1: "initialBlocksToSkip exampleConfig = num (int (length [(block100, okEnv)]))"
    by (simp add: exampleConfig_def num_def)
  have h2: "jsLess (num 0) (transactionCount exampleConfig)"
    by (simp add: exampleConfig_def num_def)
  have h3: "blockCount warmEngine = 0" "sentTransactionCount warmEngine = 0" "\<not> exited warmEngine"
    by (simp_all add: warmEngine_def initialEngine_def)
  have send: "sendTransaction exampleParseUnits exampleConfig okEnv 101 exampleBlock
                (warmEngine\<lparr>blockCount := 2\<rparr>) =
      warmEngine\<lparr>blockCount := 2, sentTransactionCount := 1,
        rpcLog := [SendTransaction
          \<lparr>txTo = ''0xrecipient'', txValue = 10, txGasLimit = Fin 21000, txGasPrice = 7,
           txNonce = 5\<rparr> (Some ''0xaa'')],
        cachedNonce := Some \<lparr>nonce = 6, nonceLastUpdated = 0\<rparr>,
        pendingTransactions := [(''0xaa'',
          \<lparr>sentBlock = 101, startTime = 1002, infoSentBlockTimestamp = ''0x5f5e100'',
           infoSentTimestamp = 1001\<rparr>)]\<rparr>"
    by (simp add: sendTransaction_def trackSubmission_def getCachedGasData_def getCachedNonce_def
        warmEngine_def initialEngine_def okEnv_def exampleConfig_def exampleBlock_def
        GAS_CACHE_TTL_def NONCE_CACHE_TTL_def Let_def)
  have started: "dispatchBegin okEnv 101 exampleBlock (warmEngine\<lparr>blockCount := 2\<rparr>) =
      (warmEngine\<lparr>blockCount := 2\<rparr>,
       Some (DispatchAwaitGas okEnv 101 exampleBlock (Inr (7, True))))"
    by (simp add: dispatchBegin_def validGasData_def warmEngine_def initialEngine_def okEnv_def
        GAS_CACHE_TTL_def)
  have p: "exampleParseInt16 (number exampleBlock) = 101"
    by (simp add: exampleParseInt16_def exampleBlock_def)
  show ?thesis
    using skip_correctness [where cfg = exampleConfig and heads = "[(block100, okEnv)]"
        and s = warmEngine and parseHex = exampleParseInt16 and pu = exampleParseUnits
        and b = exampleBlock and env = okEnv and waiting = "[]", OF h1 h2 h3]
      h1 h2
    by (simp add: send started p)
qed

section \<open>Pull feed: the baseline\<close>

lemma processBlock_lastProcessedBlock [simp]:
  "lastProcessedBlock (processBlock pu cfg env bn s) = lastProcessedBlock s"
  by (simp add: processBlock_def Let_def split: option.splits)

lemma sendTransaction_log_no_GetBlock:
  "\<exists>l. rpcLog (sendTransaction pu cfg env bn bd s) = rpcLog s @ l \<and> (\<forall>n. GetBlock n \<notin> set l)"
  by (simp add: sendTransaction_def trackSubmission_def getCachedGasData_def fetchGasData_def storeGasData_def getCachedNonce_def
      fetchNonce_def storeNonce_def Let_def split: option.splits)

lemma processBlock_log:
  "\<exists>l. rpcLog (processBlock pu cfg env bn s) = rpcLog s @ l \<and> (\<forall>n. GetBlock n \<in> set l \<longrightarrow> n = bn)"
proof -
  have "\<exists>l. rpcLog (sendTransaction pu cfg (dispatchEnv env) bn bd
                 (s\<lparr>rpcLog := rpcLog s @ [GetBlock bn], blockCount := blockCount s + 1\<rparr>))
             = rpcLog s @ l \<and> (\<forall>n. GetBlock n \<in> set l \<longrightarrow> n = bn)" for bd
  proof -
    obtain l where l: "rpcLog (sendTransaction pu cfg (dispatchEnv env) bn bd
                 (s\<lparr>rpcLog := rpcLog s @ [GetBlock bn], blockCount := blockCount s + 1\<rparr>))
             = (rpcLog s @ [GetBlock bn]) @ l" "\<forall>n. GetBlock n \<notin> set l"
      using sendTransaction_log_no_GetBlock [of pu cfg "dispatchEnv env" bn bd
          "s\<lparr>rpcLog := rpcLog s @ [GetBlock bn], blockCount := blockCount s + 1\<rparr>"]
      by auto
    then have "rpcLog (sendTransaction pu cfg (dispatchEnv env) bn bd
                 (s\<lparr>rpcLog := rpcLog s @ [GetBlock bn], blockCount := blockCount s + 1\<rparr>))
             = rpcLog s @ (GetBlock bn # l) \<and> (\<forall>n. GetBlock n \<in> set (GetBlock bn # l) \<longrightarrow> n = bn)"
      by simp
    then show ?thesis by blast
  qed
  moreover have "\<exists>l. rpcLog s @ [GetBlock bn] = rpcLog s @ l \<and> (\<forall>n. GetBlock n \<in> set l \<longrightarrow> n = bn)"
    by simp
  ultimately show ?thesis
    by (simp add: processBlock_def Let_def split: option.splits)
qed

lemma pollLoop_done:
  "\<not> bn \<le> cur - BLOCK_CONFIRMATION_DELAY \<Longrightarrow> pollLoop pu cfg env bn cur s = s"
  by (subst pollLoop.simps) simp

lemma pollLoop_exit:
  "bn \<le> cur - BLOCK_CONFIRMATION_DELAY \<Longrightarrow> exited (processBlock pu cfg (perBlock env bn) bn s) \<Longrightarrow>
   pollLoop pu cfg env bn cur s = processBlock pu cfg (perBlock env bn) bn s"
  by (subst pollLoop.simps) (simp add: Let_def)

lemma pollLoop_next:
  "bn \<le> cur - BLOCK_CONFIRMATION_DELAY \<Longrightarrow> \<not> exited (processBlock pu cfg (perBlock env bn) bn s) \<Longrightarrow>
   pollLoop pu cfg env bn cur s =
     pollLoop pu cfg env (bn + 1) cur
       ((processBlock pu cfg (perBlock env bn) bn s)\<lparr>lastProcessedBlock := bn\<rparr>)"
  by (subst pollLoop.simps) (simp add: Let_def)

lemma pollLoop_baseline:
  "bn \<le> cur \<Longrightarrow> \<not> exited (pollLoop pu cfg env bn cur s) \<Longrightarrow>
   lastProcessedBlock (pollLoop pu cfg env bn cur s) = cur"
proof (induction pu cfg env bn cur s rule: pollLoop.induct)
  case (1 pu cfg env blockNumber currentBlock s)
  let ?s1 = "processBlock pu cfg (perBlock env blockNumber) blockNumber s"
  have le: "blockNumber \<le> currentBlock - BLOCK_CONFIRMATION_DELAY"
    using "1.prems"(1) by (simp add: BLOCK_CONFIRMATION_DELAY_def)
  have alive: "\<not> exited ?s1"
    using "1.prems"(2) le by (auto simp: pollLoop_exit)
  have unfold: "pollLoop pu cfg env blockNumber currentBlock s =
      pollLoop pu cfg env (blockNumber + 1) currentBlock (?s1\<lparr>lastProcessedBlock := blockNumber\<rparr>)"
    using le alive by (rule pollLoop_next)
  show ?case
  proof (cases "blockNumber + 1 \<le> currentBlock")
    case True
    then show ?thesis
      using "1.IH" [OF le refl alive True] "1.prems"(2) unfold by simp
  next
    case False
    then have "blockNumber = currentBlock"
      using "1.prems"(1) by simp
    then show ?thesis
      using unfold by (simp add: pollLoop_done BLOCK_CONFIRMATION_DELAY_def)
  qed
qed

lemma pollLoop_log:
  "\<exists>l. rpcLog (pollLoop pu cfg env bn cur s) = rpcLog s @ l
       \<and> (\<forall>n. GetBlock n \<in> set l \<longrightarrow> bn \<le> n \<and> n \<le> cur)"
proof (induction pu cfg env bn cur s rule: pollLoop.induct)
  case (1 pu cfg env blockNumber currentBlock s)
  let ?s1 = "processBlock pu cfg (perBlock env blockNumber) blockNumber s"
  show ?case
  proof (cases "blockNumber \<le> currentBlock - BLOCK_CONFIRMATION_DELAY")
    case False
    then show ?thesis by (simp add: pollLoop_done)
  next
    case le: True
    obtain l1 where l1: "rpcLog ?s1 = rpcLog s @ l1" "\<forall>n. GetBlock n \<in> set l1 \<longrightarrow> n = blockNumber"
      using processBlock_log by blast
    show ?thesis
    proof (cases "exited ?s1")
      case True
      have "rpcLog (pollLoop pu cfg env blockNumber currentBlock s) = rpcLog s @ l1"
        using le True l1 by (simp add: pollLoop_exit)
      moreover have "\<forall>n. GetBlock n \<in> set l1 \<longrightarrow> blockNumber \<le> n \<and> n \<le> currentBlock"
        using l1(2) le by (auto simp: BLOCK_CONFIRMATION_DELAY_def)
      ultimately show ?thesis by blast
    next
      case False
      obtain l2 where l2:
        "rpcLog (pollLoop pu cfg env (blockNumber + 1) currentBlock
                   (?s1\<lparr>lastProcessedBlock := blockNumber\<rparr>)) =
           rpcLog (?s1\<lparr>lastProcessedBlock := blockNumber\<rparr>) @ l2"
        "\<forall>n. GetBlock n \<in> set l2 \<longrightarrow> blockNumber + 1 \<le> n \<and> n \<le> currentBlock"
        using "1.IH" [OF le refl False] by blast
      have "rpcLog (pollLoop pu cfg env blockNumber currentBlock s) = rpcLog s @ (l1 @ l2)"
        using le False l1 l2 by (simp add: pollLoop_next)
      moreover have "\<forall>n. GetBlock n \<in> set (l1 @ l2) \<longrightarrow> blockNumber \<le> n \<and> n \<le> currentBlock"
        using l1(2) l2(2) le by (auto simp: BLOCK_CONFIRMATION_DELAY_def)
      ultimately show ?thesis by blast
    qed
  qed
qed

text \<open>
  C3, as the code has it. While polling: a failed height query leaves the baseline as
  it is; a height above the baseline moves the baseline to that height whatever the
  fetch of each block of the gap answered (unless the process exits during the
  replay); and a poll fetches only blocks above the baseline it started from. So a
  block whose fetch or processing failed is skipped, not retried.
\<close>

theorem poll_baseline_skips_failed_blocks:
  assumes "isPolling s"
  shows "(heightResp env = None \<longrightarrow>
            lastProcessedBlock (pollBlocks pu cfg env s) = lastProcessedBlock s)
       \<and> (heightResp env = Some cur \<longrightarrow> lastProcessedBlock s < cur \<longrightarrow>
            \<not> exited (pollBlocks pu cfg env s) \<longrightarrow>
            lastProcessedBlock (pollBlocks pu cfg env s) = cur)
       \<and> (\<exists>l. rpcLog (pollBlocks pu cfg env s) = rpcLog s @ l
              \<and> (\<forall>n. GetBlock n \<in> set l \<longrightarrow> lastProcessedBlock s < n))"
proof (intro conjI impI)
  assume "heightResp env = None"
  then show "lastProcessedBlock (pollBlocks pu cfg env s) = lastProcessedBlock s"
    using assms by (simp add: pollBlocks_def Let_def)
next
  assume cur: "heightResp env = Some cur" and lt: "lastProcessedBlock s < cur"
    and alive: "\<not> exited (pollBlocks pu cfg env s)"
  let ?s1 = "s\<lparr>rpcLog := rpcLog s @ [GetBlockNumber]\<rparr>"
  have eq: "pollBlocks pu cfg env s = pollLoop pu cfg env (lastProcessedBlock s + 1) cur ?s1"
    using assms cur lt by (simp add: pollBlocks_def Let_def BLOCK_CONFIRMATION_DELAY_def)
  show "lastProcessedBlock (pollBlocks pu cfg env s) = cur"
    unfolding eq using lt alive [unfolded eq] by (intro pollLoop_baseline) simp_all
next
  let ?s1 = "s\<lparr>rpcLog := rpcLog s @ [GetBlockNumber]\<rparr>"
  show "\<exists>l. rpcLog (pollBlocks pu cfg env s) = rpcLog s @ l
          \<and> (\<forall>n. GetBlock n \<in> set l \<longrightarrow> lastProcessedBlock s < n)"
  proof (cases "heightResp env")
    case None
    then have "rpcLog (pollBlocks pu cfg env s) = rpcLog s @ [GetBlockNumber]"
      using assms by (simp add: pollBlocks_def Let_def)
    then show ?thesis by simp
  next
    case (Some c)
    show ?thesis
    proof (cases "c > lastProcessedBlock s + BLOCK_CONFIRMATION_DELAY")
      case False
      then have "rpcLog (pollBlocks pu cfg env s) = rpcLog s @ [GetBlockNumber]"
        using assms Some by (simp add: pollBlocks_def Let_def)
      then show ?thesis by simp
    next
      case True
      then have eq: "pollBlocks pu cfg env s = pollLoop pu cfg env (lastProcessedBlock s + 1) c ?s1"
        using assms Some by (simp add: pollBlocks_def Let_def)
      obtain l where l: "rpcLog (pollLoop pu cfg env (lastProcessedBlock s + 1) c ?s1) = rpcLog ?s1 @ l"
        "\<forall>n. GetBlock n \<in> set l \<longrightarrow> lastProcessedBlock s + 1 \<le> n \<and> n \<le> c"
        using pollLoop_log by blast
      have "rpcLog (pollBlocks pu cfg env s) = rpcLog s @ (GetBlockNumber # l)"
        using l(1) eq by simp
      moreover have "\<forall>n. GetBlock n \<in> set (GetBlockNumber # l) \<longrightarrow> lastProcessedBlock s < n"
        using l(2) by auto
      ultimately show ?thesis by blast
    qed
  qed
qed

theorem poll_baseline_skips_failed_blocks_witness:
  "isPolling pollingAt10
   \<and> heightResp failingPoll11 = Some 11 \<and> lastProcessedBlock pollingAt10 < 11
   \<and> \<not> exited (pollBlocks exampleParseUnits exampleConfig failingPoll11 pollingAt10)
   \<and> lastProcessedBlock (pollBlocks exampleParseUnits exampleConfig failingPoll11 pollingAt10) = 11"
proof -
  have h: "isPolling pollingAt10"
    by (simp add: pollingAt10_def)
  have e: "pollBlocks exampleParseUnits exampleConfig failingPoll11 pollingAt10 =
             pollingAt10\<lparr>rpcLog := [GetBlockNumber, GetBlock 11], lastProcessedBlock := 11\<rparr>"
    by (simp add: pollBlocks_def pollLoop.simps processBlock_def failingPoll11_def
        pollingAt10_def initialEngine_def BLOCK_CONFIRMATION_DELAY_def Let_def)
  show ?thesis
    using poll_baseline_skips_failed_blocks [OF h, where env = failingPoll11 and cur = 11
        and cfg = exampleConfig and pu = exampleParseUnits] h
    by (simp add: e) (simp add: failingPoll11_def pollingAt10_def initialEngine_def)
qed

text \<open>
  C3, as stated, fails: the fetch of block 11 throws, the baseline moves to 11 all the
  same (no block was delivered: \<open>blockCount\<close> stays 0), and the next poll at height 11
  asks only for the height.
\<close>

theorem failed_block_not_retried:
  "getBlockResp (perBlock failingPoll11 11) = None
   \<and> lastProcessedBlock pollingAt10 = 10
   \<and> lastProcessedBlock (pollBlocks exampleParseUnits exampleConfig failingPoll11 pollingAt10) = 11
   \<and> blockCount (pollBlocks exampleParseUnits exampleConfig failingPoll11 pollingAt10) = 0
   \<and> rpcLog (pollBlocks exampleParseUnits exampleConfig goodPoll11
               (pollBlocks exampleParseUnits exampleConfig failingPoll11 pollingAt10)) =
       [GetBlockNumber, GetBlock 11, GetBlockNumber]"
  by (simp add: pollBlocks_def pollLoop.simps processBlock_def failingPoll11_def goodPoll11_def
      pollingAt10_def initialEngine_def BLOCK_CONFIRMATION_DELAY_def Let_def)

section \<open>Sequence number\<close>

text \<open>
  How each part of a callback changes the nonce cell and the list of accepted
  submissions: a stored answer of \<open>getNonce()\<close> overwrites the cell, an accepted
  submission increments it and adds its hash.
\<close>

lemma start_sequence:
  "cachedNonce (snd (start pu cfg env s)) =
     (if isl (fst (getCachedGasData pu cfg (gasNow env) (feeResp env) s)) then cachedNonce s
      else if validNonce (nonceNow env) s = None
      then (case nonceResp env of
              None \<Rightarrow> cachedNonce s
            | Some n \<Rightarrow> Some \<lparr>nonce = n, nonceLastUpdated = nonceNow env\<rparr>)
      else cachedNonce s)"
proof (cases "fst (getCachedGasData pu cfg (gasNow env) (feeResp env) s)")
  case (Inl e)
  then show ?thesis by (simp add: start_def case_prod_beta)
next
  case (Inr g)
  let ?s1 = "snd (getCachedGasData pu cfg (gasNow env) (feeResp env) s)"
  have cell: "cachedNonce ?s1 = cachedNonce s" by simp
  have "cachedNonce (snd (start pu cfg env s)) =
          cachedNonce (snd (getCachedNonce (nonceNow env) (nonceResp env) ?s1))"
    using Inr by (simp add: start_def case_prod_beta split: sum.splits)
  also have "\<dots> =
      (if validNonce (nonceNow env) s = None
       then (case nonceResp env of
               None \<Rightarrow> cachedNonce s
             | Some n \<Rightarrow> Some \<lparr>nonce = n, nonceLastUpdated = nonceNow env\<rparr>)
       else cachedNonce s)"
    using cell
    by (cases "nonceResp env"; cases "cachedNonce s")
       (simp_all add: getCachedNonce_def fetchNonce_def storeNonce_def validNonce_def)
  finally show ?thesis using Inr by simp
qed

lemma settleNonce_sequence:
  "cachedNonce (snd (settleNonce now r s)) =
     (case r of
        None \<Rightarrow> cachedNonce s
      | Some n \<Rightarrow> Some \<lparr>nonce = n, nonceLastUpdated = now\<rparr>)"
  by (simp add: settleNonce_def storeNonce_def split: option.splits)

lemma dispatchResumeSend_sequence:
  "cachedNonce (fst (dispatchResumeSend env bn bd tx s)) =
     (case sendResp env of
        None \<Rightarrow> cachedNonce s
      | Some h \<Rightarrow> map_option (\<lambda>c. c\<lparr>nonce := nonce c + 1\<rparr>) (cachedNonce s))"
  "sentHashes (fst (dispatchResumeSend env bn bd tx s)) =
     (case sendResp env of None \<Rightarrow> sentHashes s | Some h \<Rightarrow> sentHashes s @ [h])"
  by (simp_all add: dispatchResumeSend_def Let_def split: option.splits)

lemma beginEvent_sequence:
  assumes "cachedNonce s = Some c"
    and "nonce c = base + int (length (sentHashes s))"
    and "case nonceReport pu cfg (s, waiting) (Begin ev) of
           None \<Rightarrow> True
         | Some r \<Rightarrow> r = base + int (length (sentHashes s))"
  shows "\<exists>c'. cachedNonce (fst (beginEvent parseHex pu cfg ev s)) = Some c'
            \<and> nonce c' = nonce c"
    and "sentHashes (fst (beginEvent parseHex pu cfg ev s)) = sentHashes s"
proof -
  show "sentHashes (fst (beginEvent parseHex pu cfg ev s)) = sentHashes s"
    by (cases ev) (simp_all add: beginEvent_def)
  show "\<exists>c'. cachedNonce (fst (beginEvent parseHex pu cfg ev s)) = Some c' \<and> nonce c' = nonce c"
  proof (cases ev)
    case (WsStart env)
    then show ?thesis
      using assms
      by (cases "nonceResp env")
         (auto simp: beginEvent_def start_sequence split: if_splits)
  qed (use assms in \<open>simp_all add: beginEvent_def\<close>)
qed

lemma resumeCallback_sequence:
  assumes "cachedNonce s = Some c"
    and "nonce c = base + int (length (sentHashes s))"
    and "case suspendedNonceReport t of
           None \<Rightarrow> True
         | Some r \<Rightarrow> r = base + int (length (sentHashes s))"
  shows "\<exists>c' l. cachedNonce (fst (resumeCallback pu cfg t s)) = Some c'
              \<and> sentHashes (fst (resumeCallback pu cfg t s)) = sentHashes s @ l
              \<and> nonce c' = nonce c + int (length l)"
proof (cases t)
  case (DispatchAwaitCount env bn bd gp)
  then show ?thesis
    using assms
    by (cases "nonceResp env")
       (simp_all add: resumeCallback_def dispatchResumeCount_def case_prod_beta
          settleNonce_sequence)
next
  case (RefreshAwaitCount env)
  then show ?thesis
    using assms
    by (cases "nonceResp env")
       (simp_all add: resumeCallback_def refreshResumeCount_def settleNonce_sequence)
next
  case (DispatchAwaitSend env bn bd tx)
  then show ?thesis
    using assms
    by (cases "sendResp env") (simp_all add: resumeCallback_def dispatchResumeSend_sequence)
qed (use assms in \<open>simp_all add: resumeCallback_def\<close>)

lemma ws_step_sequence:
  assumes "cachedNonce (fst w) = Some c"
    and "nonce c = base + int (length (sentHashes (fst w)))"
    and "exited (fst w) \<or> (case nonceReport pu cfg w turn of
           None \<Rightarrow> True
         | Some r \<Rightarrow> r = base + int (length (sentHashes (fst w))))"
  shows "\<exists>c' l. cachedNonce (fst (ws_step parseHex pu cfg w turn)) = Some c'
              \<and> sentHashes (fst (ws_step parseHex pu cfg w turn)) = sentHashes (fst w) @ l
              \<and> nonce c' = nonce c + int (length l)"
proof (cases w)
  case (Pair s waiting)
  show ?thesis
  proof (cases "exited s")
    case True
    then show ?thesis
      using assms Pair by (simp add: ws_step_def)
  next
    case alive: False
    show ?thesis
    proof (cases turn)
      case (Begin ev)
      have pre: "cachedNonce s = Some c" "nonce c = base + int (length (sentHashes s))"
        "case nonceReport pu cfg (s, waiting) (Begin ev) of
           None \<Rightarrow> True
         | Some r \<Rightarrow> r = base + int (length (sentHashes s))"
        using assms alive unfolding Pair Begin by (simp_all split: option.splits)
      obtain c' where c': "cachedNonce (fst (beginEvent parseHex pu cfg ev s)) = Some c'"
        "nonce c' = nonce c"
        using beginEvent_sequence(1) [OF pre] by blast
      have same: "sentHashes (fst (beginEvent parseHex pu cfg ev s)) = sentHashes s"
        using beginEvent_sequence(2) [OF pre] .
      have "fst (ws_step parseHex pu cfg w turn) = fst (beginEvent parseHex pu cfg ev s)"
        using Pair alive Begin by (simp add: ws_step_def case_prod_beta)
      then have "cachedNonce (fst (ws_step parseHex pu cfg w turn)) = Some c'
          \<and> sentHashes (fst (ws_step parseHex pu cfg w turn)) = sentHashes (fst w) @ []
          \<and> nonce c' = nonce c + int (length ([] :: string list))"
        using c' same Pair by simp
      then show ?thesis by blast
    next
      case (Resume i)
      show ?thesis
      proof (cases "i < length waiting")
        case True
        have pre: "cachedNonce s = Some c" "nonce c = base + int (length (sentHashes s))"
          "case suspendedNonceReport (waiting ! i) of
             None \<Rightarrow> True
           | Some r \<Rightarrow> r = base + int (length (sentHashes s))"
          using assms True alive unfolding Pair Resume by (simp_all split: option.splits)
        have "fst (ws_step parseHex pu cfg w turn) = fst (resumeCallback pu cfg (waiting ! i) s)"
          using Pair alive Resume True by (simp add: ws_step_def case_prod_beta)
        then show ?thesis
          using resumeCallback_sequence [OF pre, of pu cfg] Pair by simp
      next
        case False
        then show ?thesis
          using assms Pair alive Resume by (simp add: ws_step_def)
      qed
    qed
  qed
qed

lemma ws_run_sequence:
  assumes "cachedNonce (fst w) = Some c"
    and "nonce c = base + int (length (sentHashes (fst w)))"
    and "reportsAgree parseHex pu cfg base turns w"
  shows "\<exists>c' l. cachedNonce (fst (ws_run parseHex pu cfg turns w)) = Some c'
              \<and> sentHashes (fst (ws_run parseHex pu cfg turns w)) = sentHashes (fst w) @ l
              \<and> nonce c' = nonce c + int (length l)"
  using assms
proof (induction turns arbitrary: w c)
  case Nil
  then show ?case by (simp add: ws_run_def)
next
  case (Cons turn turns)
  let ?w1 = "ws_step parseHex pu cfg w turn"
  obtain c1 l1 where one: "cachedNonce (fst ?w1) = Some c1"
    "sentHashes (fst ?w1) = sentHashes (fst w) @ l1" "nonce c1 = nonce c + int (length l1)"
    using ws_step_sequence [OF Cons.prems(1,2), of pu cfg "turn" parseHex] Cons.prems(3)
    by (auto split: if_splits)
  have base1: "nonce c1 = base + int (length (sentHashes (fst ?w1)))"
    using one Cons.prems(2) by simp
  have "reportsAgree parseHex pu cfg base turns ?w1"
    using Cons.prems(3) by simp
  then obtain c' l where rest: "cachedNonce (fst (ws_run parseHex pu cfg turns ?w1)) = Some c'"
    "sentHashes (fst (ws_run parseHex pu cfg turns ?w1)) = sentHashes (fst ?w1) @ l"
    "nonce c' = nonce c1 + int (length l)"
    using Cons.IH [OF one(1) base1] by blast
  have "sentHashes (fst (ws_run parseHex pu cfg (turn # turns) w)) = sentHashes (fst w) @ (l1 @ l)
        \<and> nonce c' = nonce c + int (length (l1 @ l))"
    using rest one by (simp add: ws_run_Cons)
  then show ?case
    using rest(1) by (auto simp: ws_run_Cons)
qed

text \<open>
  C2, as the code has it. The event loop starts from a nonce cell holding
  \<open>initialSequence\<close>, with any callbacks suspended. Dispatches, refresh ticks and
  monitor ticks begin and resume in any order, and the cell may expire and be queried
  again any number of times. If every sequence number that the chain client reports
  during the run equals \<open>initialSequence\<close> plus the number of submissions accepted since
  the start, at the turn that receives the report, then after the run the cell holds
  \<open>initialSequence\<close> plus the number of submissions accepted during the run.
\<close>

theorem sequence_advance_agreeing_reports:
  assumes "cachedNonce (fst w) = Some c"
    and "reportsAgree parseHex pu cfg (nonce c - int (length (sentHashes (fst w)))) turns w"
  shows "\<exists>c' new. cachedNonce (fst (ws_run parseHex pu cfg turns w)) = Some c'
              \<and> sentHashes (fst (ws_run parseHex pu cfg turns w)) = sentHashes (fst w) @ new
              \<and> nonce c' = nonce c + int (length new)"
  using ws_run_sequence [OF assms(1) _ assms(2)] by simp

theorem sequence_advance_agreeing_reports_witness:
  "cachedNonce (fst (warmEngine, [] :: suspended list)) = Some \<lparr>nonce = 5, nonceLastUpdated = 0\<rparr>
   \<and> reportsAgree exampleParseInt16 exampleParseUnits exampleConfig 5 agreeingRun (warmEngine, [])
   \<and> cachedNonce (fst (ws_run exampleParseInt16 exampleParseUnits exampleConfig agreeingRun
                          (warmEngine, []))) =
       Some \<lparr>nonce = 7, nonceLastUpdated = 60000\<rparr>
   \<and> sentHashes (fst (ws_run exampleParseInt16 exampleParseUnits exampleConfig agreeingRun
                         (warmEngine, []))) = [''0xaa'', ''0xbb'']
   \<and> rpcLog (fst (ws_run exampleParseInt16 exampleParseUnits exampleConfig agreeingRun
                     (warmEngine, []))) =
       [SendTransaction
          \<lparr>txTo = ''0xrecipient'', txValue = 10, txGasLimit = Fin 21000, txGasPrice = 7,
           txNonce = 5\<rparr> (Some ''0xaa''),
        GetFeeData, GetNonce,
        SendTransaction
          \<lparr>txTo = ''0xrecipient'', txValue = 10, txGasLimit = Fin 21000, txGasPrice = 9,
           txNonce = 6\<rparr> (Some ''0xbb'')]"
proof -
  note defs = event_loop_defs agreeingRun_def warmEngine_def initialEngine_def
    exampleConfig_def okEnv_def laterEnv61_def refreshEnv60six_def exampleFeeData_def
    exampleParseInt16_def block100_def exampleBlock_def block102_def
  have h1: "cachedNonce (fst (warmEngine, [] :: suspended list)) =
              Some \<lparr>nonce = 5, nonceLastUpdated = 0\<rparr>"
    by (simp add: warmEngine_def initialEngine_def)
  have h2: "reportsAgree exampleParseInt16 exampleParseUnits exampleConfig
              (nonce \<lparr>nonce = 5, nonceLastUpdated = 0\<rparr>
                 - int (length (sentHashes (fst (warmEngine, [] :: suspended list)))))
              agreeingRun (warmEngine, [])"
    by (simp add: defs sentHashes_def)
  have e: "rpcLog (fst (ws_run exampleParseInt16 exampleParseUnits exampleConfig agreeingRun
                          (warmEngine, []))) =
       [SendTransaction
          \<lparr>txTo = ''0xrecipient'', txValue = 10, txGasLimit = Fin 21000, txGasPrice = 7,
           txNonce = 5\<rparr> (Some ''0xaa''),
        GetFeeData, GetNonce,
        SendTransaction
          \<lparr>txTo = ''0xrecipient'', txValue = 10, txGasLimit = Fin 21000, txGasPrice = 9,
           txNonce = 6\<rparr> (Some ''0xbb'')]"
    "cachedNonce (fst (ws_run exampleParseInt16 exampleParseUnits exampleConfig agreeingRun
                          (warmEngine, []))) =
       Some \<lparr>nonce = 7, nonceLastUpdated = 60000\<rparr>"
    by (simp_all add: defs)
  have h3: "reportsAgree exampleParseInt16 exampleParseUnits exampleConfig 5 agreeingRun
              (warmEngine, [])"
    by (simp add: defs sentHashes_def)
  show ?thesis
    using sequence_advance_agreeing_reports [OF h1 h2] h1 h3 e
    by (simp add: sentHashes_def)
qed

text \<open>
  C2, as stated, fails. The cell holds sequence 5 since time 0; a dispatch at time 1000
  is accepted and the cell advances to 6. The refresh tick of time 60000 finds the cell
  expired and queries the chain client, which still answers 5: the cell is overwritten
  with 5, one less than \<open>initialSequence\<close> plus the one accepted submission.
\<close>

theorem refresh_rolls_sequence_back:
  "cachedNonce warmEngine = Some \<lparr>nonce = 5, nonceLastUpdated = 0\<rparr>
   \<and> cachedNonce
        (fst (ws_run exampleParseInt16 exampleParseUnits exampleConfig (take 5 staleRun)
                (warmEngine, []))) = Some \<lparr>nonce = 6, nonceLastUpdated = 0\<rparr>
   \<and> sentHashes
        (fst (ws_run exampleParseInt16 exampleParseUnits exampleConfig staleRun
                (warmEngine, []))) = [''0xaa'']
   \<and> cachedNonce
        (fst (ws_run exampleParseInt16 exampleParseUnits exampleConfig staleRun
                (warmEngine, []))) = Some \<lparr>nonce = 5, nonceLastUpdated = 60000\<rparr>"
  by (simp add: sentHashes_def event_loop_defs staleRun_def warmEngine_def initialEngine_def
      exampleConfig_def okEnv_def refreshEnv60_def exampleFeeData_def exampleParseInt16_def
      block100_def exampleBlock_def)

section \<open>Confirmation metrics\<close>


text \<open>
  The one place that records an entry: \<open>processConfirmedTransaction\<close> after its await.
  It leaves the list as it is (the block lookup threw) or appends one entry, built from
  the receipt and from the pending entry the walk held.
\<close>

lemma recordConfirmation_metrics:
  "confirmationMetrics (snd (recordConfirmation cfg env h r info s)) = confirmationMetrics s
   \<or> (\<exists>m. confirmationMetrics (snd (recordConfirmation cfg env h r info s)) =
             confirmationMetrics s @ [m]
          \<and> transactionHash m = h
          \<and> sentBlockNumber m = sentBlock info
          \<and> confirmedBlockNumber m = receiptBlockNumber r
          \<and> blocksToConfirm m = receiptBlockNumber r - sentBlock info)"
  by (simp add: recordConfirmation_def Let_def split: option.splits)

lemma processConfirmedTransaction_metrics:
  "confirmationMetrics (snd (processConfirmedTransaction cfg env h r info s)) = confirmationMetrics s
   \<or> (\<exists>m. confirmationMetrics (snd (processConfirmedTransaction cfg env h r info s)) =
             confirmationMetrics s @ [m]
          \<and> transactionHash m = h
          \<and> sentBlockNumber m = sentBlock info
          \<and> confirmedBlockNumber m = receiptBlockNumber r
          \<and> blocksToConfirm m = receiptBlockNumber r - sentBlock info)"
  using recordConfirmation_metrics
    [of cfg env h r info "s\<lparr>rpcLog := rpcLog s @ [GetBlock (receiptBlockNumber r)]\<rparr>"]
  by (simp add: processConfirmedTransaction_def)









section \<open>Configuration loader: numeric variables\<close>

lemma getEnvVarAsNumber_unparsable:
  "env key = Some v \<Longrightarrow> parseFloat v = NaN \<Longrightarrow>
   getEnvVarAsNumber parseFloat env key d = d"
  by (simp add: getEnvVarAsNumber_def isNaN_def)

lemma getEnvVarAsNumber_cases:
  "getEnvVarAsNumber parseFloat env key d = d
   \<or> (\<exists>v. env key = Some v \<and> v \<noteq> [] \<and> parseFloat v \<noteq> NaN
          \<and> getEnvVarAsNumber parseFloat env key d = parseFloat v)"
  by (simp add: getEnvVarAsNumber_def isNaN_def Let_def split: option.splits)

lemma getEnvVarAsNumber_parsed:
  "env key = Some v \<Longrightarrow> v \<noteq> [] \<Longrightarrow> parseFloat v \<noteq> NaN \<Longrightarrow>
   getEnvVarAsNumber parseFloat env key d = parseFloat v"
  by (simp add: getEnvVarAsNumber_def isNaN_def)

lemma load_Inr:
  "load parseFloat env = Inr config \<Longrightarrow>
   gasLimit config = getEnvVarAsNumber parseFloat env ''GAS_LIMIT'' (Fin 21000)
   \<and> gasPriceGwei config = getEnvVarAsNumber parseFloat env ''GAS_PRICE_GWEI'' (Fin 20)
   \<and> initialBlocksToSkip config =
       getEnvVarAsNumber parseFloat env ''INITIAL_BLOCKS_TO_SKIP'' (Fin 10)
   \<and> transactionCount config = getEnvVarAsNumber parseFloat env ''TRANSACTION_COUNT'' (Fin 5)
   \<and> validateConfig config = Inr ()"
  by (auto simp: load_def Let_def split: sum.splits)

lemma load_Inl:
  assumes "load parseFloat env = Inl e"
  shows "(\<exists>key. e = MissingRequired key)
   \<or> (\<exists>config.
        validateConfig config = Inl e
        \<and> gasLimit config = getEnvVarAsNumber parseFloat env ''GAS_LIMIT'' (Fin 21000)
        \<and> gasPriceGwei config = getEnvVarAsNumber parseFloat env ''GAS_PRICE_GWEI'' (Fin 20)
        \<and> initialBlocksToSkip config =
            getEnvVarAsNumber parseFloat env ''INITIAL_BLOCKS_TO_SKIP'' (Fin 10)
        \<and> transactionCount config =
            getEnvVarAsNumber parseFloat env ''TRANSACTION_COUNT'' (Fin 5))"
proof (cases "\<exists>key. e = MissingRequired key")
  case True
  then show ?thesis by simp
next
  case False
  then obtain ws http pk rcpt where
    "validateConfig
       \<lparr>websocketUrl = ws, httpRpcUrl = http, privateKey = pk, recipientAddress = rcpt,
        gasLimit = getEnvVarAsNumber parseFloat env ''GAS_LIMIT'' (Fin 21000),
        gasPriceGwei = getEnvVarAsNumber parseFloat env ''GAS_PRICE_GWEI'' (Fin 20),
        initialBlocksToSkip = getEnvVarAsNumber parseFloat env ''INITIAL_BLOCKS_TO_SKIP'' (Fin 10),
        transactionCount = getEnvVarAsNumber parseFloat env ''TRANSACTION_COUNT'' (Fin 5)\<rparr>
     = Inl e"
    using assms
    by (auto simp: load_def Let_def getRequiredEnvVar_def
        split: sum.splits option.splits if_splits)
  then show ?thesis
    by (intro disjI2 exI conjI) (assumption, simp_all)
qed

lemma validateConfig_Inl:
  "validateConfig config = Inl BadGasLimit \<Longrightarrow> jsLessEq (gasLimit config) (Fin 0)"
  "validateConfig config = Inl (BadGasPriceGwei x) \<Longrightarrow>
     gasPriceGwei config = x \<and> jsLessEq x (Fin 0)"
  "validateConfig config = Inl BadInitialBlocksToSkip \<Longrightarrow>
     jsLess (initialBlocksToSkip config) (Fin 0)"
  "validateConfig config = Inl BadTransactionCount \<Longrightarrow>
     jsLessEq (transactionCount config) (Fin 0) \<or> jsLess (Fin 10) (transactionCount config)"
  by (simp_all add: validateConfig_def split: if_splits)

lemma validateConfig_Inr:
  "validateConfig config = Inr u \<Longrightarrow>
   \<not> jsLessEq (gasLimit config) (Fin 0) \<and> \<not> jsLessEq (gasPriceGwei config) (Fin 0)
   \<and> \<not> jsLess (initialBlocksToSkip config) (Fin 0)
   \<and> \<not> jsLessEq (transactionCount config) (Fin 0) \<and> \<not> jsLess (Fin 10) (transactionCount config)"
  by (simp add: validateConfig_def split: if_splits)

lemma parsed_violation_throws:
  assumes "env key = Some v" "v \<noteq> []" "parseFloat v \<noteq> NaN"
  shows "key = ''GAS_LIMIT'' \<Longrightarrow> jsLessEq (parseFloat v) (Fin 0) \<Longrightarrow> isl (load parseFloat env)"
    and "key = ''GAS_PRICE_GWEI'' \<Longrightarrow> jsLessEq (parseFloat v) (Fin 0) \<Longrightarrow> isl (load parseFloat env)"
    and "key = ''INITIAL_BLOCKS_TO_SKIP'' \<Longrightarrow> jsLess (parseFloat v) (Fin 0) \<Longrightarrow>
           isl (load parseFloat env)"
    and "key = ''TRANSACTION_COUNT'' \<Longrightarrow>
           jsLessEq (parseFloat v) (Fin 0) \<or> jsLess (Fin 10) (parseFloat v) \<Longrightarrow>
           isl (load parseFloat env)"
proof -
  have parsed: "getEnvVarAsNumber parseFloat env key d = parseFloat v" for d
    using assms by (rule getEnvVarAsNumber_parsed)
  have ok: "gasLimit config = getEnvVarAsNumber parseFloat env ''GAS_LIMIT'' (Fin 21000)
      \<and> gasPriceGwei config = getEnvVarAsNumber parseFloat env ''GAS_PRICE_GWEI'' (Fin 20)
      \<and> initialBlocksToSkip config =
          getEnvVarAsNumber parseFloat env ''INITIAL_BLOCKS_TO_SKIP'' (Fin 10)
      \<and> transactionCount config = getEnvVarAsNumber parseFloat env ''TRANSACTION_COUNT'' (Fin 5)
      \<and> \<not> jsLessEq (gasLimit config) (Fin 0) \<and> \<not> jsLessEq (gasPriceGwei config) (Fin 0)
      \<and> \<not> jsLess (initialBlocksToSkip config) (Fin 0)
      \<and> \<not> jsLessEq (transactionCount config) (Fin 0)
      \<and> \<not> jsLess (Fin 10) (transactionCount config)"
    if "load parseFloat env = Inr config" for config
    using load_Inr [OF that] validateConfig_Inr [of config "()"] by simp
  show "key = ''GAS_LIMIT'' \<Longrightarrow> jsLessEq (parseFloat v) (Fin 0) \<Longrightarrow> isl (load parseFloat env)"
    using ok parsed by (cases "load parseFloat env") auto
  show "key = ''GAS_PRICE_GWEI'' \<Longrightarrow> jsLessEq (parseFloat v) (Fin 0) \<Longrightarrow> isl (load parseFloat env)"
    using ok parsed by (cases "load parseFloat env") auto
  show "key = ''INITIAL_BLOCKS_TO_SKIP'' \<Longrightarrow> jsLess (parseFloat v) (Fin 0) \<Longrightarrow>
          isl (load parseFloat env)"
    using ok parsed by (cases "load parseFloat env") auto
  show "key = ''TRANSACTION_COUNT'' \<Longrightarrow>
          jsLessEq (parseFloat v) (Fin 0) \<or> jsLess (Fin 10) (parseFloat v) \<Longrightarrow>
          isl (load parseFloat env)"
    using ok parsed by (cases "load parseFloat env") auto
qed

lemma numeric_error_parsed:
  assumes "load parseFloat env = Inl e"
  shows "e = BadGasLimit \<Longrightarrow>
           \<exists>v. env ''GAS_LIMIT'' = Some v \<and> v \<noteq> [] \<and> parseFloat v \<noteq> NaN
              \<and> jsLessEq (parseFloat v) (Fin 0)"
    and "e = BadGasPriceGwei x \<Longrightarrow>
           \<exists>v. env ''GAS_PRICE_GWEI'' = Some v \<and> v \<noteq> [] \<and> parseFloat v \<noteq> NaN
              \<and> parseFloat v = x \<and> jsLessEq x (Fin 0)"
    and "e = BadInitialBlocksToSkip \<Longrightarrow>
           \<exists>v. env ''INITIAL_BLOCKS_TO_SKIP'' = Some v \<and> v \<noteq> [] \<and> parseFloat v \<noteq> NaN
              \<and> jsLess (parseFloat v) (Fin 0)"
    and "e = BadTransactionCount \<Longrightarrow>
           \<exists>v. env ''TRANSACTION_COUNT'' = Some v \<and> v \<noteq> [] \<and> parseFloat v \<noteq> NaN
              \<and> (jsLessEq (parseFloat v) (Fin 0) \<or> jsLess (Fin 10) (parseFloat v))"
proof -
  have config: "\<exists>config.
          validateConfig config = Inl e
          \<and> gasLimit config = getEnvVarAsNumber parseFloat env ''GAS_LIMIT'' (Fin 21000)
          \<and> gasPriceGwei config = getEnvVarAsNumber parseFloat env ''GAS_PRICE_GWEI'' (Fin 20)
          \<and> initialBlocksToSkip config =
              getEnvVarAsNumber parseFloat env ''INITIAL_BLOCKS_TO_SKIP'' (Fin 10)
          \<and> transactionCount config =
              getEnvVarAsNumber parseFloat env ''TRANSACTION_COUNT'' (Fin 5)"
    if "\<forall>key. e \<noteq> MissingRequired key"
    using load_Inl [OF assms] that by blast
  show "e = BadGasLimit \<Longrightarrow>
           \<exists>v. env ''GAS_LIMIT'' = Some v \<and> v \<noteq> [] \<and> parseFloat v \<noteq> NaN
              \<and> jsLessEq (parseFloat v) (Fin 0)"
  proof -
    assume e: "e = BadGasLimit"
    then obtain config where
      c: "gasLimit config = getEnvVarAsNumber parseFloat env ''GAS_LIMIT'' (Fin 21000)"
      "validateConfig config = Inl BadGasLimit"
      using config by auto
    have "jsLessEq (getEnvVarAsNumber parseFloat env ''GAS_LIMIT'' (Fin 21000)) (Fin 0)"
      using validateConfig_Inl(1) [OF c(2)] c(1) by simp
    then show ?thesis
      using getEnvVarAsNumber_cases [of parseFloat env "''GAS_LIMIT''" "Fin 21000"] by auto
  qed
  show "e = BadGasPriceGwei x \<Longrightarrow>
           \<exists>v. env ''GAS_PRICE_GWEI'' = Some v \<and> v \<noteq> [] \<and> parseFloat v \<noteq> NaN
              \<and> parseFloat v = x \<and> jsLessEq x (Fin 0)"
  proof -
    assume e: "e = BadGasPriceGwei x"
    then obtain config where
      c: "gasPriceGwei config = getEnvVarAsNumber parseFloat env ''GAS_PRICE_GWEI'' (Fin 20)"
      "validateConfig config = Inl (BadGasPriceGwei x)"
      using config by auto
    have "getEnvVarAsNumber parseFloat env ''GAS_PRICE_GWEI'' (Fin 20) = x \<and> jsLessEq x (Fin 0)"
      using validateConfig_Inl(2) [OF c(2)] c(1) by simp
    then show ?thesis
      using getEnvVarAsNumber_cases [of parseFloat env "''GAS_PRICE_GWEI''" "Fin 20"] by auto
  qed
  show "e = BadInitialBlocksToSkip \<Longrightarrow>
           \<exists>v. env ''INITIAL_BLOCKS_TO_SKIP'' = Some v \<and> v \<noteq> [] \<and> parseFloat v \<noteq> NaN
              \<and> jsLess (parseFloat v) (Fin 0)"
  proof -
    assume e: "e = BadInitialBlocksToSkip"
    then obtain config where
      c: "initialBlocksToSkip config =
            getEnvVarAsNumber parseFloat env ''INITIAL_BLOCKS_TO_SKIP'' (Fin 10)"
      "validateConfig config = Inl BadInitialBlocksToSkip"
      using config by auto
    have "jsLess (getEnvVarAsNumber parseFloat env ''INITIAL_BLOCKS_TO_SKIP'' (Fin 10)) (Fin 0)"
      using validateConfig_Inl(3) [OF c(2)] c(1) by simp
    then show ?thesis
      using getEnvVarAsNumber_cases [of parseFloat env "''INITIAL_BLOCKS_TO_SKIP''" "Fin 10"]
      by auto
  qed
  show "e = BadTransactionCount \<Longrightarrow>
           \<exists>v. env ''TRANSACTION_COUNT'' = Some v \<and> v \<noteq> [] \<and> parseFloat v \<noteq> NaN
              \<and> (jsLessEq (parseFloat v) (Fin 0) \<or> jsLess (Fin 10) (parseFloat v))"
  proof -
    assume e: "e = BadTransactionCount"
    then obtain config where
      c: "transactionCount config = getEnvVarAsNumber parseFloat env ''TRANSACTION_COUNT'' (Fin 5)"
      "validateConfig config = Inl BadTransactionCount"
      using config by auto
    have "jsLessEq (getEnvVarAsNumber parseFloat env ''TRANSACTION_COUNT'' (Fin 5)) (Fin 0)
          \<or> jsLess (Fin 10) (getEnvVarAsNumber parseFloat env ''TRANSACTION_COUNT'' (Fin 5))"
      using validateConfig_Inl(4) [OF c(2)] c(1) by simp
    then show ?thesis
      using getEnvVarAsNumber_cases [of parseFloat env "''TRANSACTION_COUNT''" "Fin 5"] by auto
  qed
qed

text \<open>
  C9. A numeric variable whose value \<open>parseFloat\<close> turns into not-a-number takes its
  default: \<open>getEnvVarAsNumber\<close> returns the default, and a configuration that loads has
  21000, 20, 10 and 5 in the fields whose variables do not parse. Loading throws one of
  the four numeric errors only when the variable concerned is set, is not empty, parses
  to a number and that number violates the range check; and a variable that parses to a
  number violating its range check makes loading throw.
\<close>

theorem numeric_config_fallback:
  "(env key = Some v \<longrightarrow> parseFloat v = NaN \<longrightarrow> getEnvVarAsNumber parseFloat env key d = d)
   \<and> (load parseFloat env = Inr config \<longrightarrow>
        (env ''GAS_LIMIT'' = Some gl \<longrightarrow> parseFloat gl = NaN \<longrightarrow> gasLimit config = Fin 21000)
      \<and> (env ''GAS_PRICE_GWEI'' = Some gp \<longrightarrow> parseFloat gp = NaN \<longrightarrow>
           gasPriceGwei config = Fin 20)
      \<and> (env ''INITIAL_BLOCKS_TO_SKIP'' = Some sk \<longrightarrow> parseFloat sk = NaN \<longrightarrow>
           initialBlocksToSkip config = Fin 10)
      \<and> (env ''TRANSACTION_COUNT'' = Some tc \<longrightarrow> parseFloat tc = NaN \<longrightarrow>
           transactionCount config = Fin 5))
   \<and> (load parseFloat env = Inl BadGasLimit \<longrightarrow>
        (\<exists>w. env ''GAS_LIMIT'' = Some w \<and> w \<noteq> [] \<and> parseFloat w \<noteq> NaN
            \<and> jsLessEq (parseFloat w) (Fin 0)))
   \<and> (load parseFloat env = Inl (BadGasPriceGwei x) \<longrightarrow>
        (\<exists>w. env ''GAS_PRICE_GWEI'' = Some w \<and> w \<noteq> [] \<and> parseFloat w \<noteq> NaN
            \<and> parseFloat w = x \<and> jsLessEq x (Fin 0)))
   \<and> (load parseFloat env = Inl BadInitialBlocksToSkip \<longrightarrow>
        (\<exists>w. env ''INITIAL_BLOCKS_TO_SKIP'' = Some w \<and> w \<noteq> [] \<and> parseFloat w \<noteq> NaN
            \<and> jsLess (parseFloat w) (Fin 0)))
   \<and> (load parseFloat env = Inl BadTransactionCount \<longrightarrow>
        (\<exists>w. env ''TRANSACTION_COUNT'' = Some w \<and> w \<noteq> [] \<and> parseFloat w \<noteq> NaN
            \<and> (jsLessEq (parseFloat w) (Fin 0) \<or> jsLess (Fin 10) (parseFloat w))))
   \<and> (env ''GAS_LIMIT'' = Some gl \<longrightarrow> gl \<noteq> [] \<longrightarrow> parseFloat gl \<noteq> NaN \<longrightarrow>
        jsLessEq (parseFloat gl) (Fin 0) \<longrightarrow> isl (load parseFloat env))
   \<and> (env ''GAS_PRICE_GWEI'' = Some gp \<longrightarrow> gp \<noteq> [] \<longrightarrow> parseFloat gp \<noteq> NaN \<longrightarrow>
        jsLessEq (parseFloat gp) (Fin 0) \<longrightarrow> isl (load parseFloat env))
   \<and> (env ''INITIAL_BLOCKS_TO_SKIP'' = Some sk \<longrightarrow> sk \<noteq> [] \<longrightarrow> parseFloat sk \<noteq> NaN \<longrightarrow>
        jsLess (parseFloat sk) (Fin 0) \<longrightarrow> isl (load parseFloat env))
   \<and> (env ''TRANSACTION_COUNT'' = Some tc \<longrightarrow> tc \<noteq> [] \<longrightarrow> parseFloat tc \<noteq> NaN \<longrightarrow>
        jsLessEq (parseFloat tc) (Fin 0) \<or> jsLess (Fin 10) (parseFloat tc) \<longrightarrow>
        isl (load parseFloat env))"
proof (intro conjI impI)
  show "getEnvVarAsNumber parseFloat env key d = d"
    if "env key = Some v" "parseFloat v = NaN"
    using that by (simp add: getEnvVarAsNumber_unparsable)
next
  assume l: "load parseFloat env = Inr config"
  show "gasLimit config = Fin 21000" if "env ''GAS_LIMIT'' = Some gl" "parseFloat gl = NaN"
    using load_Inr [OF l]
      getEnvVarAsNumber_unparsable [of env "''GAS_LIMIT''" _ parseFloat "Fin 21000"] that by simp
  show "gasPriceGwei config = Fin 20" if "env ''GAS_PRICE_GWEI'' = Some gp" "parseFloat gp = NaN"
    using load_Inr [OF l]
      getEnvVarAsNumber_unparsable [of env "''GAS_PRICE_GWEI''" _ parseFloat "Fin 20"] that by simp
  show "initialBlocksToSkip config = Fin 10"
    if "env ''INITIAL_BLOCKS_TO_SKIP'' = Some sk" "parseFloat sk = NaN"
    using load_Inr [OF l]
      getEnvVarAsNumber_unparsable [of env "''INITIAL_BLOCKS_TO_SKIP''" _ parseFloat "Fin 10"] that by simp
  show "transactionCount config = Fin 5"
    if "env ''TRANSACTION_COUNT'' = Some tc" "parseFloat tc = NaN"
    using load_Inr [OF l]
      getEnvVarAsNumber_unparsable [of env "''TRANSACTION_COUNT''" _ parseFloat "Fin 5"] that by simp
next
  assume "load parseFloat env = Inl BadGasLimit"
  then show "\<exists>w. env ''GAS_LIMIT'' = Some w \<and> w \<noteq> [] \<and> parseFloat w \<noteq> NaN
            \<and> jsLessEq (parseFloat w) (Fin 0)"
    by (rule numeric_error_parsed(1)) simp
next
  assume "load parseFloat env = Inl (BadGasPriceGwei x)"
  then show "\<exists>w. env ''GAS_PRICE_GWEI'' = Some w \<and> w \<noteq> [] \<and> parseFloat w \<noteq> NaN
            \<and> parseFloat w = x \<and> jsLessEq x (Fin 0)"
    by (rule numeric_error_parsed(2)) simp
next
  assume "load parseFloat env = Inl BadInitialBlocksToSkip"
  then show "\<exists>w. env ''INITIAL_BLOCKS_TO_SKIP'' = Some w \<and> w \<noteq> [] \<and> parseFloat w \<noteq> NaN
            \<and> jsLess (parseFloat w) (Fin 0)"
    by (rule numeric_error_parsed(3)) simp
next
  assume "load parseFloat env = Inl BadTransactionCount"
  then show "\<exists>w. env ''TRANSACTION_COUNT'' = Some w \<and> w \<noteq> [] \<and> parseFloat w \<noteq> NaN
            \<and> (jsLessEq (parseFloat w) (Fin 0) \<or> jsLess (Fin 10) (parseFloat w))"
    by (rule numeric_error_parsed(4)) simp
next
  show "isl (load parseFloat env)"
    if "env ''GAS_LIMIT'' = Some gl" "gl \<noteq> []" "parseFloat gl \<noteq> NaN"
      "jsLessEq (parseFloat gl) (Fin 0)"
    using parsed_violation_throws(1) [of env "''GAS_LIMIT''" gl parseFloat] that by simp
  show "isl (load parseFloat env)"
    if "env ''GAS_PRICE_GWEI'' = Some gp" "gp \<noteq> []" "parseFloat gp \<noteq> NaN"
      "jsLessEq (parseFloat gp) (Fin 0)"
    using parsed_violation_throws(2) [of env "''GAS_PRICE_GWEI''" gp parseFloat] that by simp
  show "isl (load parseFloat env)"
    if "env ''INITIAL_BLOCKS_TO_SKIP'' = Some sk" "sk \<noteq> []" "parseFloat sk \<noteq> NaN"
      "jsLess (parseFloat sk) (Fin 0)"
    using parsed_violation_throws(3) [of env "''INITIAL_BLOCKS_TO_SKIP''" sk parseFloat] that by simp
  show "isl (load parseFloat env)"
    if "env ''TRANSACTION_COUNT'' = Some tc" "tc \<noteq> []" "parseFloat tc \<noteq> NaN"
      "jsLessEq (parseFloat tc) (Fin 0) \<or> jsLess (Fin 10) (parseFloat tc)"
    using parsed_violation_throws(4) [of env "''TRANSACTION_COUNT''" tc parseFloat] that by simp
qed

theorem numeric_config_fallback_witness:
  "load exampleParseFloat (numericEnv ''abc'' ''cheap'' ''none'' ''many'') =
     Inr \<lparr>websocketUrl = ''wss://node'', httpRpcUrl = ''https://node'',
          privateKey = ''0x'' @ replicate 64 CHR ''1'',
          recipientAddress = ''0x'' @ replicate 40 CHR ''2'',
          gasLimit = Fin 21000, gasPriceGwei = Fin 20, initialBlocksToSkip = Fin 10,
          transactionCount = Fin 5\<rparr>
   \<and> load exampleParseFloat (numericEnv ''0'' ''x'' ''x'' ''x'') = Inl BadGasLimit
   \<and> load exampleParseFloat (numericEnv ''x'' ''0'' ''x'' ''x'') = Inl (BadGasPriceGwei (Fin 0))
   \<and> load exampleParseFloat (numericEnv ''x'' ''x'' ''-1'' ''x'') = Inl BadInitialBlocksToSkip
   \<and> load exampleParseFloat (numericEnv ''x'' ''x'' ''x'' ''11'') = Inl BadTransactionCount"
proof -
  have e: "load exampleParseFloat (numericEnv ''abc'' ''cheap'' ''none'' ''many'') =
     Inr \<lparr>websocketUrl = ''wss://node'', httpRpcUrl = ''https://node'',
          privateKey = ''0x'' @ replicate 64 CHR ''1'',
          recipientAddress = ''0x'' @ replicate 40 CHR ''2'',
          gasLimit = Fin 21000, gasPriceGwei = Fin 20, initialBlocksToSkip = Fin 10,
          transactionCount = Fin 5\<rparr>"
    "load exampleParseFloat (numericEnv ''0'' ''x'' ''x'' ''x'') = Inl BadGasLimit"
    "load exampleParseFloat (numericEnv ''x'' ''0'' ''x'' ''x'') = Inl (BadGasPriceGwei (Fin 0))"
    "load exampleParseFloat (numericEnv ''x'' ''x'' ''-1'' ''x'') = Inl BadInitialBlocksToSkip"
    "load exampleParseFloat (numericEnv ''x'' ''x'' ''x'' ''11'') = Inl BadTransactionCount"
    by (simp_all add: load_def getRequiredEnvVar_def getEnvVarAsNumber_def validateConfig_def
        numericEnv_def exampleParseFloat_def isNaN_def Let_def)
  show ?thesis
    using numeric_config_fallback [where parseFloat = exampleParseFloat
        and env = "numericEnv ''abc'' ''cheap'' ''none'' ''many''" and key = "''GAS_LIMIT''"
        and v = "''abc''" and d = "Fin 21000" and gl = "''abc''" and gp = "''cheap''"
        and sk = "''none''" and tc = "''many''"]
      numeric_config_fallback [where parseFloat = exampleParseFloat
        and env = "numericEnv ''0'' ''x'' ''x'' ''x''" and gl = "''0''"]
      numeric_config_fallback [where parseFloat = exampleParseFloat
        and env = "numericEnv ''x'' ''0'' ''x'' ''x''" and gp = "''0''" and x = "Fin 0"]
      numeric_config_fallback [where parseFloat = exampleParseFloat
        and env = "numericEnv ''x'' ''x'' ''-1'' ''x''" and sk = "''-1''"]
      numeric_config_fallback [where parseFloat = exampleParseFloat
        and env = "numericEnv ''x'' ''x'' ''x'' ''11''" and tc = "''11''"]
    by (simp only: e)
qed

end
